(* ===== verification/Prelude.thy ===== *)
theory Prelude
  imports Complex_Main "HOL-Library.Word" "HOL-Library.AList"
begin

text \<open>
  Shared vocabulary of the development. The C++ header
  \<^verbatim>\<open>src/phy_80211_components.h\<close> declares its records as Kismet
  \<^verbatim>\<open>tracker_component\<close> subclasses whose fields are shared pointers to typed
  tracker elements. This theory fixes how those element types are read in HOL:
  \<^item> fixed-width integers (\<^verbatim>\<open>tracker_element_uint8\<close> \<dots> \<^verbatim>\<open>uint64\<close>)
    are words, so that \<open>+\<close> wraps as the C++ \<^verbatim>\<open>+=\<close> does;
  \<^item> strings and byte arrays are \<open>string\<close>, doubles are \<open>real\<close>;
  \<^item> the keyed maps (\<^verbatim>\<open>tracker_element_mac_map\<close>,
    \<^verbatim>\<open>tracker_element_hashkey_map\<close>, \<^verbatim>\<open>tracker_element_int_map\<close>) are
    association lists with distinct keys (\<open>tracker_map\<close>), whose
    \<^verbatim>\<open>size()\<close> is the length of the list;
  \<^item> a field registered with \<^verbatim>\<open>register_dynamic_field\<close> is a value of
    \<open>'a option\<close>: \<open>None\<close> is the null shared pointer of a field that was never
    materialised;
  \<^item> a captured packet is its raw bytes; the other collaborators of other
    Kismet headers (locations, IP data) are declared types with no operations.
  The generic semantics of the proxy macros of \<^verbatim>\<open>trackedcomponent.h\<close>
  (lazy materialisation of a dynamic field, OR-merge of a bitset) is written here once
  and used by every component.
\<close>

unbundle bit_operations_syntax

type_synonym u8 = "8 word"
type_synonym u16 = "16 word"
type_synonym u32 = "32 word"
type_synonym u64 = "64 word"
type_synonym i16 = "16 word"
type_synonym i32 = "32 word"
type_synonym mac_addr = "48 word"
type_synonym double = real
type_synonym byte_array = string
type_synonym time_t = "64 word"

text \<open>A Kismet \<^verbatim>\<open>device_key\<close> is a pair of the phy key and the device key.\<close>

type_synonym device_key = "u64 \<times> u64"

text \<open>A captured frame (\<^verbatim>\<open>kis_tracked_packet\<close>, declared outside this
  header) is kept as its raw bytes; a freshly created one holds none.\<close>

record kis_tracked_packet =
  packet_data :: byte_array

definition kis_tracked_packet_new :: kis_tracked_packet where
  "kis_tracked_packet_new = \<lparr>packet_data = []\<rparr>"

typedecl kis_tracked_location
typedecl kis_tracked_ip_data

text \<open>Every record of the header derives from \<^verbatim>\<open>tracker_component\<close>, which
  carries the element's field id; the records below extend this one, as the C++
  classes extend the base class. A default-constructed base carries the id
  \<open>tracker_component_default_id\<close>.\<close>

record tracker_component =
  tracker_id :: int

definition tracker_component_default_id :: int where
  "tracker_component_default_id = -1"

named_theorems tracker_simps "characteristic equations of the tracker operations"

subsection \<open>Keyed maps\<close>

type_synonym ('k, 'v) tracker_map = "('k \<times> 'v) list"

definition tmap_wf :: "('k, 'v) tracker_map \<Rightarrow> bool" where
  "tmap_wf m \<longleftrightarrow> distinct (map fst m)"

definition tmap_lookup :: "('k, 'v) tracker_map \<Rightarrow> 'k \<Rightarrow> 'v option" where
  "tmap_lookup m k = map_of m k"

definition tmap_insert :: "'k \<Rightarrow> 'v \<Rightarrow> ('k, 'v) tracker_map \<Rightarrow> ('k, 'v) tracker_map" where
  "tmap_insert k v m = AList.update k v m"

definition tmap_erase :: "'k \<Rightarrow> ('k, 'v) tracker_map \<Rightarrow> ('k, 'v) tracker_map" where
  "tmap_erase k m = AList.delete k m"

definition tmap_keys :: "('k, 'v) tracker_map \<Rightarrow> 'k set" where
  "tmap_keys m = fst ` set m"

text \<open>Get-or-create followed by an update of the record found: the record under
  the key, or a fresh \<open>dflt\<close> when there is none, is passed to \<open>f\<close> and stored
  back under the key.\<close>

definition tmap_upsert ::
  "'v \<Rightarrow> 'k \<Rightarrow> ('v \<Rightarrow> 'v) \<Rightarrow> ('k, 'v) tracker_map \<Rightarrow> ('k, 'v) tracker_map" where
  "tmap_upsert dflt k f m =
     tmap_insert k (f (case tmap_lookup m k of Some v \<Rightarrow> v | None \<Rightarrow> dflt)) m"

text \<open>\<^verbatim>\<open>size()\<close> of a map that may not have been materialised: the absent map
  counts as empty, as \<^verbatim>\<open>pre_serialize\<close> treats it.\<close>

definition opt_keys :: "('k, 'v) tracker_map option \<Rightarrow> 'k set" where
  "opt_keys m = (case m of None \<Rightarrow> {} | Some xs \<Rightarrow> tmap_keys xs)"

definition opt_lookup :: "('k, 'v) tracker_map option \<Rightarrow> 'k \<Rightarrow> 'v option" where
  "opt_lookup m k = (case m of None \<Rightarrow> None | Some xs \<Rightarrow> tmap_lookup xs k)"

definition opt_size :: "('k, 'v) tracker_map option \<Rightarrow> nat" where
  "opt_size m = (case m of None \<Rightarrow> 0 | Some xs \<Rightarrow> length xs)"

subsection \<open>Dynamic fields\<close>

text \<open>The getter of a dynamic field materialises it with its default value when it
  is absent; the value read is the materialised one.\<close>

definition materialize :: "'a \<Rightarrow> 'a option \<Rightarrow> 'a" where
  "materialize d f = (case f of None \<Rightarrow> d | Some v \<Rightarrow> v)"

subsection \<open>Bitsets\<close>

text \<open>\<^verbatim>\<open>__ProxyBitset\<close>: \<^verbatim>\<open>bitset_\<close> ORs bits in, \<^verbatim>\<open>bitcheck_\<close> masks.\<close>

definition bitset_or :: "'a::len word \<Rightarrow> 'a word \<Rightarrow> 'a word" where
  "bitset_or v b = v OR b"

definition bitcheck :: "'a::len word \<Rightarrow> 'a word \<Rightarrow> 'a word" where
  "bitcheck v b = v AND b"

subsection \<open>Lemmas on maps\<close>

lemma tmap_wf_Nil [simp, intro]: "tmap_wf []"
  by (simp add: tmap_wf_def)

lemma tmap_Nil_simps [simp]: "tmap_keys [] = {}" "tmap_lookup [] k = None"
  by (simp_all add: tmap_keys_def tmap_lookup_def)

lemma tmap_wf_insert [intro]: "tmap_wf m \<Longrightarrow> tmap_wf (tmap_insert k v m)"
  by (simp add: tmap_wf_def tmap_insert_def distinct_update)

lemma tmap_wf_erase [intro]: "tmap_wf m \<Longrightarrow> tmap_wf (tmap_erase k m)"
  by (simp add: tmap_wf_def tmap_erase_def distinct_delete)

lemma tmap_lookup_insert [simp]:
  "tmap_lookup (tmap_insert k v m) k' = (if k' = k then Some v else tmap_lookup m k')"
  by (simp add: tmap_lookup_def tmap_insert_def update_conv')

lemma tmap_lookup_erase [simp]:
  "tmap_lookup (tmap_erase k m) k' = (if k' = k then None else tmap_lookup m k')"
  by (simp add: tmap_lookup_def tmap_erase_def delete_conv')

lemma tmap_keys_insert [simp]: "tmap_keys (tmap_insert k v m) = insert k (tmap_keys m)"
  by (simp add: tmap_keys_def tmap_insert_def dom_update)

lemma tmap_keys_erase [simp]:
  "tmap_wf m \<Longrightarrow> tmap_keys (tmap_erase k m) = tmap_keys m - {k}"
proof -
  have "fst ` set (AList.delete k m) = set (map fst (AList.delete k m))" by simp
  also have "\<dots> = set (map fst m) - {k}" by (simp add: delete_keys)
  finally show ?thesis by (simp add: tmap_keys_def tmap_erase_def)
qed

lemma tmap_keys_lookup: "k \<in> tmap_keys m \<longleftrightarrow> tmap_lookup m k \<noteq> None"
  by (simp add: tmap_keys_def tmap_lookup_def map_of_eq_None_iff)

lemma tmap_card_keys: "tmap_wf m \<Longrightarrow> card (tmap_keys m) = length m"
  by (metis distinct_card length_map list.set_map tmap_keys_def tmap_wf_def)

lemma length_tmap_insert_new:
  "tmap_lookup m k = None \<Longrightarrow> length (tmap_insert k v m) = Suc (length m)"
proof (induction m)
  case Nil
  then show ?case by (simp add: tmap_insert_def)
next
  case (Cons p m)
  then show ?case
    by (cases p) (auto simp: tmap_insert_def tmap_lookup_def split: if_splits)
qed

lemma length_tmap_insert_old:
  "tmap_lookup m k \<noteq> None \<Longrightarrow> length (tmap_insert k v m) = length m"
proof (induction m)
  case Nil
  then show ?case by (simp add: tmap_lookup_def)
next
  case (Cons p m)
  then show ?case
    by (cases p) (auto simp: tmap_insert_def tmap_lookup_def split: if_splits)
qed

lemma tmap_wf_upsert [intro]: "tmap_wf m \<Longrightarrow> tmap_wf (tmap_upsert dflt k f m)"
  by (simp add: tmap_upsert_def tmap_wf_insert)

lemma tmap_lookup_upsert [simp]:
  "tmap_lookup (tmap_upsert dflt k f m) k' =
     (if k' = k then Some (f (case tmap_lookup m k of Some v \<Rightarrow> v | None \<Rightarrow> dflt))
      else tmap_lookup m k')"
  by (simp add: tmap_upsert_def)

lemma tmap_keys_upsert [simp]: "tmap_keys (tmap_upsert dflt k f m) = insert k (tmap_keys m)"
  by (simp add: tmap_upsert_def)

lemma length_tmap_upsert:
  "length (tmap_upsert dflt k f m) = (if k \<in> tmap_keys m then length m else Suc (length m))"
  by (simp add: tmap_upsert_def tmap_keys_lookup length_tmap_insert_new length_tmap_insert_old)

subsection \<open>Lemmas on dynamic fields\<close>

lemma materialize_simps [simp]:
  "materialize d None = d" "materialize d (Some v) = v"
  by (simp_all add: materialize_def)

lemma opt_keys_simps [simp]:
  "opt_keys None = {}" "opt_keys (Some xs) = tmap_keys xs"
  by (simp_all add: opt_keys_def)

lemma opt_lookup_simps [simp]:
  "opt_lookup None k = None" "opt_lookup (Some xs) k = tmap_lookup xs k"
  by (simp_all add: opt_lookup_def)

lemma opt_size_simps [simp]:
  "opt_size None = 0" "opt_size (Some xs) = length xs"
  by (simp_all add: opt_size_def)

subsection \<open>Lemmas on words\<close>

lemma unat_add_wrap: "unat ((a::'a::len word) + b) = (unat a + unat b) mod 2 ^ LENGTH('a)"
  by (simp add: unat_word_ariths)

lemma unat_add_exact:
  "unat (a::'a::len word) + unat b < 2 ^ LENGTH('a) \<Longrightarrow> unat (a + b) = unat a + unat b"
  by (simp add: unat_word_ariths)

lemma unat_of_nat_exact:
  "n < 2 ^ LENGTH('a) \<Longrightarrow> unat (of_nat n :: 'a::len word) = n"
  by (simp add: unat_of_nat)

lemma bit_bitset_or [simp]: "bit (bitset_or v b) i \<longleftrightarrow> bit v i \<or> bit b i"
  by (simp add: bitset_or_def bit_or_iff)

lemma bit_bitcheck [simp]: "bit (bitcheck v b) i \<longleftrightarrow> bit v i \<and> bit b i"
  by (simp add: bitcheck_def bit_and_iff)

lemma bitset_or_idem [simp]: "bitset_or (bitset_or v b) b = bitset_or v b"
  by (simp add: bitset_or_def or.assoc)

lemmas tracker_map_lemmas = tmap_lookup_insert tmap_lookup_erase tmap_keys_insert
  length_tmap_insert_new length_tmap_insert_old tmap_card_keys

end
