(* ===== verification/Ssid.thy ===== *)
theory Ssid
  imports Prelude
begin

text \<open>
  The SSID identity records of \<^verbatim>\<open>src/phy_80211_components.h\<close> and their
  parts: \<^verbatim>\<open>dot11_11d_tracked_range_info\<close> (lines 286--340),
  \<^verbatim>\<open>dot11_tracked_ietag\<close> (342--401), \<^verbatim>\<open>dot11_probed_ssid\<close> (403--536) and
  \<^verbatim>\<open>dot11_advertised_ssid\<close> (544--831). A static field is a plain record field;
  a field registered as dynamic (WPS strings, OWE values, 802.11d country and range
  list, location, IE tag list and content) is an option, absent until observed.
  Each record has its id-taking constructor and its cloning constructor as written in
  the header. The lemmas show what cloning keeps and what it loses: the dynamic fields
  of the SSID records, the \<^verbatim>\<open>maxrate\<close> of an advertised SSID, and the
  \<^verbatim>\<open>tag_oui_manuf\<close> and element id of an IE tag.
\<close>

subsection \<open>802.11d range\<close>

record dot11_11d_tracked_range_info = tracker_component +
  startchan :: u32
  numchan :: u32
  txpower :: i32

definition dot11_11d_tracked_range_info_new :: "int \<Rightarrow> dot11_11d_tracked_range_info" where
  "dot11_11d_tracked_range_info_new in_id =
     \<lparr>tracker_id = in_id, startchan = 0, numchan = 0, txpower = 0\<rparr>"

definition dot11_11d_tracked_range_info_clone ::
  "dot11_11d_tracked_range_info \<Rightarrow> dot11_11d_tracked_range_info" where
  "dot11_11d_tracked_range_info_clone p =
     \<lparr>tracker_id = tracker_id p, startchan = startchan p, numchan = numchan p,
      txpower = txpower p\<rparr>"

subsection \<open>IE tag\<close>

record dot11_tracked_ietag = tracker_component +
  unique_tag_id :: u32
  tag_number :: u8
  tag_oui :: u32
  tag_oui_manuf :: string
  tag_vendor_or_sub :: i16
  complete_tag_data :: byte_array

definition dot11_tracked_ietag_new :: "int \<Rightarrow> dot11_tracked_ietag" where
  "dot11_tracked_ietag_new in_id =
     \<lparr>tracker_id = in_id, unique_tag_id = 0, tag_number = 0, tag_oui = 0,
      tag_oui_manuf = [], tag_vendor_or_sub = 0, complete_tag_data = []\<rparr>"

text \<open>The cloning constructor (lines 362--371) neither initialises its base from the
  source (no \<^verbatim>\<open>tracker_component{p}\<close>, so the base is default-constructed) nor
  copies \<^verbatim>\<open>tag_oui_manuf\<close>, which keeps the freshly reserved empty value.\<close>

definition dot11_tracked_ietag_clone :: "dot11_tracked_ietag \<Rightarrow> dot11_tracked_ietag" where
  "dot11_tracked_ietag_clone p =
     \<lparr>tracker_id = tracker_component_default_id,
      unique_tag_id = unique_tag_id p,
      tag_number = tag_number p,
      tag_oui = tag_oui p,
      tag_oui_manuf = [],
      tag_vendor_or_sub = tag_vendor_or_sub p,
      complete_tag_data = complete_tag_data p\<rparr>"

subsection \<open>Probed SSID\<close>

record dot11_probed_ssid = tracker_component +
  ssid :: string
  ssid_len :: u32
  bssid :: mac_addr
  first_time :: u64
  last_time :: u64
  dot11r_mobility :: u8
  dot11r_mobility_domain_id :: u16
  location :: "kis_tracked_location option"
  crypt_set :: u64
  wpa_mfp_required :: u8
  wpa_mfp_supported :: u8
  ie_tag_list :: "double list option"
  wps_state :: "u32 option"
  wps_manuf :: "string option"
  wps_device_name :: "string option"
  wps_model_name :: "string option"
  wps_model_number :: "string option"
  wps_serial_number :: "string option"
  wps_uuid_e :: "byte_array option"

definition dot11_probed_ssid_new :: "int \<Rightarrow> dot11_probed_ssid" where
  "dot11_probed_ssid_new in_id =
     \<lparr>tracker_id = in_id, ssid = [], ssid_len = 0, bssid = 0, first_time = 0, last_time = 0,
      dot11r_mobility = 0, dot11r_mobility_domain_id = 0, location = None, crypt_set = 0,
      wpa_mfp_required = 0, wpa_mfp_supported = 0, ie_tag_list = None, wps_state = None,
      wps_manuf = None, wps_device_name = None, wps_model_name = None,
      wps_model_number = None, wps_serial_number = None, wps_uuid_e = None\<rparr>"

text \<open>Cloning (lines 423--456) copies the static fields; of each dynamic field only
  the field id is copied, so the copy's dynamic fields are absent.\<close>

definition dot11_probed_ssid_clone :: "dot11_probed_ssid \<Rightarrow> dot11_probed_ssid" where
  "dot11_probed_ssid_clone p =
     \<lparr>tracker_id = tracker_id p, ssid = ssid p, ssid_len = ssid_len p, bssid = bssid p,
      first_time = first_time p, last_time = last_time p,
      dot11r_mobility = dot11r_mobility p,
      dot11r_mobility_domain_id = dot11r_mobility_domain_id p,
      location = None, crypt_set = crypt_set p,
      wpa_mfp_required = wpa_mfp_required p, wpa_mfp_supported = wpa_mfp_supported p,
      ie_tag_list = None, wps_state = None, wps_manuf = None, wps_device_name = None,
      wps_model_name = None, wps_model_number = None, wps_serial_number = None,
      wps_uuid_e = None\<rparr>"

subsection \<open>Advertised SSID\<close>

text \<open>The IE tag content map \<^verbatim>\<open>tracker_element_int_map\<close> is keyed by
  \<^verbatim>\<open>int\<close>.\<close>

record dot11_advertised_ssid = tracker_component +
  ssid :: string
  ssid_len :: u32
  ssid_hash :: u64
  owe_ssid :: "string option"
  owe_ssid_len :: "u32 option"
  owe_bssid :: "mac_addr option"
  ssid_beacon :: u8
  ssid_probe_response :: u8
  channel :: string
  ht_mode :: string
  ht_center_1 :: u64
  ht_center_2 :: u64
  first_time :: u64
  last_time :: u64
  beacon_info :: "string option"
  ssid_cloaked :: u8
  crypt_set :: u64
  wpa_mfp_required :: u8
  wpa_mfp_supported :: u8
  maxrate :: double
  beaconrate :: u32
  beacons_sec :: u32
  ietag_checksum :: u32
  dot11d_country :: "string option"
  dot11d_vec :: "dot11_11d_tracked_range_info list option"
  wps_state :: "u32 option"
  wps_manuf :: "string option"
  wps_device_name :: "string option"
  wps_model_name :: "string option"
  wps_model_number :: "string option"
  wps_serial_number :: "string option"
  wps_uuid_e :: "byte_array option"
  location :: "kis_tracked_location option"
  dot11r_mobility :: u8
  dot11r_mobility_domain_id :: u16
  dot11e_qbss :: u8
  dot11e_qbss_stations :: u16
  dot11e_qbss_channel_load :: double
  ccx_txpower :: u8
  cisco_client_mfp :: u8
  ie_tag_list :: "double list option"
  ie_tag_content :: "(int, dot11_tracked_ietag) tracker_map option"

definition dot11_advertised_ssid_new :: "int \<Rightarrow> dot11_advertised_ssid" where
  "dot11_advertised_ssid_new in_id =
     \<lparr>tracker_id = in_id, ssid = [], ssid_len = 0, ssid_hash = 0, owe_ssid = None,
      owe_ssid_len = None, owe_bssid = None, ssid_beacon = 0, ssid_probe_response = 0,
      channel = [], ht_mode = [], ht_center_1 = 0, ht_center_2 = 0, first_time = 0,
      last_time = 0, beacon_info = None, ssid_cloaked = 0, crypt_set = 0,
      wpa_mfp_required = 0, wpa_mfp_supported = 0, maxrate = 0, beaconrate = 0,
      beacons_sec = 0, ietag_checksum = 0, dot11d_country = None, dot11d_vec = None,
      wps_state = None, wps_manuf = None, wps_device_name = None, wps_model_name = None,
      wps_model_number = None, wps_serial_number = None, wps_uuid_e = None,
      location = None, dot11r_mobility = 0, dot11r_mobility_domain_id = 0,
      dot11e_qbss = 0, dot11e_qbss_stations = 0, dot11e_qbss_channel_load = 0,
      ccx_txpower = 0, cisco_client_mfp = 0, ie_tag_list = None, ie_tag_content = None\<rparr>"

text \<open>Cloning (lines 564--627) copies the static fields except \<^verbatim>\<open>maxrate\<close>,
  which keeps the freshly reserved value 0; of the dynamic fields only the ids are
  copied.\<close>

definition dot11_advertised_ssid_clone :: "dot11_advertised_ssid \<Rightarrow> dot11_advertised_ssid" where
  "dot11_advertised_ssid_clone p =
     \<lparr>tracker_id = tracker_id p, ssid = ssid p, ssid_len = ssid_len p,
      ssid_hash = ssid_hash p, owe_ssid = None, owe_ssid_len = None, owe_bssid = None,
      ssid_beacon = ssid_beacon p, ssid_probe_response = ssid_probe_response p,
      channel = channel p, ht_mode = ht_mode p, ht_center_1 = ht_center_1 p,
      ht_center_2 = ht_center_2 p, first_time = first_time p, last_time = last_time p,
      beacon_info = None, ssid_cloaked = ssid_cloaked p, crypt_set = crypt_set p,
      wpa_mfp_required = wpa_mfp_required p, wpa_mfp_supported = wpa_mfp_supported p,
      maxrate = 0, beaconrate = beaconrate p, beacons_sec = beacons_sec p,
      ietag_checksum = ietag_checksum p, dot11d_country = None, dot11d_vec = None,
      wps_state = None, wps_manuf = None, wps_device_name = None, wps_model_name = None,
      wps_model_number = None, wps_serial_number = None, wps_uuid_e = None,
      location = None, dot11r_mobility = dot11r_mobility p,
      dot11r_mobility_domain_id = dot11r_mobility_domain_id p,
      dot11e_qbss = dot11e_qbss p, dot11e_qbss_stations = dot11e_qbss_stations p,
      dot11e_qbss_channel_load = dot11e_qbss_channel_load p,
      ccx_txpower = ccx_txpower p, cisco_client_mfp = cisco_client_mfp p,
      ie_tag_list = None, ie_tag_content = None\<rparr>"

text \<open>\<^verbatim>\<open>__ProxyIncDec(beacons_sec, ...)\<close>.\<close>

definition inc_beacons_sec :: "u32 \<Rightarrow> dot11_advertised_ssid \<Rightarrow> dot11_advertised_ssid" where
  "inc_beacons_sec i a = a\<lparr>beacons_sec := beacons_sec a + i\<rparr>"

definition dec_beacons_sec :: "u32 \<Rightarrow> dot11_advertised_ssid \<Rightarrow> dot11_advertised_ssid" where
  "dec_beacons_sec i a = a\<lparr>beacons_sec := beacons_sec a - i\<rparr>"

text \<open>\<^verbatim>\<open>set_dot11d_vec\<close> (declared line 681, defined outside \<^verbatim>\<open>src/\<close>;
  modelled from the specification): the 802.11d entries decoded from a frame
  (start channel, channel count, maximum power) become the range list, which
  replaces the previous one; the list's elements are created with the entry id of
  the range records.\<close>

record dot11_packinfo_dot11d_entry =
  d11d_startchan :: u32
  d11d_numchan :: u32
  d11d_txpower :: i32

definition range_of_dot11d_entry ::
  "int \<Rightarrow> dot11_packinfo_dot11d_entry \<Rightarrow> dot11_11d_tracked_range_info" where
  "range_of_dot11d_entry entry_id d =
     (dot11_11d_tracked_range_info_new entry_id)
       \<lparr>startchan := d11d_startchan d, numchan := d11d_numchan d,
        txpower := d11d_txpower d\<rparr>"

definition set_dot11d_vec ::
  "int \<Rightarrow> dot11_packinfo_dot11d_entry list \<Rightarrow> dot11_advertised_ssid \<Rightarrow> dot11_advertised_ssid" where
  "set_dot11d_vec entry_id vec a =
     a\<lparr>dot11d_vec := Some (map (range_of_dot11d_entry entry_id) vec)\<rparr>"

subsection \<open>Lemmas\<close>

lemma dot11_11d_tracked_range_info_clone_eq [simp]:
  "dot11_11d_tracked_range_info_clone p = p"
  by (simp add: dot11_11d_tracked_range_info_clone_def)

lemma dot11_advertised_ssid_clone_static [simp]:
  "ssid (dot11_advertised_ssid_clone p) = ssid p"
  "ssid_hash (dot11_advertised_ssid_clone p) = ssid_hash p"
  "crypt_set (dot11_advertised_ssid_clone p) = crypt_set p"
  "first_time (dot11_advertised_ssid_clone p) = first_time p"
  "last_time (dot11_advertised_ssid_clone p) = last_time p"
  "beacons_sec (dot11_advertised_ssid_clone p) = beacons_sec p"
  "tracker_id (dot11_advertised_ssid_clone p) = tracker_id p"
  by (simp_all add: dot11_advertised_ssid_clone_def)

lemma dot11_advertised_ssid_clone_dynamic [simp]:
  "ie_tag_list (dot11_advertised_ssid_clone p) = None"
  "ie_tag_content (dot11_advertised_ssid_clone p) = None"
  "dot11d_vec (dot11_advertised_ssid_clone p) = None"
  "wps_manuf (dot11_advertised_ssid_clone p) = None"
  "maxrate (dot11_advertised_ssid_clone p) = 0"
  by (simp_all add: dot11_advertised_ssid_clone_def)

lemma set_dot11d_vec_length [simp]:
  "dot11d_vec (set_dot11d_vec i vec a) = Some (map (range_of_dot11d_entry i) vec)"
  by (simp add: set_dot11d_vec_def)

end
