(* ===== verification/Client.thy ===== *)
theory Client
  imports Prelude
begin

text \<open>
  \<^verbatim>\<open>dot11_client\<close> (\<^verbatim>\<open>src/phy_80211_components.h\<close>, lines 839--1011): the
  record of one device's behaviour as a client of one BSSID. The DHCP, CDP and EAP
  identity strings, the IP data and the location are dynamic fields (options). The
  traffic counters are \<^verbatim>\<open>uint64\<close> with the increment and decrement of
  \<^verbatim>\<open>__ProxyIncDec\<close>, which wrap. Cloning copies the static fields and only the ids
  of the dynamic ones.
\<close>

record dot11_client = tracker_component +
  bssid :: mac_addr
  bssid_key :: device_key
  first_time :: u64
  last_time :: u64
  client_type :: u32
  dhcp_host :: "string option"
  dhcp_vendor :: "string option"
  tx_cryptset :: u64
  rx_cryptset :: u64
  eap_identity :: "string option"
  cdp_device :: "string option"
  cdp_port :: "string option"
  decrypted :: u8
  ipdata :: "kis_tracked_ip_data option"
  datasize :: u64
  datasize_retry :: u64
  num_fragments :: u64
  num_retries :: u64
  location :: "kis_tracked_location option"

definition dot11_client_new :: "int \<Rightarrow> dot11_client" where
  "dot11_client_new in_id =
     \<lparr>tracker_id = in_id, bssid = 0, bssid_key = (0, 0), first_time = 0, last_time = 0,
      client_type = 0, dhcp_host = None, dhcp_vendor = None, tx_cryptset = 0,
      rx_cryptset = 0, eap_identity = None, cdp_device = None, cdp_port = None,
      decrypted = 0, ipdata = None, datasize = 0, datasize_retry = 0, num_fragments = 0,
      num_retries = 0, location = None\<rparr>"

definition dot11_client_clone :: "dot11_client \<Rightarrow> dot11_client" where
  "dot11_client_clone p =
     \<lparr>tracker_id = tracker_id p, bssid = bssid p, bssid_key = bssid_key p,
      first_time = first_time p, last_time = last_time p, client_type = client_type p,
      dhcp_host = None, dhcp_vendor = None,
      tx_cryptset = tx_cryptset p, rx_cryptset = rx_cryptset p,
      eap_identity = None, cdp_device = None, cdp_port = None,
      decrypted = decrypted p, ipdata = None,
      datasize = datasize p, datasize_retry = datasize_retry p,
      num_fragments = num_fragments p, num_retries = num_retries p,
      location = None\<rparr>"

text \<open>The counters of \<^verbatim>\<open>__ProxyIncDec\<close>: \<^verbatim>\<open>(*cvar) += i\<close> on
  \<^verbatim>\<open>uint64\<close> storage.\<close>

definition client_inc_datasize :: "u64 \<Rightarrow> dot11_client \<Rightarrow> dot11_client" where
  "client_inc_datasize i c = c\<lparr>datasize := datasize c + i\<rparr>"

definition client_inc_datasize_retry :: "u64 \<Rightarrow> dot11_client \<Rightarrow> dot11_client" where
  "client_inc_datasize_retry i c = c\<lparr>datasize_retry := datasize_retry c + i\<rparr>"

definition client_inc_num_fragments :: "u64 \<Rightarrow> dot11_client \<Rightarrow> dot11_client" where
  "client_inc_num_fragments i c = c\<lparr>num_fragments := num_fragments c + i\<rparr>"

definition client_inc_num_retries :: "u64 \<Rightarrow> dot11_client \<Rightarrow> dot11_client" where
  "client_inc_num_retries i c = c\<lparr>num_retries := num_retries c + i\<rparr>"

text \<open>\<^verbatim>\<open>__ProxyDynamic(eap_identity, ...)\<close>: the setter materialises the field
  and stores the value.\<close>

definition set_eap_identity :: "string \<Rightarrow> dot11_client \<Rightarrow> dot11_client" where
  "set_eap_identity s c = c\<lparr>eap_identity := Some s\<rparr>"

definition set_dhcp_host :: "string \<Rightarrow> dot11_client \<Rightarrow> dot11_client" where
  "set_dhcp_host s c = c\<lparr>dhcp_host := Some s\<rparr>"

definition set_cdp_device :: "string \<Rightarrow> dot11_client \<Rightarrow> dot11_client" where
  "set_cdp_device s c = c\<lparr>cdp_device := Some s\<rparr>"

lemma dot11_client_clone_static [simp]:
  "bssid (dot11_client_clone p) = bssid p"
  "datasize (dot11_client_clone p) = datasize p"
  "num_fragments (dot11_client_clone p) = num_fragments p"
  "num_retries (dot11_client_clone p) = num_retries p"
  "tracker_id (dot11_client_clone p) = tracker_id p"
  by (simp_all add: dot11_client_clone_def)

end
