(* ===== verification/Device.thy ===== *)
theory Device
  imports Eapol Ssid Client
begin

text \<open>
  \<^verbatim>\<open>dot11_tracked_device\<close> (\<^verbatim>\<open>src/phy_80211_components.h\<close>, lines
  1038--1632): the per-device aggregate. Its state is one record; the maps of client
  records, advertised, responded and probed SSIDs and associated clients, the three
  handshake histories, the snapshotted beacon and PMKID frames and the other dynamic
  fields are options (absent until first accessed). The plain C++ members
  (\<^verbatim>\<open>snapshot_next_beacon\<close>, \<^verbatim>\<open>last_adv_ie_csum\<close>,
  \<^verbatim>\<open>last_bss_invalid\<close>, \<^verbatim>\<open>bss_invalid_count\<close>, \<^verbatim>\<open>last_adv_ssid\<close>) are
  fields too; \<^verbatim>\<open>last_adv_ssid\<close> holds the record it points to. The entry ids
  that \<^verbatim>\<open>register_fields\<close> obtains for the element types of the collections are
  kept, since the factories (\<^verbatim>\<open>new_client\<close> \<dots>) create records with them.

  Operations: the constructor, the cloning constructor, the bitset of device types,
  the lazy getters and the setters of the dynamic fields, the record factories, the
  counters, the beacon/PMKID snapshot queries and \<^verbatim>\<open>pre_serialize\<close>.
\<close>

subsection \<open>State\<close>

record dot11_tracked_device = tracker_component +
  snapshot_next_beacon :: bool
  type_set :: u64
  client_map :: "(mac_addr, dot11_client) tracker_map option"
  client_map_entry_id :: int
  num_client_aps :: u64
  advertised_ssid_map :: "(u64, dot11_advertised_ssid) tracker_map option"
  advertised_ssid_map_entry_id :: int
  num_advertised_ssids :: u64
  responded_ssid_map :: "(u64, dot11_advertised_ssid) tracker_map option"
  responded_ssid_map_entry_id :: int
  num_responded_ssids :: u64
  probed_ssid_map :: "(u64, dot11_probed_ssid) tracker_map option"
  probed_ssid_map_entry_id :: int
  num_probed_ssids :: u64
  associated_client_map :: "(mac_addr, device_key) tracker_map option"
  num_associated_clients :: u64
  client_disconnects :: u64
  client_disconnects_last :: u64
  last_sequence :: u64
  bss_timestamp :: u64
  last_bss_invalid :: time_t
  bss_invalid_count :: u32
  num_fragments :: u64
  num_retries :: u64
  datasize :: u64
  datasize_retry :: u64
  last_bssid :: "mac_addr option"
  last_beacon_timestamp :: u64
  wps_m3_count :: u64
  wps_m3_last :: u64
  wpa_key_vec :: "dot11_tracked_eapol list option"
  wpa_key_entry_id :: int
  wpa_nonce_vec :: "dot11_tracked_nonce list option"
  wpa_anonce_vec :: "dot11_tracked_nonce list option"
  wpa_present_handshake :: u8
  wpa_nonce_entry_id :: int
  ssid_beacon_packet :: "kis_tracked_packet option"
  pmkid_packet :: "kis_tracked_packet option"
  last_adv_ie_csum :: u32
  last_adv_ssid :: "dot11_advertised_ssid option"
  min_tx_power :: u8
  max_tx_power :: u8
  supported_channels :: "double list option"
  link_measurement_capable :: u8
  neighbor_report_capable :: u8
  extended_capabilities_list :: "string list option"
  beacon_fingerprint :: u32
  probe_fingerprint :: u32
  response_fingerprint :: u32
  last_beaconed_ssid_record :: "dot11_advertised_ssid option"
  last_probed_ssid_record :: "dot11_probed_ssid option"

text \<open>The entry ids that \<^verbatim>\<open>register_fields\<close> (lines 1328--1472) receives from
  the entry tracker for the element types of the device's collections.\<close>

record dot11_device_entry_ids =
  eid_client :: int
  eid_advertised_ssid :: int
  eid_responded_ssid :: int
  eid_probed_ssid :: int
  eid_wpa_key :: int
  eid_wpa_nonce :: int

text \<open>The constructor \<^verbatim>\<open>dot11_tracked_device(int in_id)\<close> (lines 1053--1063):
  the plain members are zeroed, the static fields reserved with their defaults, the
  dynamic ones left absent.\<close>

definition dot11_tracked_device_new :: "int \<Rightarrow> dot11_device_entry_ids \<Rightarrow> dot11_tracked_device" where
  "dot11_tracked_device_new in_id ids =
     \<lparr>tracker_id = in_id, snapshot_next_beacon = False, type_set = 0,
      client_map = None, client_map_entry_id = eid_client ids, num_client_aps = 0,
      advertised_ssid_map = None, advertised_ssid_map_entry_id = eid_advertised_ssid ids,
      num_advertised_ssids = 0,
      responded_ssid_map = None, responded_ssid_map_entry_id = eid_responded_ssid ids,
      num_responded_ssids = 0,
      probed_ssid_map = None, probed_ssid_map_entry_id = eid_probed_ssid ids,
      num_probed_ssids = 0,
      associated_client_map = None, num_associated_clients = 0,
      client_disconnects = 0, client_disconnects_last = 0, last_sequence = 0,
      bss_timestamp = 0, last_bss_invalid = 0, bss_invalid_count = 0,
      num_fragments = 0, num_retries = 0, datasize = 0, datasize_retry = 0,
      last_bssid = None, last_beacon_timestamp = 0, wps_m3_count = 0, wps_m3_last = 0,
      wpa_key_vec = None, wpa_key_entry_id = eid_wpa_key ids,
      wpa_nonce_vec = None, wpa_anonce_vec = None, wpa_present_handshake = 0,
      wpa_nonce_entry_id = eid_wpa_nonce ids,
      ssid_beacon_packet = None, pmkid_packet = None,
      last_adv_ie_csum = 0, last_adv_ssid = None, min_tx_power = 0, max_tx_power = 0,
      supported_channels = None, link_measurement_capable = 0, neighbor_report_capable = 0,
      extended_capabilities_list = None, beacon_fingerprint = 0, probe_fingerprint = 0,
      response_fingerprint = 0, last_beaconed_ssid_record = None,
      last_probed_ssid_record = None\<rparr>"

text \<open>The default constructor \<^verbatim>\<open>dot11_tracked_device()\<close> (lines 1041--1051) does
  the same with the base class's default id.\<close>

definition dot11_tracked_device_default :: "dot11_device_entry_ids \<Rightarrow> dot11_tracked_device" where
  "dot11_tracked_device_default ids = dot11_tracked_device_new tracker_component_default_id ids"

subsection \<open>Cloning\<close>

text \<open>The cloning constructor (lines 1077--1156) zeroes the plain members as the
  other constructors do, copies every static field and the entry ids, deep-copies
  the record \<^verbatim>\<open>last_adv_ssid\<close> points to, and copies only the ids of the dynamic
  fields: the copy has none of the source's collections, handshake histories or
  snapshotted frames.\<close>

definition dot11_tracked_device_clone :: "dot11_tracked_device \<Rightarrow> dot11_tracked_device" where
  "dot11_tracked_device_clone p =
     \<lparr>tracker_id = tracker_id p, snapshot_next_beacon = False, type_set = type_set p,
      client_map = None, client_map_entry_id = client_map_entry_id p,
      num_client_aps = num_client_aps p,
      advertised_ssid_map = None,
      advertised_ssid_map_entry_id = advertised_ssid_map_entry_id p,
      num_advertised_ssids = num_advertised_ssids p,
      responded_ssid_map = None,
      responded_ssid_map_entry_id = responded_ssid_map_entry_id p,
      num_responded_ssids = num_responded_ssids p,
      probed_ssid_map = None, probed_ssid_map_entry_id = probed_ssid_map_entry_id p,
      num_probed_ssids = num_probed_ssids p,
      associated_client_map = None, num_associated_clients = num_associated_clients p,
      client_disconnects = client_disconnects p,
      client_disconnects_last = client_disconnects_last p,
      last_sequence = last_sequence p, bss_timestamp = bss_timestamp p,
      last_bss_invalid = 0, bss_invalid_count = 0,
      num_fragments = num_fragments p, num_retries = num_retries p,
      datasize = datasize p, datasize_retry = datasize_retry p,
      last_bssid = None, last_beacon_timestamp = last_beacon_timestamp p,
      wps_m3_count = wps_m3_count p, wps_m3_last = wps_m3_last p,
      wpa_key_vec = None, wpa_key_entry_id = wpa_key_entry_id p,
      wpa_nonce_vec = None, wpa_anonce_vec = None,
      wpa_present_handshake = wpa_present_handshake p,
      wpa_nonce_entry_id = wpa_nonce_entry_id p,
      ssid_beacon_packet = None, pmkid_packet = None,
      last_adv_ie_csum = 0,
      last_adv_ssid = map_option dot11_advertised_ssid_clone (last_adv_ssid p),
      min_tx_power = min_tx_power p, max_tx_power = max_tx_power p,
      supported_channels = None,
      link_measurement_capable = link_measurement_capable p,
      neighbor_report_capable = neighbor_report_capable p,
      extended_capabilities_list = None,
      beacon_fingerprint = beacon_fingerprint p, probe_fingerprint = probe_fingerprint p,
      response_fingerprint = response_fingerprint p,
      last_beaconed_ssid_record = None, last_probed_ssid_record = None\<rparr>"

subsection \<open>Device type bitset\<close>

text \<open>The bits of \<^verbatim>\<open>DOT11_DEVICE_TYPE_*\<close> (lines 1013--1034).\<close>

definition DOT11_DEVICE_TYPE_UNKNOWN :: u64 where "DOT11_DEVICE_TYPE_UNKNOWN = 0"
definition DOT11_DEVICE_TYPE_BEACON_AP :: u64 where "DOT11_DEVICE_TYPE_BEACON_AP = push_bit 0 1"
definition DOT11_DEVICE_TYPE_ADHOC :: u64 where "DOT11_DEVICE_TYPE_ADHOC = push_bit 1 1"
definition DOT11_DEVICE_TYPE_CLIENT :: u64 where "DOT11_DEVICE_TYPE_CLIENT = push_bit 2 1"
definition DOT11_DEVICE_TYPE_WIRED :: u64 where "DOT11_DEVICE_TYPE_WIRED = push_bit 3 1"
definition DOT11_DEVICE_TYPE_WDS :: u64 where "DOT11_DEVICE_TYPE_WDS = push_bit 4 1"
definition DOT11_DEVICE_TYPE_TURBOCELL :: u64 where "DOT11_DEVICE_TYPE_TURBOCELL = push_bit 5 1"
definition DOT11_DEVICE_TYPE_INFERRED_WIRELESS :: u64 where
  "DOT11_DEVICE_TYPE_INFERRED_WIRELESS = push_bit 6 1"
definition DOT11_DEVICE_TYPE_INFERRED_WIRED :: u64 where
  "DOT11_DEVICE_TYPE_INFERRED_WIRED = push_bit 7 1"
definition DOT11_DEVICE_TYPE_PROBE_AP :: u64 where "DOT11_DEVICE_TYPE_PROBE_AP = push_bit 8 1"

text \<open>Line 1173: \<^verbatim>\<open>__Proxy(type_set, ...)\<close> gives a plain getter and setter
  beside the bitset operations of line 1174.\<close>

definition get_type_set :: "dot11_tracked_device \<Rightarrow> u64" where
  "get_type_set d = type_set d"

definition set_type_set :: "u64 \<Rightarrow> dot11_tracked_device \<Rightarrow> dot11_tracked_device" where
  "set_type_set v d = d\<lparr>type_set := v\<rparr>"

definition bitset_type_set :: "u64 \<Rightarrow> dot11_tracked_device \<Rightarrow> dot11_tracked_device" where
  "bitset_type_set bs d = d\<lparr>type_set := bitset_or (type_set d) bs\<rparr>"

definition bitcheck_type_set :: "u64 \<Rightarrow> dot11_tracked_device \<Rightarrow> u64" where
  "bitcheck_type_set bs d = bitcheck (type_set d) bs"

subsection \<open>Dynamic fields: lazy getters and setters\<close>

text \<open>\<^verbatim>\<open>__ProxyDynamicTrackable\<close>: the getter creates and inserts an empty
  container when the field is absent, and returns the container; the setter replaces
  the pointer (a null pointer clears the field).\<close>

definition get_client_map ::
  "dot11_tracked_device \<Rightarrow> (mac_addr, dot11_client) tracker_map \<times> dot11_tracked_device" where
  "get_client_map d = (let m = materialize [] (client_map d) in (m, d\<lparr>client_map := Some m\<rparr>))"

definition get_advertised_ssid_map ::
  "dot11_tracked_device \<Rightarrow> (u64, dot11_advertised_ssid) tracker_map \<times> dot11_tracked_device" where
  "get_advertised_ssid_map d =
     (let m = materialize [] (advertised_ssid_map d) in (m, d\<lparr>advertised_ssid_map := Some m\<rparr>))"

definition get_responded_ssid_map ::
  "dot11_tracked_device \<Rightarrow> (u64, dot11_advertised_ssid) tracker_map \<times> dot11_tracked_device" where
  "get_responded_ssid_map d =
     (let m = materialize [] (responded_ssid_map d) in (m, d\<lparr>responded_ssid_map := Some m\<rparr>))"

definition get_probed_ssid_map ::
  "dot11_tracked_device \<Rightarrow> (u64, dot11_probed_ssid) tracker_map \<times> dot11_tracked_device" where
  "get_probed_ssid_map d =
     (let m = materialize [] (probed_ssid_map d) in (m, d\<lparr>probed_ssid_map := Some m\<rparr>))"

definition get_associated_client_map ::
  "dot11_tracked_device \<Rightarrow> (mac_addr, device_key) tracker_map \<times> dot11_tracked_device" where
  "get_associated_client_map d =
     (let m = materialize [] (associated_client_map d)
      in (m, d\<lparr>associated_client_map := Some m\<rparr>))"

definition get_wpa_key_vec ::
  "dot11_tracked_device \<Rightarrow> dot11_tracked_eapol list \<times> dot11_tracked_device" where
  "get_wpa_key_vec d = (let v = materialize [] (wpa_key_vec d) in (v, d\<lparr>wpa_key_vec := Some v\<rparr>))"

definition get_wpa_nonce_vec ::
  "dot11_tracked_device \<Rightarrow> dot11_tracked_nonce list \<times> dot11_tracked_device" where
  "get_wpa_nonce_vec d =
     (let v = materialize [] (wpa_nonce_vec d) in (v, d\<lparr>wpa_nonce_vec := Some v\<rparr>))"

definition get_wpa_anonce_vec ::
  "dot11_tracked_device \<Rightarrow> dot11_tracked_nonce list \<times> dot11_tracked_device" where
  "get_wpa_anonce_vec d =
     (let v = materialize [] (wpa_anonce_vec d) in (v, d\<lparr>wpa_anonce_vec := Some v\<rparr>))"

definition get_ssid_beacon_packet ::
  "dot11_tracked_device \<Rightarrow> kis_tracked_packet \<times> dot11_tracked_device" where
  "get_ssid_beacon_packet d =
     (let p = materialize kis_tracked_packet_new (ssid_beacon_packet d)
      in (p, d\<lparr>ssid_beacon_packet := Some p\<rparr>))"

definition set_ssid_beacon_packet ::
  "kis_tracked_packet option \<Rightarrow> dot11_tracked_device \<Rightarrow> dot11_tracked_device" where
  "set_ssid_beacon_packet p d = d\<lparr>ssid_beacon_packet := p\<rparr>"

definition get_pmkid_packet :: "dot11_tracked_device \<Rightarrow> kis_tracked_packet \<times> dot11_tracked_device" where
  "get_pmkid_packet d =
     (let p = materialize kis_tracked_packet_new (pmkid_packet d) in (p, d\<lparr>pmkid_packet := Some p\<rparr>))"

definition set_pmkid_packet ::
  "kis_tracked_packet option \<Rightarrow> dot11_tracked_device \<Rightarrow> dot11_tracked_device" where
  "set_pmkid_packet p d = d\<lparr>pmkid_packet := p\<rparr>"

text \<open>\<^verbatim>\<open>__ProxyDynamic(last_bssid, ...)\<close>: the setter materialises and stores.\<close>

definition set_last_bssid :: "mac_addr \<Rightarrow> dot11_tracked_device \<Rightarrow> dot11_tracked_device" where
  "set_last_bssid b d = d\<lparr>last_bssid := Some b\<rparr>"

subsection \<open>Factories\<close>

definition new_client :: "dot11_tracked_device \<Rightarrow> dot11_client" where
  "new_client d = dot11_client_new (client_map_entry_id d)"

definition new_advertised_ssid :: "dot11_tracked_device \<Rightarrow> dot11_advertised_ssid" where
  "new_advertised_ssid d = dot11_advertised_ssid_new (advertised_ssid_map_entry_id d)"

definition new_responded_ssid :: "dot11_tracked_device \<Rightarrow> dot11_advertised_ssid" where
  "new_responded_ssid d = dot11_advertised_ssid_new (responded_ssid_map_entry_id d)"

definition new_probed_ssid :: "dot11_tracked_device \<Rightarrow> dot11_probed_ssid" where
  "new_probed_ssid d = dot11_probed_ssid_new (probed_ssid_map_entry_id d)"

definition create_eapol_packet :: "dot11_tracked_device \<Rightarrow> dot11_tracked_eapol" where
  "create_eapol_packet d = dot11_tracked_eapol_new (wpa_key_entry_id d)"

definition create_tracked_nonce :: "dot11_tracked_device \<Rightarrow> dot11_tracked_nonce" where
  "create_tracked_nonce d = dot11_tracked_nonce_new (wpa_nonce_entry_id d)"

subsection \<open>Counters and plain setters\<close>

definition inc_client_disconnects :: "u64 \<Rightarrow> dot11_tracked_device \<Rightarrow> dot11_tracked_device" where
  "inc_client_disconnects i d = d\<lparr>client_disconnects := client_disconnects d + i\<rparr>"

definition inc_num_fragments :: "u64 \<Rightarrow> dot11_tracked_device \<Rightarrow> dot11_tracked_device" where
  "inc_num_fragments i d = d\<lparr>num_fragments := num_fragments d + i\<rparr>"

definition inc_num_retries :: "u64 \<Rightarrow> dot11_tracked_device \<Rightarrow> dot11_tracked_device" where
  "inc_num_retries i d = d\<lparr>num_retries := num_retries d + i\<rparr>"

definition inc_datasize :: "u64 \<Rightarrow> dot11_tracked_device \<Rightarrow> dot11_tracked_device" where
  "inc_datasize i d = d\<lparr>datasize := datasize d + i\<rparr>"

definition inc_datasize_retry :: "u64 \<Rightarrow> dot11_tracked_device \<Rightarrow> dot11_tracked_device" where
  "inc_datasize_retry i d = d\<lparr>datasize_retry := datasize_retry d + i\<rparr>"

definition inc_wps_m3_count :: "u64 \<Rightarrow> dot11_tracked_device \<Rightarrow> dot11_tracked_device" where
  "inc_wps_m3_count i d = d\<lparr>wps_m3_count := wps_m3_count d + i\<rparr>"

definition set_last_sequence :: "u64 \<Rightarrow> dot11_tracked_device \<Rightarrow> dot11_tracked_device" where
  "set_last_sequence s d = d\<lparr>last_sequence := s\<rparr>"

definition set_bss_timestamp :: "u64 \<Rightarrow> dot11_tracked_device \<Rightarrow> dot11_tracked_device" where
  "set_bss_timestamp t d = d\<lparr>bss_timestamp := t\<rparr>"

definition set_wpa_present_handshake :: "u8 \<Rightarrow> dot11_tracked_device \<Rightarrow> dot11_tracked_device" where
  "set_wpa_present_handshake h d = d\<lparr>wpa_present_handshake := h\<rparr>"

definition set_last_adv_ie_csum :: "u32 \<Rightarrow> dot11_tracked_device \<Rightarrow> dot11_tracked_device" where
  "set_last_adv_ie_csum c d = d\<lparr>last_adv_ie_csum := c\<rparr>"

definition set_last_adv_ssid ::
  "dot11_advertised_ssid option \<Rightarrow> dot11_tracked_device \<Rightarrow> dot11_tracked_device" where
  "set_last_adv_ssid a d = d\<lparr>last_adv_ssid := a\<rparr>"

subsection \<open>Snapshot queries\<close>

text \<open>Lines 1313--1318.\<close>

definition get_snap_next_beacon :: "dot11_tracked_device \<Rightarrow> bool" where
  "get_snap_next_beacon d \<longleftrightarrow> snapshot_next_beacon d \<and> ssid_beacon_packet d = None"

definition set_snap_next_beacon :: "bool \<Rightarrow> dot11_tracked_device \<Rightarrow> dot11_tracked_device" where
  "set_snap_next_beacon b d = d\<lparr>snapshot_next_beacon := b\<rparr>"

definition get_beacon_packet_present :: "dot11_tracked_device \<Rightarrow> bool" where
  "get_beacon_packet_present d \<longleftrightarrow> ssid_beacon_packet d \<noteq> None"

definition get_pmkid_needed :: "dot11_tracked_device \<Rightarrow> bool" where
  "get_pmkid_needed d \<longleftrightarrow> pmkid_packet d = None"

definition get_pmkid_present :: "dot11_tracked_device \<Rightarrow> bool" where
  "get_pmkid_present d \<longleftrightarrow> pmkid_packet d \<noteq> None"

subsection \<open>Derived counters\<close>

text \<open>The plain setters of the five derived counters (\<^verbatim>\<open>__Proxy(num_client_aps, ...)\<close>
  and the like, lines 1181, 1190, 1199, 1208 and 1213).\<close>

definition set_num_client_aps :: "u64 \<Rightarrow> dot11_tracked_device \<Rightarrow> dot11_tracked_device" where
  "set_num_client_aps n d = d\<lparr>num_client_aps := n\<rparr>"

definition set_num_advertised_ssids :: "u64 \<Rightarrow> dot11_tracked_device \<Rightarrow> dot11_tracked_device" where
  "set_num_advertised_ssids n d = d\<lparr>num_advertised_ssids := n\<rparr>"

definition set_num_responded_ssids :: "u64 \<Rightarrow> dot11_tracked_device \<Rightarrow> dot11_tracked_device" where
  "set_num_responded_ssids n d = d\<lparr>num_responded_ssids := n\<rparr>"

definition set_num_probed_ssids :: "u64 \<Rightarrow> dot11_tracked_device \<Rightarrow> dot11_tracked_device" where
  "set_num_probed_ssids n d = d\<lparr>num_probed_ssids := n\<rparr>"

definition set_num_associated_clients :: "u64 \<Rightarrow> dot11_tracked_device \<Rightarrow> dot11_tracked_device" where
  "set_num_associated_clients n d = d\<lparr>num_associated_clients := n\<rparr>"

text \<open>\<^verbatim>\<open>pre_serialize\<close> (lines 1272--1297): five guarded calls in code order, each
  setting a count to the size of its collection, 0 when the collection was never
  materialised (\<^verbatim>\<open>size()\<close> of the \<^verbatim>\<open>std::map\<close> converted to \<^verbatim>\<open>uint64_t\<close>).\<close>

definition pre_serialize :: "dot11_tracked_device \<Rightarrow> dot11_tracked_device" where
  "pre_serialize d =
     (let d1 = set_num_client_aps
                 (case client_map d of None \<Rightarrow> 0 | Some m \<Rightarrow> of_nat (length m)) d;
          d2 = set_num_advertised_ssids
                 (case advertised_ssid_map d1 of None \<Rightarrow> 0 | Some m \<Rightarrow> of_nat (length m)) d1;
          d3 = set_num_responded_ssids
                 (case responded_ssid_map d2 of None \<Rightarrow> 0 | Some m \<Rightarrow> of_nat (length m)) d2;
          d4 = set_num_probed_ssids
                 (case probed_ssid_map d3 of None \<Rightarrow> 0 | Some m \<Rightarrow> of_nat (length m)) d3
      in set_num_associated_clients
           (case associated_client_map d4 of None \<Rightarrow> 0 | Some m \<Rightarrow> of_nat (length m)) d4)"

subsection \<open>Lemmas\<close>

lemmas pre_serialize_defs = pre_serialize_def set_num_client_aps_def set_num_advertised_ssids_def
  set_num_responded_ssids_def set_num_probed_ssids_def set_num_associated_clients_def Let_def

lemma count_case_opt_size:
  "(case m of None \<Rightarrow> 0 | Some xs \<Rightarrow> of_nat (length xs)) = (of_nat (opt_size m) :: 'a::len word)"
  by (cases m) simp_all

lemma pre_serialize_counts [simp]:
  "num_client_aps (pre_serialize d) = of_nat (opt_size (client_map d))"
  "num_advertised_ssids (pre_serialize d) = of_nat (opt_size (advertised_ssid_map d))"
  "num_responded_ssids (pre_serialize d) = of_nat (opt_size (responded_ssid_map d))"
  "num_probed_ssids (pre_serialize d) = of_nat (opt_size (probed_ssid_map d))"
  "num_associated_clients (pre_serialize d) = of_nat (opt_size (associated_client_map d))"
  by (simp_all add: pre_serialize_defs count_case_opt_size)

lemma pre_serialize_frame [simp]:
  "client_map (pre_serialize d) = client_map d"
  "advertised_ssid_map (pre_serialize d) = advertised_ssid_map d"
  "responded_ssid_map (pre_serialize d) = responded_ssid_map d"
  "probed_ssid_map (pre_serialize d) = probed_ssid_map d"
  "associated_client_map (pre_serialize d) = associated_client_map d"
  "wpa_key_vec (pre_serialize d) = wpa_key_vec d"
  "wpa_nonce_vec (pre_serialize d) = wpa_nonce_vec d"
  "wpa_anonce_vec (pre_serialize d) = wpa_anonce_vec d"
  "wpa_present_handshake (pre_serialize d) = wpa_present_handshake d"
  "ssid_beacon_packet (pre_serialize d) = ssid_beacon_packet d"
  "pmkid_packet (pre_serialize d) = pmkid_packet d"
  "snapshot_next_beacon (pre_serialize d) = snapshot_next_beacon d"
  "wps_m3_count (pre_serialize d) = wps_m3_count d"
  "type_set (pre_serialize d) = type_set d"
  by (simp_all add: pre_serialize_defs)

lemma get_present [simp]:
  "wpa_key_vec d = Some v \<Longrightarrow> get_wpa_key_vec d = (v, d)"
  "wpa_nonce_vec d = Some n \<Longrightarrow> get_wpa_nonce_vec d = (n, d)"
  "wpa_anonce_vec d = Some n \<Longrightarrow> get_wpa_anonce_vec d = (n, d)"
  "client_map d = Some m \<Longrightarrow> get_client_map d = (m, d)"
  "advertised_ssid_map d = Some a \<Longrightarrow> get_advertised_ssid_map d = (a, d)"
  by (simp_all add: get_wpa_key_vec_def get_wpa_nonce_vec_def get_wpa_anonce_vec_def
      get_client_map_def get_advertised_ssid_map_def)

lemma get_snap_next_beacon_captured:
  "ssid_beacon_packet d \<noteq> None \<Longrightarrow> \<not> get_snap_next_beacon d"
  by (simp add: get_snap_next_beacon_def)

lemma dot11_tracked_device_clone_dynamic [simp]:
  "client_map (dot11_tracked_device_clone p) = None"
  "advertised_ssid_map (dot11_tracked_device_clone p) = None"
  "responded_ssid_map (dot11_tracked_device_clone p) = None"
  "probed_ssid_map (dot11_tracked_device_clone p) = None"
  "associated_client_map (dot11_tracked_device_clone p) = None"
  "wpa_key_vec (dot11_tracked_device_clone p) = None"
  "wpa_nonce_vec (dot11_tracked_device_clone p) = None"
  "wpa_anonce_vec (dot11_tracked_device_clone p) = None"
  "ssid_beacon_packet (dot11_tracked_device_clone p) = None"
  "pmkid_packet (dot11_tracked_device_clone p) = None"
  "snapshot_next_beacon (dot11_tracked_device_clone p) = False"
  by (simp_all add: dot11_tracked_device_clone_def)

lemma dot11_tracked_device_clone_static [simp]:
  "type_set (dot11_tracked_device_clone p) = type_set p"
  "num_advertised_ssids (dot11_tracked_device_clone p) = num_advertised_ssids p"
  "num_client_aps (dot11_tracked_device_clone p) = num_client_aps p"
  "wpa_present_handshake (dot11_tracked_device_clone p) = wpa_present_handshake p"
  "datasize (dot11_tracked_device_clone p) = datasize p"
  "wps_m3_count (dot11_tracked_device_clone p) = wps_m3_count p"
  "tracker_id (dot11_tracked_device_clone p) = tracker_id p"
  by (simp_all add: dot11_tracked_device_clone_def)

end
