(* ===== verification/Handshake.thy ===== *)
theory Handshake
  imports Device
begin

text \<open>
  The WPA handshake capture path of the device aggregate. The header declares the
  storage (\<^verbatim>\<open>wpa_key_vec\<close>, \<^verbatim>\<open>wpa_nonce_vec\<close>, \<^verbatim>\<open>wpa_anonce_vec\<close>,
  \<^verbatim>\<open>wpa_present_handshake\<close>, \<^verbatim>\<open>wps_m3_count\<close>) and the factories; the
  handler that fills them belongs to the frame-processing code outside
  \<^verbatim>\<open>src/\<close>, and is modelled here from the specification (section 4.3), composed
  from the header's operations: every key message is appended to the key history;
  the handshake bitmask is derived from the history (bit \<open>i\<close> for message
  \<open>i + 1\<close>, messages 1 to 4); an M3 increments the M3 counter; the condensed
  nonce record is appended to the station or the AP nonce history, as the caller
  selects.
\<close>

definition msg_bit :: "u8 \<Rightarrow> u8" where
  "msg_bit m = (if 1 \<le> m \<and> m \<le> 4 then push_bit (unat m - 1) 1 else 0)"

primrec handshake_mask :: "dot11_tracked_eapol list \<Rightarrow> u8" where
  "handshake_mask [] = 0"
| "handshake_mask (k # ks) = msg_bit (dot11_tracked_eapol.eapol_msg_num k) OR handshake_mask ks"

definition handle_eapol ::
  "bool \<Rightarrow> dot11_tracked_eapol \<Rightarrow> dot11_tracked_device \<Rightarrow> dot11_tracked_device" where
  "handle_eapol to_anonce k d =
     (let (ks, d1) = get_wpa_key_vec d;
          d2 = d1\<lparr>wpa_key_vec := Some (ks @ [k])\<rparr>;
          d3 = set_wpa_present_handshake (handshake_mask (ks @ [k])) d2;
          d4 = (if dot11_tracked_eapol.eapol_msg_num k = 3 then inc_wps_m3_count 1 d3 else d3);
          n = set_from_eapol k (create_tracked_nonce d4)
      in if to_anonce
         then (let (vs, d5) = get_wpa_anonce_vec d4 in d5\<lparr>wpa_anonce_vec := Some (vs @ [n])\<rparr>)
         else (let (vs, d5) = get_wpa_nonce_vec d4 in d5\<lparr>wpa_nonce_vec := Some (vs @ [n])\<rparr>))"

text \<open>The bitmask agrees with the key history.\<close>

definition handshake_inv :: "dot11_tracked_device \<Rightarrow> bool" where
  "handshake_inv d \<longleftrightarrow> wpa_present_handshake d = handshake_mask (materialize [] (wpa_key_vec d))"

subsection \<open>Lemmas\<close>

lemma msg_bit_cond: "(1 \<le> m \<and> m \<le> (4::u8)) \<longleftrightarrow> 1 \<le> unat m \<and> unat m \<le> 4"
  by (simp add: word_le_nat_alt)

lemma bit_msg_bit: "bit (msg_bit m) i \<longleftrightarrow> i < 4 \<and> unat m = i + 1"
proof (cases "1 \<le> unat m \<and> unat m \<le> 4")
  case True
  then have "unat m - 1 < 8" by linarith
  with True show ?thesis by (auto simp: msg_bit_def msg_bit_cond bit_exp_iff)
next
  case False
  then show ?thesis by (auto simp: msg_bit_def msg_bit_cond)
qed

lemma bit_handshake_mask:
  "bit (handshake_mask ks) i \<longleftrightarrow>
     (\<exists>k \<in> set ks. i < 4 \<and> unat (dot11_tracked_eapol.eapol_msg_num k) = i + 1)"
  by (induction ks) (auto simp: bit_or_iff bit_msg_bit)

lemma handshake_mask_append:
  "handshake_mask (ks @ [k]) = handshake_mask ks OR msg_bit (dot11_tracked_eapol.eapol_msg_num k)"
  by (induction ks) (simp_all add: ac_simps)

lemma handle_eapol_keys [simp]:
  "wpa_key_vec (handle_eapol a k d) = Some (materialize [] (wpa_key_vec d) @ [k])"
  by (simp add: handle_eapol_def get_wpa_key_vec_def get_wpa_nonce_vec_def
      get_wpa_anonce_vec_def set_wpa_present_handshake_def inc_wps_m3_count_def Let_def
      split: prod.splits)

lemma handle_eapol_mask [simp]:
  "wpa_present_handshake (handle_eapol a k d) = handshake_mask (materialize [] (wpa_key_vec d) @ [k])"
  by (simp add: handle_eapol_def get_wpa_key_vec_def get_wpa_nonce_vec_def
      get_wpa_anonce_vec_def set_wpa_present_handshake_def inc_wps_m3_count_def Let_def
      split: prod.splits)

lemma handle_eapol_m3_count [simp]:
  "wps_m3_count (handle_eapol a k d) =
     (if dot11_tracked_eapol.eapol_msg_num k = 3 then wps_m3_count d + 1 else wps_m3_count d)"
  by (simp add: handle_eapol_def get_wpa_key_vec_def get_wpa_nonce_vec_def
      get_wpa_anonce_vec_def set_wpa_present_handshake_def inc_wps_m3_count_def Let_def
      split: prod.splits)

lemma handle_eapol_inv: "handshake_inv (handle_eapol a k d)"
  by (simp add: handshake_inv_def)


lemma handshake_mask_set_eq:
  "set ks = set ks' \<Longrightarrow> handshake_mask ks = handshake_mask ks'"
  by (rule bit_eqI) (simp add: bit_handshake_mask)

lemma handle_eapol_nonces [simp]:
  "wpa_nonce_vec (handle_eapol a k d) =
     (if a then wpa_nonce_vec d
      else Some (materialize [] (wpa_nonce_vec d) @ [condense_eapol (wpa_nonce_entry_id d) k]))"
  "wpa_anonce_vec (handle_eapol a k d) =
     (if a then Some (materialize [] (wpa_anonce_vec d) @ [condense_eapol (wpa_nonce_entry_id d) k])
      else wpa_anonce_vec d)"
  "wpa_nonce_entry_id (handle_eapol a k d) = wpa_nonce_entry_id d"
  by (simp_all add: handle_eapol_def get_wpa_key_vec_def get_wpa_nonce_vec_def
      get_wpa_anonce_vec_def set_wpa_present_handshake_def inc_wps_m3_count_def Let_def
      condense_eapol_def create_tracked_nonce_def split: prod.splits)

end
