(* ===== verification/Tracking.thy ===== *)
theory Tracking
  imports Handshake "HOL-Library.Sublist" "HOL-Library.Multiset"
begin

text \<open>
  The frame path that drives one device aggregate, as the specification describes it
  (sections 2 and 4.1): the frame-processing code outside \<^verbatim>\<open>src/\<close> looks up or
  creates the client, advertised, responded or probed SSID record under its key and
  routes the frame's content into it, merges device-type bits, bumps counters,
  overwrites the last sequence number, BSS timestamp and BSSID, requests and takes
  the one-off beacon and PMKID snapshots, records EAPOL key messages, and runs
  \<^verbatim>\<open>pre_serialize\<close> before a reader sees the tree. Each of these is composed
  from the header's operations (the lazy getters, the factories, the setters).
  The operations form a datatype; a run applies a list of them; the reachable
  states are those of runs from a freshly constructed device. The invariant
  \<open>dev_wf\<close> (every materialised map has distinct keys, the handshake bitmask agrees
  with the key history) holds in every reachable state.
\<close>

subsection \<open>Get-or-create and update\<close>

definition update_client ::
  "mac_addr \<Rightarrow> (dot11_client \<Rightarrow> dot11_client) \<Rightarrow> dot11_tracked_device \<Rightarrow> dot11_tracked_device" where
  "update_client k f d =
     (let (m, d1) = get_client_map d in d1\<lparr>client_map := Some (tmap_upsert (new_client d1) k f m)\<rparr>)"

definition update_advertised_ssid ::
  "u64 \<Rightarrow> (dot11_advertised_ssid \<Rightarrow> dot11_advertised_ssid) \<Rightarrow> dot11_tracked_device \<Rightarrow>
   dot11_tracked_device" where
  "update_advertised_ssid h f d =
     (let (m, d1) = get_advertised_ssid_map d
      in d1\<lparr>advertised_ssid_map := Some (tmap_upsert (new_advertised_ssid d1) h f m)\<rparr>)"

definition update_responded_ssid ::
  "u64 \<Rightarrow> (dot11_advertised_ssid \<Rightarrow> dot11_advertised_ssid) \<Rightarrow> dot11_tracked_device \<Rightarrow>
   dot11_tracked_device" where
  "update_responded_ssid h f d =
     (let (m, d1) = get_responded_ssid_map d
      in d1\<lparr>responded_ssid_map := Some (tmap_upsert (new_responded_ssid d1) h f m)\<rparr>)"

definition update_probed_ssid ::
  "u64 \<Rightarrow> (dot11_probed_ssid \<Rightarrow> dot11_probed_ssid) \<Rightarrow> dot11_tracked_device \<Rightarrow>
   dot11_tracked_device" where
  "update_probed_ssid h f d =
     (let (m, d1) = get_probed_ssid_map d
      in d1\<lparr>probed_ssid_map := Some (tmap_upsert (new_probed_ssid d1) h f m)\<rparr>)"

definition associate_client ::
  "mac_addr \<Rightarrow> device_key \<Rightarrow> dot11_tracked_device \<Rightarrow> dot11_tracked_device" where
  "associate_client mac key d =
     (let (m, d1) = get_associated_client_map d
      in d1\<lparr>associated_client_map := Some (tmap_insert mac key m)\<rparr>)"

text \<open>Removal through the map's own erase (the container interface of the tracked
  maps).\<close>

definition erase_advertised_ssid :: "u64 \<Rightarrow> dot11_tracked_device \<Rightarrow> dot11_tracked_device" where
  "erase_advertised_ssid h d =
     (let (m, d1) = get_advertised_ssid_map d in d1\<lparr>advertised_ssid_map := Some (tmap_erase h m)\<rparr>)"

definition erase_client :: "mac_addr \<Rightarrow> dot11_tracked_device \<Rightarrow> dot11_tracked_device" where
  "erase_client k d =
     (let (m, d1) = get_client_map d in d1\<lparr>client_map := Some (tmap_erase k m)\<rparr>)"

subsection \<open>Snapshots on demand\<close>

text \<open>A beacon is snapshotted only while \<^verbatim>\<open>get_snap_next_beacon\<close> holds, a
  PMKID-bearing frame only while \<^verbatim>\<open>get_pmkid_needed\<close> holds.\<close>

definition snapshot_beacon :: "kis_tracked_packet \<Rightarrow> dot11_tracked_device \<Rightarrow> dot11_tracked_device" where
  "snapshot_beacon p d = (if get_snap_next_beacon d then set_ssid_beacon_packet (Some p) d else d)"

definition snapshot_pmkid :: "kis_tracked_packet \<Rightarrow> dot11_tracked_device \<Rightarrow> dot11_tracked_device" where
  "snapshot_pmkid p d = (if get_pmkid_needed d then set_pmkid_packet (Some p) d else d)"

subsection \<open>Operations and runs\<close>

datatype dev_op =
    Op_bitset_type_set u64
  | Op_update_client mac_addr "dot11_client \<Rightarrow> dot11_client"
  | Op_update_advertised_ssid u64 "dot11_advertised_ssid \<Rightarrow> dot11_advertised_ssid"
  | Op_update_responded_ssid u64 "dot11_advertised_ssid \<Rightarrow> dot11_advertised_ssid"
  | Op_update_probed_ssid u64 "dot11_probed_ssid \<Rightarrow> dot11_probed_ssid"
  | Op_associate_client mac_addr device_key
  | Op_erase_advertised_ssid u64
  | Op_erase_client mac_addr
  | Op_inc_datasize u64
  | Op_inc_datasize_retry u64
  | Op_inc_num_fragments u64
  | Op_inc_num_retries u64
  | Op_inc_client_disconnects u64
  | Op_set_last_sequence u64
  | Op_set_bss_timestamp u64
  | Op_set_last_bssid mac_addr
  | Op_set_snap_next_beacon bool
  | Op_snapshot_beacon kis_tracked_packet
  | Op_snapshot_pmkid kis_tracked_packet
  | Op_eapol bool dot11_tracked_eapol
  | Op_pre_serialize

fun dev_step :: "dev_op \<Rightarrow> dot11_tracked_device \<Rightarrow> dot11_tracked_device" where
  "dev_step (Op_bitset_type_set b) d = bitset_type_set b d"
| "dev_step (Op_update_client k f) d = update_client k f d"
| "dev_step (Op_update_advertised_ssid h f) d = update_advertised_ssid h f d"
| "dev_step (Op_update_responded_ssid h f) d = update_responded_ssid h f d"
| "dev_step (Op_update_probed_ssid h f) d = update_probed_ssid h f d"
| "dev_step (Op_associate_client mac key) d = associate_client mac key d"
| "dev_step (Op_erase_advertised_ssid h) d = erase_advertised_ssid h d"
| "dev_step (Op_erase_client k) d = erase_client k d"
| "dev_step (Op_inc_datasize i) d = inc_datasize i d"
| "dev_step (Op_inc_datasize_retry i) d = inc_datasize_retry i d"
| "dev_step (Op_inc_num_fragments i) d = inc_num_fragments i d"
| "dev_step (Op_inc_num_retries i) d = inc_num_retries i d"
| "dev_step (Op_inc_client_disconnects i) d = inc_client_disconnects i d"
| "dev_step (Op_set_last_sequence s) d = set_last_sequence s d"
| "dev_step (Op_set_bss_timestamp t) d = set_bss_timestamp t d"
| "dev_step (Op_set_last_bssid b) d = set_last_bssid b d"
| "dev_step (Op_set_snap_next_beacon b) d = set_snap_next_beacon b d"
| "dev_step (Op_snapshot_beacon p) d = snapshot_beacon p d"
| "dev_step (Op_snapshot_pmkid p) d = snapshot_pmkid p d"
| "dev_step (Op_eapol a k) d = handle_eapol a k d"
| "dev_step Op_pre_serialize d = pre_serialize d"

primrec dev_run :: "dev_op list \<Rightarrow> dot11_tracked_device \<Rightarrow> dot11_tracked_device" where
  "dev_run [] d = d"
| "dev_run (op # ops) d = dev_run ops (dev_step op d)"

inductive dev_reachable :: "dot11_tracked_device \<Rightarrow> bool" where
  dev_new: "dev_reachable (dot11_tracked_device_new in_id ids)"
| dev_op: "dev_reachable d \<Longrightarrow> dev_reachable (dev_step op d)"

subsection \<open>Invariant\<close>

definition opt_wf :: "('k, 'v) tracker_map option \<Rightarrow> bool" where
  "opt_wf m \<longleftrightarrow> (case m of None \<Rightarrow> True | Some xs \<Rightarrow> tmap_wf xs)"

definition dev_wf :: "dot11_tracked_device \<Rightarrow> bool" where
  "dev_wf d \<longleftrightarrow>
     opt_wf (client_map d) \<and> opt_wf (advertised_ssid_map d) \<and> opt_wf (responded_ssid_map d) \<and>
     opt_wf (probed_ssid_map d) \<and> opt_wf (associated_client_map d) \<and> handshake_inv d"

subsection \<open>Kinds of operations\<close>

text \<open>The operations that carry a captured frame, and the one that withdraws a
  beacon snapshot request.\<close>

fun beacon_frame_op :: "dev_op \<Rightarrow> bool" where
  "beacon_frame_op (Op_snapshot_beacon p) = True"
| "beacon_frame_op op = False"

fun pmkid_frame_op :: "dev_op \<Rightarrow> bool" where
  "pmkid_frame_op (Op_snapshot_pmkid p) = True"
| "pmkid_frame_op op = False"

fun cancels_snapshot :: "dev_op \<Rightarrow> bool" where
  "cancels_snapshot (Op_set_snap_next_beacon b) = (\<not> b)"
| "cancels_snapshot op = False"

text \<open>A run of key messages only, as the capture path sees them: each element is
  the direction flag and the key record of \<open>Op_eapol\<close>.\<close>

abbreviation eapol_ops :: "(bool \<times> dot11_tracked_eapol) list \<Rightarrow> dev_op list" where
  "eapol_ops xs \<equiv> map (\<lambda>(a, k). Op_eapol a k) xs"

text \<open>A run of advertised-SSID observations only: each element is the content hash
  and the update the frame path applies to the record of that hash.\<close>

abbreviation adv_obs ::
  "(u64 \<times> (dot11_advertised_ssid \<Rightarrow> dot11_advertised_ssid)) list \<Rightarrow> dev_op list" where
  "adv_obs xs \<equiv> map (\<lambda>(h, f). Op_update_advertised_ssid h f) xs"

subsection \<open>Lemmas on single operations\<close>

lemmas dev_op_defs = update_client_def update_advertised_ssid_def update_responded_ssid_def
  update_probed_ssid_def associate_client_def erase_advertised_ssid_def erase_client_def
  get_client_map_def get_advertised_ssid_map_def get_responded_ssid_map_def
  get_probed_ssid_map_def get_associated_client_map_def bitset_type_set_def
  inc_datasize_def inc_datasize_retry_def inc_num_fragments_def inc_num_retries_def
  inc_client_disconnects_def set_last_sequence_def set_bss_timestamp_def set_last_bssid_def
  set_snap_next_beacon_def snapshot_beacon_def snapshot_pmkid_def set_ssid_beacon_packet_def
  set_pmkid_packet_def

lemmas handle_eapol_defs = handle_eapol_def get_wpa_key_vec_def get_wpa_nonce_vec_def
  get_wpa_anonce_vec_def set_wpa_present_handshake_def inc_wps_m3_count_def

lemma update_client_eq [tracker_simps]:
  "update_client k f d =
     d\<lparr>client_map := Some (tmap_upsert (new_client d) k f (materialize [] (client_map d)))\<rparr>"
  by (simp add: update_client_def get_client_map_def new_client_def Let_def)

lemma update_advertised_ssid_eq [tracker_simps]:
  "update_advertised_ssid h f d =
     d\<lparr>advertised_ssid_map :=
         Some (tmap_upsert (new_advertised_ssid d) h f (materialize [] (advertised_ssid_map d)))\<rparr>"
  by (simp add: update_advertised_ssid_def get_advertised_ssid_map_def new_advertised_ssid_def
      Let_def)

lemma update_responded_ssid_eq [tracker_simps]:
  "update_responded_ssid h f d =
     d\<lparr>responded_ssid_map :=
         Some (tmap_upsert (new_responded_ssid d) h f (materialize [] (responded_ssid_map d)))\<rparr>"
  by (simp add: update_responded_ssid_def get_responded_ssid_map_def new_responded_ssid_def
      Let_def)

lemma update_probed_ssid_eq [tracker_simps]:
  "update_probed_ssid h f d =
     d\<lparr>probed_ssid_map :=
         Some (tmap_upsert (new_probed_ssid d) h f (materialize [] (probed_ssid_map d)))\<rparr>"
  by (simp add: update_probed_ssid_def get_probed_ssid_map_def new_probed_ssid_def Let_def)

lemma associate_client_eq [tracker_simps]:
  "associate_client mac key d =
     d\<lparr>associated_client_map :=
         Some (tmap_insert mac key (materialize [] (associated_client_map d)))\<rparr>"
  by (simp add: associate_client_def get_associated_client_map_def Let_def)

lemma erase_advertised_ssid_eq [tracker_simps]:
  "erase_advertised_ssid h d =
     d\<lparr>advertised_ssid_map := Some (tmap_erase h (materialize [] (advertised_ssid_map d)))\<rparr>"
  by (simp add: erase_advertised_ssid_def get_advertised_ssid_map_def Let_def)

lemma erase_client_eq [tracker_simps]:
  "erase_client k d = d\<lparr>client_map := Some (tmap_erase k (materialize [] (client_map d)))\<rparr>"
  by (simp add: erase_client_def get_client_map_def Let_def)

lemma opt_wf_simps [simp]: "opt_wf None" "opt_wf (Some xs) \<longleftrightarrow> tmap_wf xs"
  by (simp_all add: opt_wf_def)

lemma opt_wf_materialize: "opt_wf m \<Longrightarrow> tmap_wf (materialize [] m)"
  by (cases m) simp_all

lemma dev_step_handshake_frame:
  "\<not> (\<exists>a k. op = Op_eapol a k) \<Longrightarrow>
     wpa_key_vec (dev_step op d) = wpa_key_vec d \<and>
     wpa_present_handshake (dev_step op d) = wpa_present_handshake d"
  by (cases op) (simp_all add: dev_op_defs Let_def split: prod.splits)

lemma dev_step_maps_wf:
  assumes "dev_wf d"
  shows "opt_wf (client_map (dev_step op d)) \<and> opt_wf (advertised_ssid_map (dev_step op d)) \<and>
         opt_wf (responded_ssid_map (dev_step op d)) \<and> opt_wf (probed_ssid_map (dev_step op d)) \<and>
         opt_wf (associated_client_map (dev_step op d))"
  using assms
  by (cases op) (auto simp: dev_wf_def dev_op_defs Let_def handle_eapol_defs opt_wf_materialize
      split: prod.splits)

lemma dev_step_beacon_kept:
  "ssid_beacon_packet d = Some p \<Longrightarrow> ssid_beacon_packet (dev_step op d) = Some p"
  by (cases op) (simp_all add: dev_op_defs handle_eapol_defs Let_def get_snap_next_beacon_def
      split: prod.splits)

lemma dev_step_pmkid_kept:
  "pmkid_packet d = Some p \<Longrightarrow> pmkid_packet (dev_step op d) = Some p"
  by (cases op) (simp_all add: dev_op_defs handle_eapol_defs Let_def get_pmkid_needed_def
      split: prod.splits)

lemma dev_step_type_set_mono:
  "bit (type_set d) j \<Longrightarrow> bit (type_set (dev_step op d)) j"
  by (cases op) (simp_all add: dev_op_defs handle_eapol_defs Let_def split: prod.splits)

lemma dev_wf_new: "dev_wf (dot11_tracked_device_new in_id ids)"
  by (simp add: dev_wf_def dot11_tracked_device_new_def handshake_inv_def)

lemma dev_step_wf:
  assumes "dev_wf d"
  shows "dev_wf (dev_step op d)"
proof (cases "\<exists>a k. op = Op_eapol a k")
  case True
  then obtain a k where "op = Op_eapol a k" by blast
  with dev_step_maps_wf [OF assms, of op] show ?thesis
    by (simp add: dev_wf_def handle_eapol_inv)
next
  case False
  with assms have "handshake_inv (dev_step op d)"
    by (simp add: handshake_inv_def dev_wf_def dev_step_handshake_frame)
  with dev_step_maps_wf [OF assms, of op] show ?thesis
    by (simp add: dev_wf_def)
qed

lemma dev_wf_handshake: "dev_wf d \<Longrightarrow> handshake_inv d"
  by (simp add: dev_wf_def)

lemma dev_reachable_wf: "dev_reachable d \<Longrightarrow> dev_wf d"
  by (induction rule: dev_reachable.induct) (simp_all add: dev_wf_new dev_step_wf)

lemma dev_run_reachable: "dev_reachable d \<Longrightarrow> dev_reachable (dev_run ops d)"
  by (induction ops arbitrary: d) (simp_all add: dev_reachable.dev_op)

lemma opt_wf_card: "opt_wf m \<Longrightarrow> card (opt_keys m) = opt_size m"
  by (cases m) (simp_all add: tmap_card_keys)

lemma dev_step_histories_prefix:
  "prefix (materialize [] (wpa_key_vec d)) (materialize [] (wpa_key_vec (dev_step op d))) \<and>
   prefix (materialize [] (wpa_nonce_vec d)) (materialize [] (wpa_nonce_vec (dev_step op d))) \<and>
   prefix (materialize [] (wpa_anonce_vec d)) (materialize [] (wpa_anonce_vec (dev_step op d)))"
proof (cases op)
  case (Op_eapol a k)
  then show ?thesis by (cases a) (simp_all add: handle_eapol_defs Let_def split: prod.splits)
qed (simp_all add: dev_op_defs handle_eapol_defs Let_def pre_serialize_defs split: prod.splits)

subsection \<open>Lemmas on runs\<close>

lemma dev_run_append [simp]: "dev_run (xs @ ys) d = dev_run ys (dev_run xs d)"
  by (induction xs arbitrary: d) simp_all

lemma dev_run_beacon_kept:
  "ssid_beacon_packet d = Some p \<Longrightarrow> ssid_beacon_packet (dev_run ops d) = Some p"
  by (induction ops arbitrary: d) (simp_all add: dev_step_beacon_kept)

lemma dev_run_pmkid_kept:
  "pmkid_packet d = Some p \<Longrightarrow> pmkid_packet (dev_run ops d) = Some p"
  by (induction ops arbitrary: d) (simp_all add: dev_step_pmkid_kept)

lemma dev_step_no_beacon_frame:
  "\<not> beacon_frame_op op \<Longrightarrow> ssid_beacon_packet (dev_step op d) = ssid_beacon_packet d"
  by (cases op) (simp_all add: dev_op_defs handle_eapol_defs Let_def pre_serialize_defs
      split: prod.splits)

lemma dev_step_no_pmkid_frame:
  "\<not> pmkid_frame_op op \<Longrightarrow> pmkid_packet (dev_step op d) = pmkid_packet d"
  by (cases op) (simp_all add: dev_op_defs handle_eapol_defs Let_def pre_serialize_defs
      split: prod.splits)

lemma dev_step_snap_flag_kept:
  "snapshot_next_beacon d \<Longrightarrow> \<not> cancels_snapshot op \<Longrightarrow> snapshot_next_beacon (dev_step op d)"
  by (cases op) (simp_all add: dev_op_defs handle_eapol_defs Let_def pre_serialize_defs
      split: prod.splits)

lemma dev_run_beacon_pending:
  assumes "snapshot_next_beacon d" "ssid_beacon_packet d = None"
    and "\<not> list_ex beacon_frame_op ops" "\<not> list_ex cancels_snapshot ops"
  shows "snapshot_next_beacon (dev_run ops d) \<and> ssid_beacon_packet (dev_run ops d) = None"
  using assms
  by (induction ops arbitrary: d) (simp_all add: dev_step_snap_flag_kept dev_step_no_beacon_frame)

lemma dev_run_no_pmkid_frame:
  "\<not> list_ex pmkid_frame_op ops \<Longrightarrow> pmkid_packet (dev_run ops d) = pmkid_packet d"
  by (induction ops arbitrary: d) (simp_all add: dev_step_no_pmkid_frame)


lemma mset_eq_filter_map_length:
  "mset xs = mset ys \<Longrightarrow> length (filter P (map f xs)) = length (filter P (map f ys))"
  by (metis mset_filter mset_map size_mset)

lemma dev_run_eapol:
  shows "materialize [] (wpa_key_vec (dev_run (eapol_ops xs) d)) = materialize [] (wpa_key_vec d) @ map snd xs \<and>
    wpa_present_handshake (dev_run (eapol_ops xs) d) =
      (if xs = [] then wpa_present_handshake d
       else handshake_mask (materialize [] (wpa_key_vec d) @ map snd xs)) \<and>
    wps_m3_count (dev_run (eapol_ops xs) d) =
      wps_m3_count d + of_nat (length (filter (\<lambda>k. dot11_tracked_eapol.eapol_msg_num k = 3) (map snd xs))) \<and>
    materialize [] (wpa_nonce_vec (dev_run (eapol_ops xs) d)) = materialize [] (wpa_nonce_vec d) @
      map (condense_eapol (wpa_nonce_entry_id d)) (map snd (filter (\<lambda>x. \<not> fst x) xs)) \<and>
    materialize [] (wpa_anonce_vec (dev_run (eapol_ops xs) d)) = materialize [] (wpa_anonce_vec d) @
      map (condense_eapol (wpa_nonce_entry_id d)) (map snd (filter fst xs))"
proof (induction xs arbitrary: d)
  case Nil
  then show ?case by simp
next
  case (Cons x xs)
  obtain a k where x: "x = (a, k)" by fastforce
  show ?case
    using Cons.IH [of "handle_eapol a k d"] by (cases xs) (auto simp: x)
qed

lemma opt_wf_size_card: "opt_wf m \<Longrightarrow> opt_size m = card (opt_keys m)"
  by (cases m) (simp_all add: tmap_card_keys)

lemma filter_fst_Nil [simp]:
  "h \<notin> fst ` set xs \<Longrightarrow> filter (\<lambda>x. fst x = h) xs = []"
  by (auto simp: filter_empty_conv)

lemma dev_run_adv_obs:
  "opt_lookup (advertised_ssid_map (dev_run (adv_obs xs) d)) h =
     (if h \<in> fst ` set xs
      then Some (fold (\<lambda>f a. f a) (map snd (filter (\<lambda>x. fst x = h) xs))
             (case opt_lookup (advertised_ssid_map d) h of Some a \<Rightarrow> a
              | None \<Rightarrow> dot11_advertised_ssid_new (advertised_ssid_map_entry_id d)))
      else opt_lookup (advertised_ssid_map d) h) \<and>
   opt_keys (advertised_ssid_map (dev_run (adv_obs xs) d)) =
     opt_keys (advertised_ssid_map d) \<union> fst ` set xs \<and>
   (opt_wf (advertised_ssid_map d) \<longrightarrow> opt_wf (advertised_ssid_map (dev_run (adv_obs xs) d)))"
proof (induction xs arbitrary: d h)
  case Nil
  then show ?case by simp
next
  case (Cons x xs)
  obtain h0 f0 where x: "x = (h0, f0)" by fastforce
  let ?d = "update_advertised_ssid h0 f0 d"
  have eid: "advertised_ssid_map_entry_id ?d = advertised_ssid_map_entry_id d"
    by (simp add: update_advertised_ssid_eq)
  have look: "opt_lookup (advertised_ssid_map ?d) h' =
      (if h' = h0 then Some (f0 (case opt_lookup (advertised_ssid_map d) h0 of Some a \<Rightarrow> a
         | None \<Rightarrow> dot11_advertised_ssid_new (advertised_ssid_map_entry_id d)))
       else opt_lookup (advertised_ssid_map d) h')" for h'
    by (cases "advertised_ssid_map d") (simp_all add: update_advertised_ssid_eq new_advertised_ssid_def)
  have keys: "opt_keys (advertised_ssid_map ?d) = insert h0 (opt_keys (advertised_ssid_map d))"
    by (cases "advertised_ssid_map d") (simp_all add: update_advertised_ssid_eq)
  have wf: "opt_wf (advertised_ssid_map d) \<Longrightarrow> opt_wf (advertised_ssid_map ?d)"
    by (cases "advertised_ssid_map d") (auto simp: update_advertised_ssid_eq)
  have l: "opt_lookup (advertised_ssid_map (dev_run (adv_obs (x # xs)) d)) h =
     (if h \<in> fst ` set (x # xs)
      then Some (fold (\<lambda>f a. f a) (map snd (filter (\<lambda>x. fst x = h) (x # xs)))
             (case opt_lookup (advertised_ssid_map d) h of Some a \<Rightarrow> a
              | None \<Rightarrow> dot11_advertised_ssid_new (advertised_ssid_map_entry_id d)))
      else opt_lookup (advertised_ssid_map d) h)"
  proof -
    have ih: "opt_lookup (advertised_ssid_map (dev_run (adv_obs xs) ?d)) h' =
       (if h' \<in> fst ` set xs
        then Some (fold (\<lambda>f a. f a) (map snd (filter (\<lambda>x. fst x = h') xs))
               (case opt_lookup (advertised_ssid_map ?d) h' of Some a \<Rightarrow> a
                | None \<Rightarrow> dot11_advertised_ssid_new (advertised_ssid_map_entry_id d)))
        else opt_lookup (advertised_ssid_map ?d) h')" for h'
      using conjunct1 [OF Cons.IH [of ?d h']] by (simp only: eid)
    show ?thesis
      by (cases "h = h0"; cases "h \<in> fst ` set xs")
         (simp_all add: x ih look split: option.splits)
  qed
  show ?case
    using l Cons.IH [of ?d h] wf by (auto simp: x keys)
qed

end
