(* ===== verification/Restore.thy ===== *)
theory Restore
  imports Tracking "HOL-Library.While_Combinator"
begin

text \<open>
  Restoring a device aggregate from a stored tree: the override
  \<^verbatim>\<open>dot11_tracked_device::reserve_fields\<close> (\<^verbatim>\<open>src/phy_80211_components.h\<close>,
  lines 1474--1535). After \<^verbatim>\<open>tracker_component::reserve_fields(e)\<close> has bound the
  fields to the stored tree, the elements of the keyed maps and of the handshake
  vectors are generic maps (\<^verbatim>\<open>tracker_element_map\<close>); the override is meant to
  re-type each into its record class by constructing the record from it with the
  entry id of the collection.

  A stored element is \<open>Generic r\<close> (a generic map holding the fields of
  \<open>r\<close>) or \<open>Typed r\<close> (an object of the record class); constructing the record
  from it keeps the fields and sets the entry id. The maps are walked with
  \<^verbatim>\<open>for (auto as : *map)\<close>, which binds a copy of each entry, so the assignment
  \<^verbatim>\<open>as.second = ...\<close> changes the copy and not the map (\<open>tmap_for_each_copy\<close>);
  the vectors are walked through iterators and assigned through them
  (\<open>vec_for_each_ref\<close>). The advertised SSID map is dereferenced with no null
  check, which the model makes the error \<open>Err_null_advertised_ssid_map\<close>.

  \<open>device_store\<close> is the serialiser's view of a live device (outside
  \<^verbatim>\<open>src/\<close>): its collections as a stored tree of generic elements.
\<close>

datatype 'r relem = Generic 'r | Typed 'r

primrec relem_val :: "'r relem \<Rightarrow> 'r" where
  "relem_val (Generic r) = r"
| "relem_val (Typed r) = r"

primrec relem_typed :: "'r relem \<Rightarrow> bool" where
  "relem_typed (Generic r) = False"
| "relem_typed (Typed r) = True"

text \<open>\<^verbatim>\<open>std::make_shared<C>(entry_id, std::static_pointer_cast<tracker_element_map>(x))\<close>:
  a record of the class with the fields of \<open>x\<close> and the collection's entry id.\<close>

definition relem_retype ::
  "int \<Rightarrow> 'a tracker_component_scheme relem \<Rightarrow> 'a tracker_component_scheme relem" where
  "relem_retype i x = Typed ((relem_val x)\<lparr>tracker_id := i\<rparr>)"

text \<open>\<^verbatim>\<open>for (auto as : *m) { auto y = f(as.second); as.second = y; }\<close>: each
  iteration builds the updated copy \<open>as\<close> and drops it.\<close>

definition tmap_for_each_copy ::
  "('v \<Rightarrow> 'v) \<Rightarrow> ('k, 'v) tracker_map \<Rightarrow> ('k, 'v) tracker_map" where
  "tmap_for_each_copy f m = fold (\<lambda>kv m'. let as = (fst kv, f (snd kv)) in m') m m"

text \<open>\<^verbatim>\<open>for (auto k = v->begin(); k != v->end(); ++k) *k = f(*k);\<close>, kept as
  the loop it is: the state is the iterator's position and the vector, the body
  assigns through the iterator and advances it, and the loop stops when the
  iterator reaches \<^verbatim>\<open>end()\<close>. \<open>vec_iter_loop\<close> is the loop, \<open>None\<close> if it never
  stopped; \<open>vec_for_each_ref\<close> is the vector it leaves.\<close>

definition vec_iter_step :: "('v \<Rightarrow> 'v) \<Rightarrow> nat \<times> 'v list \<Rightarrow> nat \<times> 'v list" where
  "vec_iter_step f s = (case s of (k, w) \<Rightarrow> (Suc k, w[k := f (w ! k)]))"

definition vec_iter_loop :: "('v \<Rightarrow> 'v) \<Rightarrow> 'v list \<Rightarrow> (nat \<times> 'v list) option" where
  "vec_iter_loop f v = while_option (\<lambda>(k, w). k \<noteq> length w) (vec_iter_step f) (0, v)"

definition vec_for_each_ref :: "('v \<Rightarrow> 'v) \<Rightarrow> 'v list \<Rightarrow> 'v list" where
  "vec_for_each_ref f v = snd (the (vec_iter_loop f v))"

record dot11_device_stored =
  st_client_map :: "(mac_addr, dot11_client relem) tracker_map option"
  st_advertised_ssid_map :: "(u64, dot11_advertised_ssid relem) tracker_map option"
  st_responded_ssid_map :: "(u64, dot11_advertised_ssid relem) tracker_map option"
  st_probed_ssid_map :: "(u64, dot11_probed_ssid relem) tracker_map option"
  st_wpa_key_vec :: "dot11_tracked_eapol relem list option"
  st_wpa_nonce_vec :: "dot11_tracked_nonce relem list option"
  st_wpa_anonce_vec :: "dot11_tracked_nonce relem list option"

datatype restore_error = Err_null_advertised_ssid_map

text \<open>With no stored tree (\<^verbatim>\<open>e == NULL\<close>) the dynamic collections stay null.\<close>

definition dot11_device_stored_null :: dot11_device_stored where
  "dot11_device_stored_null =
     \<lparr>st_client_map = None, st_advertised_ssid_map = None, st_responded_ssid_map = None,
      st_probed_ssid_map = None, st_wpa_key_vec = None, st_wpa_nonce_vec = None,
      st_wpa_anonce_vec = None\<rparr>"

definition device_reserve_fields ::
  "dot11_device_entry_ids \<Rightarrow> dot11_device_stored option \<Rightarrow>
     restore_error + dot11_device_stored" where
  "device_reserve_fields ids e =
     (case e of
        None \<Rightarrow> Inr dot11_device_stored_null
      | Some c \<Rightarrow>
          (case st_advertised_ssid_map c of
             None \<Rightarrow> Inl Err_null_advertised_ssid_map
           | Some am \<Rightarrow>
               Inr (c\<lparr>st_advertised_ssid_map :=
                        Some (tmap_for_each_copy (relem_retype (eid_advertised_ssid ids)) am),
                      st_probed_ssid_map :=
                        map_option (tmap_for_each_copy (relem_retype (eid_probed_ssid ids)))
                          (st_probed_ssid_map c),
                      st_client_map :=
                        map_option (tmap_for_each_copy (relem_retype (eid_client ids)))
                          (st_client_map c),
                      st_wpa_key_vec :=
                        map_option (vec_for_each_ref (relem_retype (eid_wpa_key ids)))
                          (st_wpa_key_vec c),
                      st_wpa_nonce_vec :=
                        map_option (vec_for_each_ref (relem_retype (eid_wpa_nonce ids)))
                          (st_wpa_nonce_vec c),
                      st_wpa_anonce_vec :=
                        map_option (vec_for_each_ref (relem_retype (eid_wpa_nonce ids)))
                          (st_wpa_anonce_vec c)\<rparr>)))"

text \<open>\<^verbatim>\<open>dot11_advertised_ssid::reserve_fields\<close> (lines 718--735): when restoring
  (\<open>e\<close> not null) and the 802.11d range list is present, each element is re-typed
  through the iterator with the country entry id. The argument is the stored range
  list, absent when there is no stored tree.\<close>

definition advertised_ssid_reserve_fields ::
  "int \<Rightarrow> dot11_11d_tracked_range_info relem list option option \<Rightarrow>
     dot11_11d_tracked_range_info relem list option" where
  "advertised_ssid_reserve_fields country_eid e =
     (case e of
        None \<Rightarrow> None
      | Some dv \<Rightarrow> map_option (vec_for_each_ref (relem_retype country_eid)) dv)"

text \<open>The stored tree of a live device: every element a generic map.\<close>

definition store_map :: "('k, 'v) tracker_map option \<Rightarrow> ('k, 'v relem) tracker_map option" where
  "store_map m = map_option (map (\<lambda>(k, v). (k, Generic v))) m"

definition device_store :: "dot11_tracked_device \<Rightarrow> dot11_device_stored" where
  "device_store d =
     \<lparr>st_client_map = store_map (client_map d),
      st_advertised_ssid_map = store_map (advertised_ssid_map d),
      st_responded_ssid_map = store_map (responded_ssid_map d),
      st_probed_ssid_map = store_map (probed_ssid_map d),
      st_wpa_key_vec = map_option (map Generic) (wpa_key_vec d),
      st_wpa_nonce_vec = map_option (map Generic) (wpa_nonce_vec d),
      st_wpa_anonce_vec = map_option (map Generic) (wpa_anonce_vec d)\<rparr>"

text \<open>The frame-path operations that materialise the advertised SSID map.\<close>

fun adv_op :: "dev_op \<Rightarrow> bool" where
  "adv_op (Op_update_advertised_ssid h f) = True"
| "adv_op (Op_erase_advertised_ssid h) = True"
| "adv_op op = False"

subsection \<open>Lemmas\<close>

lemma tmap_for_each_copy_id [simp]: "tmap_for_each_copy f = id"
proof
  fix m :: "('a, 'b) tracker_map"
  have "fold (\<lambda>kv m'. let as = (fst kv, f (snd kv)) in m') xs m = m" for xs :: "('a \<times> 'b) list"
    by (induction xs) simp_all
  then show "tmap_for_each_copy f m = id m" by (simp add: tmap_for_each_copy_def)
qed

text \<open>The loop from position \<open>k\<close> has already rewritten the first \<open>k\<close>
  elements and rewrites the rest; the distance to \<^verbatim>\<open>end()\<close> decreases.\<close>

lemma vec_iter_while_from:
  "k \<le> length w \<Longrightarrow>
   while_option (\<lambda>(k, w). k \<noteq> length w) (vec_iter_step f) (k, w) =
     Some (length w, take k w @ map f (drop k w))"
proof (induction "length w - k" arbitrary: k w)
  case 0
  then show ?case by (simp add: while_option_unfold [of _ _ "(k, w)"])
next
  case (Suc n)
  then have k: "k < length w" by simp
  let ?w = "w[k := f (w ! k)]"
  have "while_option (\<lambda>(k, w). k \<noteq> length w) (vec_iter_step f) (Suc k, ?w) =
      Some (length ?w, take (Suc k) ?w @ map f (drop (Suc k) ?w))"
    using Suc.hyps(1) [of ?w "Suc k"] Suc.hyps(2) k by simp
  moreover have "take (Suc k) ?w @ map f (drop (Suc k) ?w) = take k w @ map f (drop k w)"
    using k by (simp add: take_Suc_conv_app_nth Cons_nth_drop_Suc [symmetric])
  ultimately show ?case
    using k by (simp add: while_option_unfold [of _ _ "(k, w)"] vec_iter_step_def)
qed

lemma vec_iter_loop_Some: "vec_iter_loop f v = Some (length v, map f v)"
  using vec_iter_while_from [of 0 v f] by (simp add: vec_iter_loop_def)

lemma vec_for_each_ref_map [simp]: "vec_for_each_ref f v = map f v"
  by (simp add: vec_for_each_ref_def vec_iter_loop_Some)

lemma relem_retype_eq [simp]: "relem_retype i x = Typed ((relem_val x)\<lparr>tracker_id := i\<rparr>)"
  by (simp add: relem_retype_def)

lemma device_reserve_fields_Some:
  "st_advertised_ssid_map c = Some am \<Longrightarrow>
   device_reserve_fields ids (Some c) =
     Inr (c\<lparr>st_wpa_key_vec := map_option (vec_for_each_ref (relem_retype (eid_wpa_key ids)))
                                (st_wpa_key_vec c),
            st_wpa_nonce_vec := map_option (vec_for_each_ref (relem_retype (eid_wpa_nonce ids)))
                                (st_wpa_nonce_vec c),
            st_wpa_anonce_vec := map_option (vec_for_each_ref (relem_retype (eid_wpa_nonce ids)))
                                (st_wpa_anonce_vec c)\<rparr>)"
  by (cases c) (simp add: device_reserve_fields_def option.map_id)

lemma dev_step_adv_None:
  "advertised_ssid_map d = None \<Longrightarrow> \<not> adv_op op \<Longrightarrow> advertised_ssid_map (dev_step op d) = None"
  by (cases op) (simp_all add: dev_op_defs handle_eapol_defs Let_def pre_serialize_defs
      split: prod.splits)

lemma dev_run_adv_None:
  "advertised_ssid_map d = None \<Longrightarrow> \<not> list_ex adv_op ops \<Longrightarrow>
   advertised_ssid_map (dev_run ops d) = None"
  by (induction ops arbitrary: d) (simp_all add: dev_step_adv_None)

lemma device_reserve_fields_store_None:
  "advertised_ssid_map d = None \<Longrightarrow>
   device_reserve_fields ids (Some (device_store d)) = Inl Err_null_advertised_ssid_map"
  by (simp add: device_reserve_fields_def device_store_def store_map_def)

end
