(* ===== verification/Regex.thy ===== *)
theory Regex
  imports Prelude "HOL-Library.Sublist"
begin

text \<open>
  The pattern engine behind the SSID watchlist. The header compiles and runs
  patterns with PCRE (\<^verbatim>\<open>pcre_compile\<close>, \<^verbatim>\<open>pcre_exec\<close>), a library the
  sources only call, so this theory models it from the specification (section 4.4):
  a pattern is parsed into a regular expression, and a compiled pattern matches an
  SSID when some substring of it is in the pattern's language, as \<^verbatim>\<open>pcre_exec\<close>
  does for an unanchored pattern.

  The modelled syntax is the core of PCRE: literal characters, \<open>.\<close> (any
  character but newline), a backslash before a non-alphanumeric character (that
  character literally), grouping with parentheses, alternation \<open>|\<close>, the
  quantifiers \<open>*\<close>, \<open>+\<close>, \<open>?\<close>, and the anchors \<open>^\<close> at the start and
  \<open>$\<close> at the end of the pattern. Anchors elsewhere, classes and counted repetition
  (\<open>[ {\<close>), alphanumeric escapes and stacked quantifiers (possessive and lazy
  forms) are outside it and rejected, so the model reports a configuration error for
  a superset of PCRE's invalid patterns.

  The matcher is Brzozowski's derivative matcher; its correctness against the
  language semantics \<open>lang\<close> and the round trip of the pattern printer through
  the parser are the lemmas of this theory.
\<close>

datatype regex = Zero | One | Atom char | AnyChar | Plus regex regex | Times regex regex
  | Star regex

subsection \<open>Language semantics\<close>

definition lang_conc :: "string set \<Rightarrow> string set \<Rightarrow> string set" where
  "lang_conc A B = {xs @ ys | xs ys. xs \<in> A \<and> ys \<in> B}"

inductive_set lang_star :: "string set \<Rightarrow> string set" for A :: "string set" where
  star_Nil: "[] \<in> lang_star A"
| star_app: "xs \<in> A \<Longrightarrow> ys \<in> lang_star A \<Longrightarrow> xs @ ys \<in> lang_star A"

definition newline :: char where
  "newline = CHR 0x0A"

primrec lang :: "regex \<Rightarrow> string set" where
  "lang Zero = {}"
| "lang One = {[]}"
| "lang (Atom c) = {[c]}"
| "lang AnyChar = {[c] | c. c \<noteq> newline}"
| "lang (Plus r s) = lang r \<union> lang s"
| "lang (Times r s) = lang_conc (lang r) (lang s)"
| "lang (Star r) = lang_star (lang r)"

subsection \<open>Derivative matcher\<close>

primrec nullable :: "regex \<Rightarrow> bool" where
  "nullable Zero = False"
| "nullable One = True"
| "nullable (Atom c) = False"
| "nullable AnyChar = False"
| "nullable (Plus r s) = (nullable r \<or> nullable s)"
| "nullable (Times r s) = (nullable r \<and> nullable s)"
| "nullable (Star r) = True"

primrec deriv :: "char \<Rightarrow> regex \<Rightarrow> regex" where
  "deriv c Zero = Zero"
| "deriv c One = Zero"
| "deriv c (Atom d) = (if c = d then One else Zero)"
| "deriv c AnyChar = (if c = newline then Zero else One)"
| "deriv c (Plus r s) = Plus (deriv c r) (deriv c s)"
| "deriv c (Times r s) =
     (if nullable r then Plus (Times (deriv c r) s) (deriv c s) else Times (deriv c r) s)"
| "deriv c (Star r) = Times (deriv c r) (Star r)"

definition re_match :: "regex \<Rightarrow> string \<Rightarrow> bool" where
  "re_match r s = nullable (fold deriv s r)"

text \<open>A compiled pattern: the expression with the anchors \<open>^\<close> (at the start
  of the subject) and \<open>$\<close> (at its end, or before a final newline, as PCRE's
  default \<open>$\<close> does).\<close>

record re_pattern =
  pat_bol :: bool
  pat_body :: regex
  pat_eol :: bool

definition eol_tail :: "string \<Rightarrow> bool" where
  "eol_tail w \<longleftrightarrow> w = [] \<or> w = [newline]"

text \<open>\<^verbatim>\<open>pcre_exec\<close>: some substring of the subject matches the expression,
  starting at the beginning when the pattern is anchored there, and followed only by
  an optional final newline when it is anchored at the end.\<close>

definition re_search :: "re_pattern \<Rightarrow> string \<Rightarrow> bool" where
  "re_search p s =
     list_ex (\<lambda>t. list_ex (\<lambda>v. re_match (pat_body p) v \<and>
                               (pat_eol p \<longrightarrow> eol_tail (drop (length v) t))) (prefixes t))
       (if pat_bol p then [s] else suffixes s)"

subsection \<open>Pattern syntax\<close>

definition backslash :: char where
  "backslash = CHR 0x5C"

definition re_alnum :: "char \<Rightarrow> bool" where
  "re_alnum c \<longleftrightarrow>
     (let n = of_char c :: nat in 48 \<le> n \<and> n \<le> 57 \<or> 65 \<le> n \<and> n \<le> 90 \<or> 97 \<le> n \<and> n \<le> 122)"

text \<open>Characters with a meaning of their own in a pattern.\<close>

definition re_meta :: "char \<Rightarrow> bool" where
  "re_meta c \<longleftrightarrow> c \<in> set ''()|*+?.^$[{'' \<or> c = backslash"

definition re_quantifier :: "char \<Rightarrow> bool" where
  "re_quantifier c \<longleftrightarrow> c \<in> set ''*+?''"

definition re_unsupported :: "char \<Rightarrow> bool" where
  "re_unsupported c \<longleftrightarrow> c \<in> set ''^$[{''"

fun quantify :: "char \<Rightarrow> regex \<Rightarrow> regex" where
  "quantify c r =
     (if c = CHR ''*'' then Star r else if c = CHR ''+'' then Times r (Star r) else Plus One r)"

fun seq_re :: "regex list \<Rightarrow> regex" where
  "seq_re [] = One"
| "seq_re [r] = r"
| "seq_re (r # r' # rs) = Times r (seq_re (r' # rs))"

fun alt_re :: "regex list \<Rightarrow> regex" where
  "alt_re [] = One"
| "alt_re [r] = r"
| "alt_re (r # r' # rs) = Plus r (alt_re (r' # rs))"

text \<open>A group being parsed: the alternatives closed so far, the items of the
  current alternative, and whether the last item carries a quantifier already.\<close>

type_synonym re_frame = "regex list \<times> regex list \<times> bool"

definition close_frame :: "re_frame \<Rightarrow> regex" where
  "close_frame fr = (case fr of (alts, sq, q) \<Rightarrow> alt_re (alts @ [seq_re sq]))"

definition push_item :: "regex \<Rightarrow> re_frame \<Rightarrow> re_frame" where
  "push_item r fr = (case fr of (alts, sq, q) \<Rightarrow> (alts, sq @ [r], False))"

text \<open>The parser is a left-to-right scan over the pattern with an explicit stack of
  open groups, so it is structurally recursive on the pattern.\<close>

fun re_parse_go :: "string \<Rightarrow> re_frame list \<Rightarrow> (regex \<times> bool) option" where
  "re_parse_go [] [fr] = Some (close_frame fr, False)"
| "re_parse_go [] _ = None"
| "re_parse_go (c # cs) [] = None"
| "re_parse_go (c # cs) ((alts, sq, q) # st) =
     (if c = CHR ''('' then re_parse_go cs (([], [], False) # (alts, sq, q) # st)
      else if c = CHR '')'' then
        (case st of [] \<Rightarrow> None
         | fr # st' \<Rightarrow> re_parse_go cs (push_item (close_frame (alts, sq, q)) fr # st'))
      else if c = CHR ''|'' then re_parse_go cs ((alts @ [seq_re sq], [], False) # st)
      else if re_quantifier c then
        (if sq = [] \<or> q then None
         else re_parse_go cs ((alts, butlast sq @ [quantify c (last sq)], True) # st))
      else if c = CHR ''.'' then re_parse_go cs (push_item AnyChar (alts, sq, q) # st)
      else if c = CHR ''$'' then
        (if cs = [] \<and> st = [] then Some (close_frame (alts, sq, q), True) else None)
      else if c = backslash then
        (case cs of [] \<Rightarrow> None
         | d # ds \<Rightarrow> if re_alnum d then None
                    else re_parse_go ds (push_item (Atom d) (alts, sq, q) # st))
      else if re_unsupported c then None
      else re_parse_go cs (push_item (Atom c) (alts, sq, q) # st))"

text \<open>A leading \<open>^\<close> anchors the pattern at the start; the scan reports a
  final \<open>$\<close>.\<close>

definition re_parse :: "string \<Rightarrow> re_pattern option" where
  "re_parse s =
     (let bol = (s \<noteq> [] \<and> hd s = CHR ''^''); s' = (if bol then tl s else s)
      in map_option (\<lambda>(r, eol). \<lparr>pat_bol = bol, pat_body = r, pat_eol = eol\<rparr>)
           (re_parse_go s' [([], [], False)]))"

text \<open>A printer of regular expressions as patterns, every operator in its own group.\<close>

fun print_regex :: "regex \<Rightarrow> string" where
  "print_regex Zero = []"
| "print_regex One = ''()''"
| "print_regex (Atom c) = (if re_meta c then [backslash, c] else [c])"
| "print_regex AnyChar = ''.''"
| "print_regex (Plus r s) = ''('' @ print_regex r @ ''|'' @ print_regex s @ '')''"
| "print_regex (Times r s) = ''('' @ print_regex r @ print_regex s @ '')''"
| "print_regex (Star r) = ''('' @ print_regex r @ ''*)''"

definition print_pattern :: "re_pattern \<Rightarrow> string" where
  "print_pattern p =
     (if pat_bol p then ''^'' else []) @ print_regex (pat_body p) @ (if pat_eol p then ''$'' else [])"

primrec zero_free :: "regex \<Rightarrow> bool" where
  "zero_free Zero = False"
| "zero_free One = True"
| "zero_free (Atom c) = True"
| "zero_free AnyChar = True"
| "zero_free (Plus r s) = (zero_free r \<and> zero_free s)"
| "zero_free (Times r s) = (zero_free r \<and> zero_free s)"
| "zero_free (Star r) = zero_free r"

subsection \<open>Lemmas\<close>

lemma nullable_iff: "nullable r \<longleftrightarrow> [] \<in> lang r"
  by (induction r) (auto simp: lang_conc_def intro: lang_star.star_Nil)

lemma lang_conc_Cons:
  "c # w \<in> lang_conc A B \<longleftrightarrow>
     (\<exists>u v. w = u @ v \<and> c # u \<in> A \<and> v \<in> B) \<or> ([] \<in> A \<and> c # w \<in> B)"
  by (auto simp: lang_conc_def Cons_eq_append_conv)

lemma lang_star_ConsD:
  assumes "x \<in> lang_star A" and "x = c # w"
  shows "\<exists>u v. w = u @ v \<and> c # u \<in> A \<and> v \<in> lang_star A"
  using assms
proof (induction arbitrary: w)
  case star_Nil
  then show ?case by simp
next
  case (star_app xs ys)
  show ?case
  proof (cases xs)
    case Nil
    with star_app show ?thesis by simp
  next
    case (Cons a u)
    with star_app show ?thesis by auto
  qed
qed

lemma lang_star_Cons:
  "c # w \<in> lang_star A \<longleftrightarrow> (\<exists>u v. w = u @ v \<and> c # u \<in> A \<and> v \<in> lang_star A)"
  using lang_star_ConsD [of "c # w" A c w] lang_star.star_app [of "c # _" A] by auto

lemma deriv_lang: "w \<in> lang (deriv c r) \<longleftrightarrow> c # w \<in> lang r"
  by (induction r arbitrary: w)
     (auto simp: nullable_iff lang_conc_Cons lang_star_Cons, auto simp: lang_conc_def)

lemma re_match_lang: "re_match r s \<longleftrightarrow> s \<in> lang r"
  by (induction s arbitrary: r) (simp_all add: re_match_def nullable_iff deriv_lang)

lemma re_search_lang:
  "re_search p s \<longleftrightarrow> (\<exists>u v w. s = u @ v @ w \<and> v \<in> lang (pat_body p) \<and>
     (pat_bol p \<longrightarrow> u = []) \<and> (pat_eol p \<longrightarrow> eol_tail w))"
proof
  assume "re_search p s"
  then obtain t v where t: "t \<in> set (if pat_bol p then [s] else suffixes s)"
    and "prefix v t" "v \<in> lang (pat_body p)"
    and e: "pat_eol p \<longrightarrow> eol_tail (drop (length v) t)"
    by (auto simp: re_search_def list_ex_iff re_match_lang)
  then obtain w where tw: "t = v @ w" "v \<in> lang (pat_body p)" by (auto simp: prefix_def)
  from t obtain u where "s = u @ t" "pat_bol p \<longrightarrow> u = []"
    by (cases "pat_bol p") (auto simp: suffix_def)
  with tw e show "\<exists>u v w. s = u @ v @ w \<and> v \<in> lang (pat_body p) \<and>
     (pat_bol p \<longrightarrow> u = []) \<and> (pat_eol p \<longrightarrow> eol_tail w)" by auto
next
  assume "\<exists>u v w. s = u @ v @ w \<and> v \<in> lang (pat_body p) \<and>
     (pat_bol p \<longrightarrow> u = []) \<and> (pat_eol p \<longrightarrow> eol_tail w)"
  then obtain u v w where s: "s = u @ v @ w" and v: "v \<in> lang (pat_body p)"
    and b: "pat_bol p \<longrightarrow> u = []" and e: "pat_eol p \<longrightarrow> eol_tail w" by blast
  have t: "v @ w \<in> set (if pat_bol p then [s] else suffixes s)"
    using s b by (auto simp: suffix_def)
  show "re_search p s"
    unfolding re_search_def list_ex_iff re_match_lang
    by (rule bexI [OF bexI [of _ v] t]) (simp_all add: v e)
qed

lemma re_meta_not_alnum: "re_meta c \<Longrightarrow> \<not> re_alnum c"
  by (auto simp: re_meta_def re_alnum_def backslash_def)

lemmas re_char_classes = re_quantifier_def re_unsupported_def re_meta_def backslash_def

lemma re_parse_go_print:
  assumes "zero_free r"
  shows "re_parse_go (print_regex r @ rest) ((alts, sq, q) # st) =
    re_parse_go rest ((alts, sq @ [r], False) # st)"
  using assms
proof (induction r arbitrary: rest alts sq q st)
  case (Atom c)
  show ?case
  proof (cases "re_meta c")
    case True
    then show ?thesis
      by (simp add: re_meta_not_alnum push_item_def backslash_def re_quantifier_def)
  next
    case False
    then show ?thesis by (simp add: re_char_classes push_item_def)
  qed
qed (simp_all add: re_char_classes push_item_def close_frame_def)

lemma print_regex_Cons:
  "zero_free r \<Longrightarrow> \<exists>c cs. print_regex r = c # cs \<and> c \<noteq> CHR ''^''"
  by (cases r) (auto simp: re_meta_def backslash_def)

lemma re_parse_print:
  assumes "zero_free (pat_body p)"
  shows "re_parse (print_pattern p) = Some p"
proof -
  obtain c cs where pc: "print_regex (pat_body p) = c # cs" "c \<noteq> CHR ''^''"
    using print_regex_Cons [OF assms] by blast
  have go: "re_parse_go (print_regex (pat_body p) @ (if pat_eol p then ''$'' else []))
      [([], [], False)] = Some (pat_body p, pat_eol p)"
    using re_parse_go_print [OF assms, of "if pat_eol p then ''$'' else []" "[]" "[]" False "[]"]
    by (simp add: close_frame_def re_quantifier_def)
  show ?thesis
  proof (cases "pat_bol p")
    case True
    with go show ?thesis by (simp add: re_parse_def print_pattern_def)
  next
    case False
    with go pc show ?thesis by (simp add: re_parse_def print_pattern_def)
  qed
qed

end
