(* ===== verification/SsidAlert.thy ===== *)
theory SsidAlert
  imports Regex
begin

text \<open>
  \<^verbatim>\<open>dot11_tracked_ssid_alert\<close> (\<^verbatim>\<open>src/phy_80211_components.h\<close>, lines 189--284):
  one configured SSID watchlist entry, with a group name, a pattern, the MAC
  addresses exempted from matching, and the compiled pattern (\<^verbatim>\<open>ssid_re\<close> with its
  study data \<^verbatim>\<open>ssid_study\<close>, modelled together as one slot). The build modelled is
  the one with \<^verbatim>\<open>HAVE_LIBPCRE\<close> defined, where the slot exists.

  The constructors and the clone are translated from the header. Two of them guard
  the slot's initialisation with \<^verbatim>\<open>#ifdef HAVE_LIBCPRE\<close>, a macro no build
  defines, so in them the slot is left indeterminate (\<open>Re_indeterminate\<close>).
  \<^verbatim>\<open>set_regex\<close>, \<^verbatim>\<open>set_allowed_macs\<close> and \<^verbatim>\<open>compare_ssid\<close> are only declared
  in the header (lines 262--268) and are modelled from section 4.4 of the
  specification: a pattern is validated when set (an invalid one is rejected with
  a configuration error and changes nothing), compiled lazily on the first match
  after it is set and cached, and a match holds when the pattern matches the SSID
  and the MAC is not exempt. Using an indeterminate slot is undefined behaviour in
  C++; the model makes it the error value \<open>Err_indeterminate_pattern\<close>.

  Each operation runs under the entry's reentrant lock (\<^verbatim>\<open>ssid_mutex\<close>), so
  concurrent reconfiguration and matching are some sequence of whole operations:
  \<open>alert_run\<close> runs such a sequence, and \<open>watch_run\<close> runs the specification's
  abstract matcher (a pattern and an exempt set) on the same sequence.
\<close>

datatype alert_error = Err_invalid_regex | Err_indeterminate_pattern

datatype re_slot = Re_null | Re_compiled re_pattern | Re_indeterminate

record dot11_tracked_ssid_alert = tracker_component +
  ssid_group_name :: string
  ssid_regex :: string
  allowed_macs_vec :: "mac_addr list"
  allowed_mac_id :: int
  ssid_re :: re_slot

text \<open>The fields a stored record restores through \<^verbatim>\<open>reserve_fields(e)\<close>.\<close>

record alert_stored =
  stored_group_name :: string
  stored_regex :: string
  stored_macs :: "mac_addr list"

text \<open>The default constructor (lines 191--200) and the id-taking one (lines
  202--212) clear the slot. The entry id of the exempt MACs, \<open>mac_id\<close>, is the
  one \<^verbatim>\<open>register_fields\<close> registers.\<close>

definition dot11_tracked_ssid_alert_default :: "int \<Rightarrow> dot11_tracked_ssid_alert" where
  "dot11_tracked_ssid_alert_default mac_id =
     \<lparr>tracker_id = tracker_component_default_id, ssid_group_name = [], ssid_regex = [],
      allowed_macs_vec = [], allowed_mac_id = mac_id, ssid_re = Re_null\<rparr>"

definition dot11_tracked_ssid_alert_new :: "int \<Rightarrow> int \<Rightarrow> dot11_tracked_ssid_alert" where
  "dot11_tracked_ssid_alert_new in_id mac_id =
     \<lparr>tracker_id = in_id, ssid_group_name = [], ssid_regex = [],
      allowed_macs_vec = [], allowed_mac_id = mac_id, ssid_re = Re_null\<rparr>"

text \<open>The constructor from a stored map (lines 214--223): the slot's
  initialisation sits under \<^verbatim>\<open>HAVE_LIBCPRE\<close> and does not happen.\<close>

definition dot11_tracked_ssid_alert_restore ::
  "int \<Rightarrow> int \<Rightarrow> alert_stored option \<Rightarrow> dot11_tracked_ssid_alert" where
  "dot11_tracked_ssid_alert_restore in_id mac_id e =
     (case e of
        None \<Rightarrow> \<lparr>tracker_id = in_id, ssid_group_name = [], ssid_regex = [],
                 allowed_macs_vec = [], allowed_mac_id = mac_id, ssid_re = Re_indeterminate\<rparr>
      | Some st \<Rightarrow> \<lparr>tracker_id = in_id, ssid_group_name = stored_group_name st,
                 ssid_regex = stored_regex st, allowed_macs_vec = stored_macs st,
                 allowed_mac_id = mac_id, ssid_re = Re_indeterminate\<rparr>)"

text \<open>The cloning constructor (lines 225--237) copies the base, the group name,
  the pattern, the exempt MACs and their entry id; the slot is again under
  \<^verbatim>\<open>HAVE_LIBCPRE\<close>.\<close>

definition dot11_tracked_ssid_alert_clone ::
  "dot11_tracked_ssid_alert \<Rightarrow> dot11_tracked_ssid_alert" where
  "dot11_tracked_ssid_alert_clone p =
     \<lparr>tracker_id = tracker_id p, ssid_group_name = ssid_group_name p,
      ssid_regex = ssid_regex p, allowed_macs_vec = allowed_macs_vec p,
      allowed_mac_id = allowed_mac_id p, ssid_re = Re_indeterminate\<rparr>"

text \<open>\<^verbatim>\<open>__Proxy(group_name, ...)\<close> (line 258) and \<^verbatim>\<open>__ProxyGet(regex, ...)\<close>
  (line 261).\<close>

definition get_group_name :: "dot11_tracked_ssid_alert \<Rightarrow> string" where
  "get_group_name a = ssid_group_name a"

definition set_group_name :: "string \<Rightarrow> dot11_tracked_ssid_alert \<Rightarrow> dot11_tracked_ssid_alert" where
  "set_group_name g a = a\<lparr>ssid_group_name := g\<rparr>"

definition get_regex :: "dot11_tracked_ssid_alert \<Rightarrow> string" where
  "get_regex a = ssid_regex a"

text \<open>\<^verbatim>\<open>set_regex\<close> (line 262, which \<^emph>\<open>may throw\<close>): validate, then store the
  pattern and drop the compiled form so the next match recompiles.\<close>

definition set_regex ::
  "string \<Rightarrow> dot11_tracked_ssid_alert \<Rightarrow> alert_error + dot11_tracked_ssid_alert" where
  "set_regex s a =
     (case re_parse s of
        None \<Rightarrow> Inl Err_invalid_regex
      | Some r \<Rightarrow> Inr (a\<lparr>ssid_regex := s, ssid_re := Re_null\<rparr>))"

definition set_allowed_macs ::
  "mac_addr list \<Rightarrow> dot11_tracked_ssid_alert \<Rightarrow> dot11_tracked_ssid_alert" where
  "set_allowed_macs mvec a = a\<lparr>allowed_macs_vec := mvec\<rparr>"

text \<open>\<^verbatim>\<open>compare_ssid\<close> (line 268): an exempt MAC never matches; otherwise the
  cached pattern is used, compiled first if the cache is empty.\<close>

definition compare_ssid ::
  "string \<Rightarrow> mac_addr \<Rightarrow> dot11_tracked_ssid_alert \<Rightarrow>
     alert_error + bool \<times> dot11_tracked_ssid_alert" where
  "compare_ssid ssid mac a =
     (if mac \<in> set (allowed_macs_vec a) then Inr (False, a)
      else case ssid_re a of
        Re_indeterminate \<Rightarrow> Inl Err_indeterminate_pattern
      | Re_compiled r \<Rightarrow> Inr (re_search r ssid, a)
      | Re_null \<Rightarrow>
          (case re_parse (ssid_regex a) of
             None \<Rightarrow> Inl Err_invalid_regex
           | Some r \<Rightarrow> Inr (re_search r ssid, a\<lparr>ssid_re := Re_compiled r\<rparr>)))"

subsection \<open>Runs of serialised operations\<close>

datatype alert_op =
    Op_set_regex string
  | Op_set_allowed_macs "mac_addr list"
  | Op_set_group_name string
  | Op_compare_ssid string mac_addr

datatype alert_out = Out_done | Out_error alert_error | Out_match bool

text \<open>A failing operation reports its error to the caller and leaves the entry as
  it was (the exception of \<^verbatim>\<open>set_regex\<close> propagates to the configuring code).\<close>

fun alert_step ::
  "alert_op \<Rightarrow> dot11_tracked_ssid_alert \<Rightarrow> alert_out \<times> dot11_tracked_ssid_alert" where
  "alert_step (Op_set_regex s) a =
     (case set_regex s a of Inl e \<Rightarrow> (Out_error e, a) | Inr a' \<Rightarrow> (Out_done, a'))"
| "alert_step (Op_set_allowed_macs m) a = (Out_done, set_allowed_macs m a)"
| "alert_step (Op_set_group_name g) a = (Out_done, set_group_name g a)"
| "alert_step (Op_compare_ssid s m) a =
     (case compare_ssid s m a of Inl e \<Rightarrow> (Out_error e, a) | Inr (b, a') \<Rightarrow> (Out_match b, a'))"

primrec alert_run ::
  "alert_op list \<Rightarrow> dot11_tracked_ssid_alert \<Rightarrow> alert_out list \<times> dot11_tracked_ssid_alert" where
  "alert_run [] a = ([], a)"
| "alert_run (op # ops) a =
     (let (o1, a1) = alert_step op a; (os, a2) = alert_run ops a1 in (o1 # os, a2))"

subsection \<open>The specification's matcher\<close>

record watch_spec =
  w_pattern :: re_pattern
  w_exempt :: "mac_addr set"

fun watch_step :: "alert_op \<Rightarrow> watch_spec \<Rightarrow> alert_out \<times> watch_spec" where
  "watch_step (Op_set_regex s) w =
     (case re_parse s of None \<Rightarrow> (Out_error Err_invalid_regex, w)
      | Some r \<Rightarrow> (Out_done, w\<lparr>w_pattern := r\<rparr>))"
| "watch_step (Op_set_allowed_macs m) w = (Out_done, w\<lparr>w_exempt := set m\<rparr>)"
| "watch_step (Op_set_group_name g) w = (Out_done, w)"
| "watch_step (Op_compare_ssid s m) w =
     (Out_match (re_search (w_pattern w) s \<and> m \<notin> w_exempt w), w)"

primrec watch_run :: "alert_op list \<Rightarrow> watch_spec \<Rightarrow> alert_out list \<times> watch_spec" where
  "watch_run [] w = ([], w)"
| "watch_run (op # ops) w =
     (let (o1, w1) = watch_step op w; (os, w2) = watch_run ops w1 in (o1 # os, w2))"

text \<open>A consistent entry: its pattern is valid, and the cache is empty or holds
  exactly that pattern compiled. The abstraction reads the active pattern and the
  exempt set.\<close>

definition alert_wf :: "dot11_tracked_ssid_alert \<Rightarrow> bool" where
  "alert_wf a \<longleftrightarrow> re_parse (ssid_regex a) \<noteq> None \<and>
     (case ssid_re a of Re_null \<Rightarrow> True
      | Re_compiled r \<Rightarrow> re_parse (ssid_regex a) = Some r
      | Re_indeterminate \<Rightarrow> False)"

definition alert_abs :: "dot11_tracked_ssid_alert \<Rightarrow> watch_spec" where
  "alert_abs a = \<lparr>w_pattern = the (re_parse (ssid_regex a)), w_exempt = set (allowed_macs_vec a)\<rparr>"

subsection \<open>Lemmas\<close>

lemma re_parse_Nil [simp]: "re_parse [] = Some \<lparr>pat_bol = False, pat_body = One, pat_eol = False\<rparr>"
  by (simp add: re_parse_def close_frame_def)

lemma alert_wf_new [simp]:
  "alert_wf (dot11_tracked_ssid_alert_new in_id mac_id)"
  "alert_wf (dot11_tracked_ssid_alert_default mac_id)"
  by (simp_all add: alert_wf_def dot11_tracked_ssid_alert_new_def
      dot11_tracked_ssid_alert_default_def)

lemma alert_wf_parse:
  assumes "alert_wf a"
  obtains r where "re_parse (ssid_regex a) = Some r" "w_pattern (alert_abs a) = r"
    "ssid_re a = Re_null \<or> ssid_re a = Re_compiled r"
  using assms by (cases "ssid_re a") (auto simp: alert_wf_def alert_abs_def)

lemma compare_ssid_wf:
  assumes "alert_wf a"
  shows "\<exists>a'. compare_ssid s m a =
      Inr (re_search (w_pattern (alert_abs a)) s \<and> m \<notin> w_exempt (alert_abs a), a') \<and>
    alert_wf a' \<and> alert_abs a' = alert_abs a"
proof -
  obtain r where r: "re_parse (ssid_regex a) = Some r" "w_pattern (alert_abs a) = r"
    and slot: "ssid_re a = Re_null \<or> ssid_re a = Re_compiled r"
    using assms by (rule alert_wf_parse)
  from slot show ?thesis
    using r by (auto simp: compare_ssid_def alert_wf_def alert_abs_def)
qed

lemma alert_step_sim:
  assumes "alert_wf a"
  shows "fst (alert_step op a) = fst (watch_step op (alert_abs a)) \<and>
    alert_wf (snd (alert_step op a)) \<and>
    alert_abs (snd (alert_step op a)) = snd (watch_step op (alert_abs a))"
proof (cases op)
  case (Op_compare_ssid s m)
  then show ?thesis using compare_ssid_wf [OF assms, of s m] by auto
qed (use assms in \<open>auto simp: set_regex_def set_allowed_macs_def set_group_name_def
      alert_wf_def alert_abs_def split: option.splits re_slot.splits\<close>)

lemma alert_run_sim:
  "alert_wf a \<Longrightarrow> fst (alert_run ops a) = fst (watch_run ops (alert_abs a)) \<and>
    alert_wf (snd (alert_run ops a)) \<and>
    alert_abs (snd (alert_run ops a)) = snd (watch_run ops (alert_abs a))"
proof (induction ops arbitrary: a)
  case Nil
  then show ?case by simp
next
  case (Cons op ops)
  from alert_step_sim [OF Cons.prems, of op] Cons.IH [of "snd (alert_step op a)"]
  show ?case by (simp add: Let_def split_def)
qed

end
