(* ===== verification/Schema.thy ===== *)
theory Schema
  imports Prelude "HOL-Library.Sublist"
begin

text \<open>
  The field schemas the header registers with the tracker framework: each
  \<^verbatim>\<open>register_fields\<close> override calls \<^verbatim>\<open>register_field\<close> (a field always present),
  \<^verbatim>\<open>register_dynamic_field\<close> (a field created on first use) or \<^verbatim>\<open>register_field\<close>
  with a \<^verbatim>\<open>tracker_element_factory\<close> (the entry type of a collection), each with
  a name and a description. The framework gives one id per name, so two members
  registered under one name would share it; the schemas below are the
  registrations in the order the code makes them, for
  \<^verbatim>\<open>dot11_11d_tracked_range_info\<close> (lines 330--334), \<^verbatim>\<open>dot11_client\<close> (lines
  940--970) and \<^verbatim>\<open>dot11_tracked_device\<close> (lines 1328--1472). The other classes
  register their fields in code outside \<^verbatim>\<open>src/\<close>. The signatures of the
  classes and the check a reader makes with them close the theory.
\<close>

datatype field_kind = Field_plain | Field_dynamic | Field_entry string

record field_reg =
  freg_name :: string
  freg_desc :: string
  freg_kind :: field_kind

definition dot11_11d_tracked_range_info_fields :: "field_reg list" where
  "dot11_11d_tracked_range_info_fields = [
      \<lparr>freg_name = ''dot11.11d.start_channel'', freg_desc = ''Starting channel of 11d range'',
       freg_kind = Field_plain\<rparr>,
      \<lparr>freg_name = ''dot11.11d.num_channels'', freg_desc = ''Number of channels covered by range'',
       freg_kind = Field_plain\<rparr>,
      \<lparr>freg_name = ''dot11.11d.tx_power'', freg_desc = ''Maximum allowed transmit power'',
       freg_kind = Field_plain\<rparr>]"

definition dot11_client_fields :: "field_reg list" where
  "dot11_client_fields = [
      \<lparr>freg_name = ''dot11.client.bssid'', freg_desc = ''bssid'', freg_kind = Field_plain\<rparr>,
      \<lparr>freg_name = ''dot11.client.bssid_key'', freg_desc = ''key of BSSID record'', freg_kind = Field_plain\<rparr>,
      \<lparr>freg_name = ''dot11.client.first_time'', freg_desc = ''first time seen'', freg_kind = Field_plain\<rparr>,
      \<lparr>freg_name = ''dot11.client.last_time'', freg_desc = ''last time seen'', freg_kind = Field_plain\<rparr>,
      \<lparr>freg_name = ''dot11.client.type'', freg_desc = ''type of client'', freg_kind = Field_plain\<rparr>,
      \<lparr>freg_name = ''dot11.client.dhcp_host'', freg_desc = ''dhcp host'', freg_kind = Field_dynamic\<rparr>,
      \<lparr>freg_name = ''dot11.client.dhcp_vendor'', freg_desc = ''dhcp vendor'', freg_kind = Field_dynamic\<rparr>,
      \<lparr>freg_name = ''dot11.client.tx_cryptset'', freg_desc = ''bitset of transmitted encryption'', freg_kind = Field_plain\<rparr>,
      \<lparr>freg_name = ''dot11.client.rx_cryptset'', freg_desc = ''bitset of received encryption'', freg_kind = Field_plain\<rparr>,
      \<lparr>freg_name = ''dot11.client.eap_identity'', freg_desc = ''EAP identity'', freg_kind = Field_dynamic\<rparr>,
      \<lparr>freg_name = ''dot11.client.cdp_device'', freg_desc = ''CDP device'', freg_kind = Field_dynamic\<rparr>,
      \<lparr>freg_name = ''dot11.client.cdp_port'', freg_desc = ''CDP port'', freg_kind = Field_dynamic\<rparr>,
      \<lparr>freg_name = ''dot11.client.decrypted'', freg_desc = ''client decrypted'', freg_kind = Field_plain\<rparr>,
      \<lparr>freg_name = ''dot11.client.ipdata'', freg_desc = ''IPv4 information'', freg_kind = Field_dynamic\<rparr>,
      \<lparr>freg_name = ''dot11.client.datasize'', freg_desc = ''data in bytes'', freg_kind = Field_plain\<rparr>,
      \<lparr>freg_name = ''dot11.client.datasize_retry'', freg_desc = ''retry data in bytes'', freg_kind = Field_plain\<rparr>,
      \<lparr>freg_name = ''dot11.client.num_fragments'', freg_desc = ''number of fragmented packets'', freg_kind = Field_plain\<rparr>,
      \<lparr>freg_name = ''dot11.client.num_retries'', freg_desc = ''number of retried packets'', freg_kind = Field_plain\<rparr>,
      \<lparr>freg_name = ''dot11.client.location'', freg_desc = ''location'', freg_kind = Field_dynamic\<rparr>]"

definition dot11_tracked_device_fields :: "field_reg list" where
  "dot11_tracked_device_fields = [
      \<lparr>freg_name = ''dot11.device.typeset'', freg_desc = ''bitset of device type'', freg_kind = Field_plain\<rparr>,
      \<lparr>freg_name = ''dot11.device.client_map'', freg_desc = ''client behavior'', freg_kind = Field_dynamic\<rparr>,
      \<lparr>freg_name = ''dot11.device.client'', freg_desc = ''client behavior record'', freg_kind = (Field_entry ''dot11_client'')\<rparr>,
      \<lparr>freg_name = ''dot11.device.num_client_aps'', freg_desc = ''number of APs connected to'', freg_kind = Field_plain\<rparr>,
      \<lparr>freg_name = ''dot11.device.advertised_ssid_map'', freg_desc = ''advertised SSIDs'', freg_kind = Field_dynamic\<rparr>,
      \<lparr>freg_name = ''dot11.device.advertised_ssid'', freg_desc = ''advertised SSID'', freg_kind = (Field_entry ''dot11_advertised_ssid'')\<rparr>,
      \<lparr>freg_name = ''dot11.device.num_advertised_ssids'', freg_desc = ''number of advertised SSIDs'', freg_kind = Field_plain\<rparr>,
      \<lparr>freg_name = ''dot11.device.responded_ssid_map'', freg_desc = ''responded SSIDs'', freg_kind = Field_dynamic\<rparr>,
      \<lparr>freg_name = ''dot11.device.responded_ssid'', freg_desc = ''responded SSID'', freg_kind = (Field_entry ''dot11_advertised_ssid'')\<rparr>,
      \<lparr>freg_name = ''dot11.device.num_responded_ssids'', freg_desc = ''number of responded SSIDs'', freg_kind = Field_plain\<rparr>,
      \<lparr>freg_name = ''dot11.device.probed_ssid_map'', freg_desc = ''probed SSIDs'', freg_kind = Field_dynamic\<rparr>,
      \<lparr>freg_name = ''dot11.device.probed_ssid'', freg_desc = ''probed ssid'', freg_kind = (Field_entry ''dot11_probed_ssid'')\<rparr>,
      \<lparr>freg_name = ''dot11.device.num_probed_ssids'', freg_desc = ''number of probed SSIDs'', freg_kind = Field_plain\<rparr>,
      \<lparr>freg_name = ''dot11.device.associated_client_map'', freg_desc = ''associated clients'', freg_kind = Field_dynamic\<rparr>,
      \<lparr>freg_name = ''dot11.device.associated_client'', freg_desc = ''associated client'', freg_kind = (Field_entry ''tracker_element_device_key'')\<rparr>,
      \<lparr>freg_name = ''dot11.device.num_associated_clients'', freg_desc = ''number of associated clients'', freg_kind = Field_plain\<rparr>,
      \<lparr>freg_name = ''dot11.device.client_disconnects'', freg_desc = ''client disconnects message count'', freg_kind = Field_plain\<rparr>,
      \<lparr>freg_name = ''dot11.device.client_disconnects_last'', freg_desc = ''client disconnects last message'', freg_kind = Field_plain\<rparr>,
      \<lparr>freg_name = ''dot11.device.last_sequence'', freg_desc = ''last sequence number'', freg_kind = Field_plain\<rparr>,
      \<lparr>freg_name = ''dot11.device.bss_timestamp'', freg_desc = ''last BSS timestamp'', freg_kind = Field_plain\<rparr>,
      \<lparr>freg_name = ''dot11.device.num_fragments'', freg_desc = ''number of fragmented packets'', freg_kind = Field_plain\<rparr>,
      \<lparr>freg_name = ''dot11.device.num_retries'', freg_desc = ''number of retried packets'', freg_kind = Field_plain\<rparr>,
      \<lparr>freg_name = ''dot11.device.datasize'', freg_desc = ''data in bytes'', freg_kind = Field_plain\<rparr>,
      \<lparr>freg_name = ''dot11.device.datasize_retry'', freg_desc = ''retried data in bytes'', freg_kind = Field_plain\<rparr>,
      \<lparr>freg_name = ''dot11.device.last_bssid'', freg_desc = ''last BSSID'', freg_kind = Field_dynamic\<rparr>,
      \<lparr>freg_name = ''dot11.device.last_beacon_timestamp'', freg_desc = ''unix timestamp of last beacon frame'', freg_kind = Field_plain\<rparr>,
      \<lparr>freg_name = ''dot11.device.wps_m3_count'', freg_desc = ''WPS M3 message count'', freg_kind = Field_plain\<rparr>,
      \<lparr>freg_name = ''dot11.device.wps_m3_last'', freg_desc = ''WPS M3 last message'', freg_kind = Field_plain\<rparr>,
      \<lparr>freg_name = ''dot11.device.wpa_handshake_list'', freg_desc = ''WPA handshakes'', freg_kind = Field_dynamic\<rparr>,
      \<lparr>freg_name = ''dot11.eapol.key'', freg_desc = ''WPA handshake key'', freg_kind = (Field_entry ''dot11_tracked_eapol'')\<rparr>,
      \<lparr>freg_name = ''dot11.device.wpa_nonce_list'', freg_desc = ''Previous WPA Nonces'', freg_kind = Field_dynamic\<rparr>,
      \<lparr>freg_name = ''dot11.device.wpa_anonce_list'', freg_desc = ''Previous WPA ANonces'', freg_kind = Field_dynamic\<rparr>,
      \<lparr>freg_name = ''dot11.device.wpa_present_handshake'', freg_desc = ''handshake sequences seen (bitmask)'', freg_kind = Field_plain\<rparr>,
      \<lparr>freg_name = ''dot11.device.wpa_nonce'', freg_desc = ''WPA nonce exchange'', freg_kind = (Field_entry ''dot11_tracked_nonce'')\<rparr>,
      \<lparr>freg_name = ''dot11.device.ssid_beacon_packet'', freg_desc = ''snapshotted beacon packet'', freg_kind = Field_dynamic\<rparr>,
      \<lparr>freg_name = ''dot11.device.pmkid_packet'', freg_desc = ''snapshotted RSN PMKID packet'', freg_kind = Field_dynamic\<rparr>,
      \<lparr>freg_name = ''dot11.device.min_tx_power'', freg_desc = ''Minimum advertised TX power'', freg_kind = Field_plain\<rparr>,
      \<lparr>freg_name = ''dot11.device.max_tx_power'', freg_desc = ''Maximum advertised TX power'', freg_kind = Field_plain\<rparr>,
      \<lparr>freg_name = ''dot11.device.supported_channels'', freg_desc = ''Advertised supported channels'', freg_kind = Field_dynamic\<rparr>,
      \<lparr>freg_name = ''dot11.device.link_measurement_capable'', freg_desc = ''Advertised link measurement client capability'', freg_kind = Field_plain\<rparr>,
      \<lparr>freg_name = ''dot11.device.neighbor_report_capable'', freg_desc = ''Advertised neighbor report capability'', freg_kind = Field_plain\<rparr>,
      \<lparr>freg_name = ''dot11.device.extended_capabilities'', freg_desc = ''Advertised extended capabilities list'', freg_kind = Field_dynamic\<rparr>,
      \<lparr>freg_name = ''dot11.device.beacon_fingerprint'', freg_desc = ''Beacon fingerprint'', freg_kind = Field_plain\<rparr>,
      \<lparr>freg_name = ''dot11.device.probe_fingerprint'', freg_desc = ''Probe (Client->AP) fingerprint'', freg_kind = Field_plain\<rparr>,
      \<lparr>freg_name = ''dot11.device.response_fingerprint'', freg_desc = ''Response (AP->Client) fingerprint'', freg_kind = Field_plain\<rparr>,
      \<lparr>freg_name = ''dot11.device.last_beaconed_ssid_record'', freg_desc = ''last beaconed ssid, complete record'', freg_kind = Field_dynamic\<rparr>,
      \<lparr>freg_name = ''dot11.device.last_probed_ssid_record'', freg_desc = ''last probed ssid, complete record'', freg_kind = Field_dynamic\<rparr>]"

definition dynamic_field_names :: "field_reg list \<Rightarrow> string list" where
  "dynamic_field_names fs = [freg_name f. f \<leftarrow> fs, freg_kind f = Field_dynamic]"

subsection \<open>Schema signatures\<close>

text \<open>Each class overrides \<^verbatim>\<open>get_signature\<close> with
  \<^verbatim>\<open>return adler32_checksum("<class name>");\<close>. The checksum is defined outside
  \<^verbatim>\<open>src/\<close> and is a parameter of the model: every statement about signatures
  holds for whatever function it is. \<open>get_signature\<close> is the virtual call,
  dispatching on the dynamic class.\<close>

datatype dot11_class =
    Cls_eapol | Cls_nonce | Cls_ssid_alert | Cls_range_info | Cls_ietag | Cls_probed_ssid
  | Cls_advertised_ssid | Cls_client | Cls_device

definition dot11_tracked_eapol_get_signature :: "(string \<Rightarrow> u32) \<Rightarrow> u32" where
  "dot11_tracked_eapol_get_signature adler32_checksum = adler32_checksum ''dot11_tracked_eapol''"

definition dot11_tracked_nonce_get_signature :: "(string \<Rightarrow> u32) \<Rightarrow> u32" where
  "dot11_tracked_nonce_get_signature adler32_checksum = adler32_checksum ''dot11_tracked_nonce''"

definition dot11_tracked_ssid_alert_get_signature :: "(string \<Rightarrow> u32) \<Rightarrow> u32" where
  "dot11_tracked_ssid_alert_get_signature adler32_checksum = adler32_checksum ''dot11_tracked_ssid_alert''"

definition dot11_11d_tracked_range_info_get_signature :: "(string \<Rightarrow> u32) \<Rightarrow> u32" where
  "dot11_11d_tracked_range_info_get_signature adler32_checksum = adler32_checksum ''dot11_11d_tracked_range_info''"

definition dot11_tracked_ietag_get_signature :: "(string \<Rightarrow> u32) \<Rightarrow> u32" where
  "dot11_tracked_ietag_get_signature adler32_checksum = adler32_checksum ''dot11_tracked_ietag''"

definition dot11_probed_ssid_get_signature :: "(string \<Rightarrow> u32) \<Rightarrow> u32" where
  "dot11_probed_ssid_get_signature adler32_checksum = adler32_checksum ''dot11_probed_ssid''"

definition dot11_advertised_ssid_get_signature :: "(string \<Rightarrow> u32) \<Rightarrow> u32" where
  "dot11_advertised_ssid_get_signature adler32_checksum = adler32_checksum ''dot11_advertised_ssid''"

definition dot11_client_get_signature :: "(string \<Rightarrow> u32) \<Rightarrow> u32" where
  "dot11_client_get_signature adler32_checksum = adler32_checksum ''dot11_client''"

definition dot11_tracked_device_get_signature :: "(string \<Rightarrow> u32) \<Rightarrow> u32" where
  "dot11_tracked_device_get_signature adler32_checksum = adler32_checksum ''dot11_tracked_device''"

primrec get_signature :: "(string \<Rightarrow> u32) \<Rightarrow> dot11_class \<Rightarrow> u32" where
  "get_signature ck Cls_eapol = dot11_tracked_eapol_get_signature ck"
| "get_signature ck Cls_nonce = dot11_tracked_nonce_get_signature ck"
| "get_signature ck Cls_ssid_alert = dot11_tracked_ssid_alert_get_signature ck"
| "get_signature ck Cls_range_info = dot11_11d_tracked_range_info_get_signature ck"
| "get_signature ck Cls_ietag = dot11_tracked_ietag_get_signature ck"
| "get_signature ck Cls_probed_ssid = dot11_probed_ssid_get_signature ck"
| "get_signature ck Cls_advertised_ssid = dot11_advertised_ssid_get_signature ck"
| "get_signature ck Cls_client = dot11_client_get_signature ck"
| "get_signature ck Cls_device = dot11_tracked_device_get_signature ck"

lemmas signature_defs =
  dot11_tracked_eapol_get_signature_def dot11_tracked_nonce_get_signature_def
  dot11_tracked_ssid_alert_get_signature_def dot11_11d_tracked_range_info_get_signature_def
  dot11_tracked_ietag_get_signature_def dot11_probed_ssid_get_signature_def
  dot11_advertised_ssid_get_signature_def dot11_client_get_signature_def
  dot11_tracked_device_get_signature_def

text \<open>The check a reader makes before trusting a stored record (specification,
  sections 4.5 and 6, error kind 2): the stored signature is compared with the
  signature of the class the reader expects, and a mismatch is the schema-mismatch
  error. A record is stored with the signature its class returns; its field
  registrations go with it.\<close>

datatype schema_error = Err_schema_mismatch

record stored_record =
  stored_signature :: u32
  stored_fields :: "field_reg list"

definition store_record ::
  "(string \<Rightarrow> u32) \<Rightarrow> dot11_class \<Rightarrow> field_reg list \<Rightarrow> stored_record" where
  "store_record ck c fs = \<lparr>stored_signature = get_signature ck c, stored_fields = fs\<rparr>"

definition check_signature ::
  "(string \<Rightarrow> u32) \<Rightarrow> dot11_class \<Rightarrow> stored_record \<Rightarrow> schema_error + field_reg list" where
  "check_signature ck c r =
     (if stored_signature r = get_signature ck c then Inr (stored_fields r) else Inl Err_schema_mismatch)"


end
