(* ===== verification/Proxies.thy ===== *)
theory Proxies
  imports Device
begin

text \<open>
  The field accessors that the \<^verbatim>\<open>__Proxy\<close> family of macros generates for the
  advertised SSID record (\<^verbatim>\<open>src/phy_80211_components.h\<close>, lines 639--711) and for
  the device aggregate (lines 1215--1324) where \<open>Device\<close> does not already have
  them. The macros themselves are defined outside \<^verbatim>\<open>src/\<close>; what they do is
  modelled once, generically:
  \<^item> \<^verbatim>\<open>__Proxy(name, ptype, itype, rtype, cvar)\<close> stores \<^verbatim>\<open>(ptype) in\<close> and returns
    \<^verbatim>\<open>(rtype) cvar->get()\<close>: a \<^verbatim>\<open>bool\<close> over \<^verbatim>\<open>uint8_t\<close> storage is stored as 0 or 1
    and read as "non-zero" (\<open>proxy_store_bool\<close>, \<open>proxy_load_bool\<close>); an
    \<^verbatim>\<open>unsigned int\<close> over \<^verbatim>\<open>uint8_t\<close> storage keeps the low eight bits
    (\<open>ucast\<close>); a \<^verbatim>\<open>time_t\<close> over \<^verbatim>\<open>uint64_t\<close> storage keeps the bits.
  \<^item> \<^verbatim>\<open>__ProxyDynamic\<close>: the setter creates the field if it is absent and
    stores the value (\<open>proxy_dyn_set\<close>); the getter also creates the field if it
    is absent, with the type's default value, and returns its value
    (\<open>proxy_dyn_get\<close>), so a read materialises the field.
    \<^verbatim>\<open>__ProxyDynamicTrackable\<close> has the same getter; its setters, which replace
    the shared pointer, and the alias fields \<^verbatim>\<open>last_beaconed_ssid_record\<close> and
    \<^verbatim>\<open>last_probed_ssid_record\<close> are not modelled here.
  The accessors of the advertised SSID are prefixed \<open>adv_\<close>, those of the
  probed SSID \<open>probed_\<close> and the static ones of the client \<open>client_\<close>, since the
  classes have accessors of the same names. The probed SSID (lines 467--489) and
  client (lines 903--938) accessors and the decrements of \<^verbatim>\<open>__ProxyIncDec\<close>
  (\<^verbatim>\<open>(*cvar) -= i\<close>, wrapping) follow.
\<close>

subsection \<open>The macros\<close>

definition proxy_store_bool :: "bool \<Rightarrow> u8" where
  "proxy_store_bool b = (if b then 1 else 0)"

definition proxy_load_bool :: "u8 \<Rightarrow> bool" where
  "proxy_load_bool x \<longleftrightarrow> x \<noteq> 0"

definition proxy_dyn_get ::
  "'v \<Rightarrow> ('r \<Rightarrow> 'v option) \<Rightarrow> (('v option \<Rightarrow> 'v option) \<Rightarrow> 'r \<Rightarrow> 'r) \<Rightarrow> 'r \<Rightarrow> 'v \<times> 'r" where
  "proxy_dyn_get dflt sel upd r = (let v = materialize dflt (sel r) in (v, upd (\<lambda>_. Some v) r))"

definition proxy_dyn_set ::
  "(('v option \<Rightarrow> 'v option) \<Rightarrow> 'r \<Rightarrow> 'r) \<Rightarrow> 'v \<Rightarrow> 'r \<Rightarrow> 'r" where
  "proxy_dyn_set upd v r = upd (\<lambda>_. Some v) r"

subsection \<open>Advertised SSID: static fields (lines 639--707)\<close>

definition adv_set_ssid :: "string \<Rightarrow> dot11_advertised_ssid \<Rightarrow> dot11_advertised_ssid" where
  "adv_set_ssid s a = a\<lparr>dot11_advertised_ssid.ssid := s\<rparr>"

definition adv_set_ssid_len :: "u32 \<Rightarrow> dot11_advertised_ssid \<Rightarrow> dot11_advertised_ssid" where
  "adv_set_ssid_len n a = a\<lparr>dot11_advertised_ssid.ssid_len := n\<rparr>"

definition adv_set_ssid_hash :: "u64 \<Rightarrow> dot11_advertised_ssid \<Rightarrow> dot11_advertised_ssid" where
  "adv_set_ssid_hash h a = a\<lparr>ssid_hash := h\<rparr>"

definition adv_set_ssid_beacon :: "bool \<Rightarrow> dot11_advertised_ssid \<Rightarrow> dot11_advertised_ssid" where
  "adv_set_ssid_beacon b a = a\<lparr>ssid_beacon := proxy_store_bool b\<rparr>"

definition adv_get_ssid_beacon :: "dot11_advertised_ssid \<Rightarrow> bool" where
  "adv_get_ssid_beacon a = proxy_load_bool (ssid_beacon a)"

definition adv_set_ssid_probe_response :: "bool \<Rightarrow> dot11_advertised_ssid \<Rightarrow> dot11_advertised_ssid" where
  "adv_set_ssid_probe_response b a = a\<lparr>ssid_probe_response := proxy_store_bool b\<rparr>"

definition adv_get_ssid_probe_response :: "dot11_advertised_ssid \<Rightarrow> bool" where
  "adv_get_ssid_probe_response a = proxy_load_bool (ssid_probe_response a)"

definition adv_set_channel :: "string \<Rightarrow> dot11_advertised_ssid \<Rightarrow> dot11_advertised_ssid" where
  "adv_set_channel c a = a\<lparr>channel := c\<rparr>"

definition adv_set_ht_mode :: "string \<Rightarrow> dot11_advertised_ssid \<Rightarrow> dot11_advertised_ssid" where
  "adv_set_ht_mode m a = a\<lparr>ht_mode := m\<rparr>"

definition adv_set_ht_center_1 :: "u64 \<Rightarrow> dot11_advertised_ssid \<Rightarrow> dot11_advertised_ssid" where
  "adv_set_ht_center_1 c a = a\<lparr>ht_center_1 := c\<rparr>"

definition adv_set_ht_center_2 :: "u64 \<Rightarrow> dot11_advertised_ssid \<Rightarrow> dot11_advertised_ssid" where
  "adv_set_ht_center_2 c a = a\<lparr>ht_center_2 := c\<rparr>"

definition adv_set_first_time :: "time_t \<Rightarrow> dot11_advertised_ssid \<Rightarrow> dot11_advertised_ssid" where
  "adv_set_first_time t a = a\<lparr>dot11_advertised_ssid.first_time := ucast t\<rparr>"

definition adv_set_last_time :: "time_t \<Rightarrow> dot11_advertised_ssid \<Rightarrow> dot11_advertised_ssid" where
  "adv_set_last_time t a = a\<lparr>dot11_advertised_ssid.last_time := ucast t\<rparr>"

definition adv_set_ssid_cloaked :: "bool \<Rightarrow> dot11_advertised_ssid \<Rightarrow> dot11_advertised_ssid" where
  "adv_set_ssid_cloaked b a = a\<lparr>ssid_cloaked := proxy_store_bool b\<rparr>"

definition adv_get_ssid_cloaked :: "dot11_advertised_ssid \<Rightarrow> bool" where
  "adv_get_ssid_cloaked a = proxy_load_bool (ssid_cloaked a)"

definition adv_set_crypt_set :: "u64 \<Rightarrow> dot11_advertised_ssid \<Rightarrow> dot11_advertised_ssid" where
  "adv_set_crypt_set c a = a\<lparr>dot11_advertised_ssid.crypt_set := c\<rparr>"

definition adv_set_wpa_mfp_required :: "bool \<Rightarrow> dot11_advertised_ssid \<Rightarrow> dot11_advertised_ssid" where
  "adv_set_wpa_mfp_required b a = a\<lparr>dot11_advertised_ssid.wpa_mfp_required := proxy_store_bool b\<rparr>"

definition adv_get_wpa_mfp_required :: "dot11_advertised_ssid \<Rightarrow> bool" where
  "adv_get_wpa_mfp_required a = proxy_load_bool (dot11_advertised_ssid.wpa_mfp_required a)"

definition adv_set_wpa_mfp_supported :: "bool \<Rightarrow> dot11_advertised_ssid \<Rightarrow> dot11_advertised_ssid" where
  "adv_set_wpa_mfp_supported b a = a\<lparr>dot11_advertised_ssid.wpa_mfp_supported := proxy_store_bool b\<rparr>"

definition adv_get_wpa_mfp_supported :: "dot11_advertised_ssid \<Rightarrow> bool" where
  "adv_get_wpa_mfp_supported a = proxy_load_bool (dot11_advertised_ssid.wpa_mfp_supported a)"

definition adv_set_maxrate :: "double \<Rightarrow> dot11_advertised_ssid \<Rightarrow> dot11_advertised_ssid" where
  "adv_set_maxrate r a = a\<lparr>maxrate := r\<rparr>"

definition adv_set_beaconrate :: "u32 \<Rightarrow> dot11_advertised_ssid \<Rightarrow> dot11_advertised_ssid" where
  "adv_set_beaconrate r a = a\<lparr>beaconrate := r\<rparr>"

definition adv_set_beacons_sec :: "u32 \<Rightarrow> dot11_advertised_ssid \<Rightarrow> dot11_advertised_ssid" where
  "adv_set_beacons_sec r a = a\<lparr>beacons_sec := r\<rparr>"

definition adv_set_ietag_checksum :: "u32 \<Rightarrow> dot11_advertised_ssid \<Rightarrow> dot11_advertised_ssid" where
  "adv_set_ietag_checksum c a = a\<lparr>ietag_checksum := c\<rparr>"

definition adv_set_dot11r_mobility :: "bool \<Rightarrow> dot11_advertised_ssid \<Rightarrow> dot11_advertised_ssid" where
  "adv_set_dot11r_mobility b a = a\<lparr>dot11_advertised_ssid.dot11r_mobility := proxy_store_bool b\<rparr>"

definition adv_get_dot11r_mobility :: "dot11_advertised_ssid \<Rightarrow> bool" where
  "adv_get_dot11r_mobility a = proxy_load_bool (dot11_advertised_ssid.dot11r_mobility a)"

definition adv_set_dot11r_mobility_domain_id ::
  "u16 \<Rightarrow> dot11_advertised_ssid \<Rightarrow> dot11_advertised_ssid" where
  "adv_set_dot11r_mobility_domain_id i a =
     a\<lparr>dot11_advertised_ssid.dot11r_mobility_domain_id := i\<rparr>"

definition adv_set_dot11e_qbss :: "bool \<Rightarrow> dot11_advertised_ssid \<Rightarrow> dot11_advertised_ssid" where
  "adv_set_dot11e_qbss b a = a\<lparr>dot11e_qbss := proxy_store_bool b\<rparr>"

definition adv_get_dot11e_qbss :: "dot11_advertised_ssid \<Rightarrow> bool" where
  "adv_get_dot11e_qbss a = proxy_load_bool (dot11e_qbss a)"

definition adv_set_dot11e_qbss_stations :: "u16 \<Rightarrow> dot11_advertised_ssid \<Rightarrow> dot11_advertised_ssid" where
  "adv_set_dot11e_qbss_stations n a = a\<lparr>dot11e_qbss_stations := n\<rparr>"

definition adv_set_dot11e_qbss_channel_load ::
  "double \<Rightarrow> dot11_advertised_ssid \<Rightarrow> dot11_advertised_ssid" where
  "adv_set_dot11e_qbss_channel_load l a = a\<lparr>dot11e_qbss_channel_load := l\<rparr>"

definition adv_set_ccx_txpower :: "u32 \<Rightarrow> dot11_advertised_ssid \<Rightarrow> dot11_advertised_ssid" where
  "adv_set_ccx_txpower p a = a\<lparr>ccx_txpower := ucast p\<rparr>"

definition adv_get_ccx_txpower :: "dot11_advertised_ssid \<Rightarrow> u32" where
  "adv_get_ccx_txpower a = ucast (ccx_txpower a)"

definition adv_set_cisco_client_mfp :: "bool \<Rightarrow> dot11_advertised_ssid \<Rightarrow> dot11_advertised_ssid" where
  "adv_set_cisco_client_mfp b a = a\<lparr>cisco_client_mfp := proxy_store_bool b\<rparr>"

definition adv_get_cisco_client_mfp :: "dot11_advertised_ssid \<Rightarrow> bool" where
  "adv_get_cisco_client_mfp a = proxy_load_bool (cisco_client_mfp a)"

subsection \<open>Advertised SSID: optional fields (lines 644--693)\<close>

definition adv_set_owe_ssid :: "string \<Rightarrow> dot11_advertised_ssid \<Rightarrow> dot11_advertised_ssid" where
  "adv_set_owe_ssid = proxy_dyn_set owe_ssid_update"

definition adv_get_owe_ssid :: "dot11_advertised_ssid \<Rightarrow> string \<times> dot11_advertised_ssid" where
  "adv_get_owe_ssid = proxy_dyn_get [] owe_ssid owe_ssid_update"

definition adv_set_owe_ssid_len :: "u32 \<Rightarrow> dot11_advertised_ssid \<Rightarrow> dot11_advertised_ssid" where
  "adv_set_owe_ssid_len = proxy_dyn_set owe_ssid_len_update"

definition adv_get_owe_ssid_len :: "dot11_advertised_ssid \<Rightarrow> u32 \<times> dot11_advertised_ssid" where
  "adv_get_owe_ssid_len = proxy_dyn_get 0 owe_ssid_len owe_ssid_len_update"

definition adv_set_owe_bssid :: "mac_addr \<Rightarrow> dot11_advertised_ssid \<Rightarrow> dot11_advertised_ssid" where
  "adv_set_owe_bssid = proxy_dyn_set owe_bssid_update"

definition adv_get_owe_bssid :: "dot11_advertised_ssid \<Rightarrow> mac_addr \<times> dot11_advertised_ssid" where
  "adv_get_owe_bssid = proxy_dyn_get 0 owe_bssid owe_bssid_update"

definition adv_set_beacon_info :: "string \<Rightarrow> dot11_advertised_ssid \<Rightarrow> dot11_advertised_ssid" where
  "adv_set_beacon_info = proxy_dyn_set beacon_info_update"

definition adv_get_beacon_info :: "dot11_advertised_ssid \<Rightarrow> string \<times> dot11_advertised_ssid" where
  "adv_get_beacon_info = proxy_dyn_get [] beacon_info beacon_info_update"

definition adv_set_dot11d_country :: "string \<Rightarrow> dot11_advertised_ssid \<Rightarrow> dot11_advertised_ssid" where
  "adv_set_dot11d_country = proxy_dyn_set dot11d_country_update"

definition adv_get_dot11d_country :: "dot11_advertised_ssid \<Rightarrow> string \<times> dot11_advertised_ssid" where
  "adv_get_dot11d_country = proxy_dyn_get [] dot11d_country dot11d_country_update"

definition adv_set_wps_state :: "u32 \<Rightarrow> dot11_advertised_ssid \<Rightarrow> dot11_advertised_ssid" where
  "adv_set_wps_state = proxy_dyn_set dot11_advertised_ssid.wps_state_update"

definition adv_get_wps_state :: "dot11_advertised_ssid \<Rightarrow> u32 \<times> dot11_advertised_ssid" where
  "adv_get_wps_state =
     proxy_dyn_get 0 dot11_advertised_ssid.wps_state dot11_advertised_ssid.wps_state_update"

definition adv_set_wps_manuf :: "string \<Rightarrow> dot11_advertised_ssid \<Rightarrow> dot11_advertised_ssid" where
  "adv_set_wps_manuf = proxy_dyn_set dot11_advertised_ssid.wps_manuf_update"

definition adv_get_wps_manuf :: "dot11_advertised_ssid \<Rightarrow> string \<times> dot11_advertised_ssid" where
  "adv_get_wps_manuf =
     proxy_dyn_get [] dot11_advertised_ssid.wps_manuf dot11_advertised_ssid.wps_manuf_update"

definition adv_set_wps_device_name :: "string \<Rightarrow> dot11_advertised_ssid \<Rightarrow> dot11_advertised_ssid" where
  "adv_set_wps_device_name = proxy_dyn_set dot11_advertised_ssid.wps_device_name_update"

definition adv_get_wps_device_name :: "dot11_advertised_ssid \<Rightarrow> string \<times> dot11_advertised_ssid" where
  "adv_get_wps_device_name =
     proxy_dyn_get [] dot11_advertised_ssid.wps_device_name
       dot11_advertised_ssid.wps_device_name_update"

definition adv_set_wps_model_name :: "string \<Rightarrow> dot11_advertised_ssid \<Rightarrow> dot11_advertised_ssid" where
  "adv_set_wps_model_name = proxy_dyn_set dot11_advertised_ssid.wps_model_name_update"

definition adv_get_wps_model_name :: "dot11_advertised_ssid \<Rightarrow> string \<times> dot11_advertised_ssid" where
  "adv_get_wps_model_name =
     proxy_dyn_get [] dot11_advertised_ssid.wps_model_name
       dot11_advertised_ssid.wps_model_name_update"

definition adv_set_wps_model_number :: "string \<Rightarrow> dot11_advertised_ssid \<Rightarrow> dot11_advertised_ssid" where
  "adv_set_wps_model_number = proxy_dyn_set dot11_advertised_ssid.wps_model_number_update"

definition adv_get_wps_model_number :: "dot11_advertised_ssid \<Rightarrow> string \<times> dot11_advertised_ssid" where
  "adv_get_wps_model_number =
     proxy_dyn_get [] dot11_advertised_ssid.wps_model_number
       dot11_advertised_ssid.wps_model_number_update"

definition adv_set_wps_serial_number :: "string \<Rightarrow> dot11_advertised_ssid \<Rightarrow> dot11_advertised_ssid" where
  "adv_set_wps_serial_number = proxy_dyn_set dot11_advertised_ssid.wps_serial_number_update"

definition adv_get_wps_serial_number :: "dot11_advertised_ssid \<Rightarrow> string \<times> dot11_advertised_ssid" where
  "adv_get_wps_serial_number =
     proxy_dyn_get [] dot11_advertised_ssid.wps_serial_number
       dot11_advertised_ssid.wps_serial_number_update"

definition adv_set_wps_uuid_e :: "string \<Rightarrow> dot11_advertised_ssid \<Rightarrow> dot11_advertised_ssid" where
  "adv_set_wps_uuid_e = proxy_dyn_set dot11_advertised_ssid.wps_uuid_e_update"

definition adv_get_wps_uuid_e :: "dot11_advertised_ssid \<Rightarrow> string \<times> dot11_advertised_ssid" where
  "adv_get_wps_uuid_e =
     proxy_dyn_get [] dot11_advertised_ssid.wps_uuid_e dot11_advertised_ssid.wps_uuid_e_update"

definition adv_get_ie_tag_list :: "dot11_advertised_ssid \<Rightarrow> double list \<times> dot11_advertised_ssid" where
  "adv_get_ie_tag_list =
     proxy_dyn_get [] dot11_advertised_ssid.ie_tag_list dot11_advertised_ssid.ie_tag_list_update"

subsection \<open>Device aggregate (lines 1215--1324)\<close>

definition set_client_disconnects_last :: "u64 \<Rightarrow> dot11_tracked_device \<Rightarrow> dot11_tracked_device" where
  "set_client_disconnects_last t d = d\<lparr>client_disconnects_last := t\<rparr>"

definition set_last_beacon_timestamp :: "time_t \<Rightarrow> dot11_tracked_device \<Rightarrow> dot11_tracked_device" where
  "set_last_beacon_timestamp t d = d\<lparr>last_beacon_timestamp := ucast t\<rparr>"

definition get_last_beacon_timestamp :: "dot11_tracked_device \<Rightarrow> time_t" where
  "get_last_beacon_timestamp d = ucast (last_beacon_timestamp d)"

definition set_wps_m3_last :: "u64 \<Rightarrow> dot11_tracked_device \<Rightarrow> dot11_tracked_device" where
  "set_wps_m3_last t d = d\<lparr>wps_m3_last := t\<rparr>"

definition set_min_tx_power :: "u32 \<Rightarrow> dot11_tracked_device \<Rightarrow> dot11_tracked_device" where
  "set_min_tx_power p d = d\<lparr>min_tx_power := ucast p\<rparr>"

definition get_min_tx_power :: "dot11_tracked_device \<Rightarrow> u32" where
  "get_min_tx_power d = ucast (min_tx_power d)"

definition set_max_tx_power :: "u32 \<Rightarrow> dot11_tracked_device \<Rightarrow> dot11_tracked_device" where
  "set_max_tx_power p d = d\<lparr>max_tx_power := ucast p\<rparr>"

definition get_max_tx_power :: "dot11_tracked_device \<Rightarrow> u32" where
  "get_max_tx_power d = ucast (max_tx_power d)"

definition get_supported_channels ::
  "dot11_tracked_device \<Rightarrow> double list \<times> dot11_tracked_device" where
  "get_supported_channels = proxy_dyn_get [] supported_channels supported_channels_update"

definition set_link_measurement_capable :: "bool \<Rightarrow> dot11_tracked_device \<Rightarrow> dot11_tracked_device" where
  "set_link_measurement_capable b d = d\<lparr>link_measurement_capable := proxy_store_bool b\<rparr>"

definition get_link_measurement_capable :: "dot11_tracked_device \<Rightarrow> bool" where
  "get_link_measurement_capable d = proxy_load_bool (link_measurement_capable d)"

definition set_neighbor_report_capable :: "bool \<Rightarrow> dot11_tracked_device \<Rightarrow> dot11_tracked_device" where
  "set_neighbor_report_capable b d = d\<lparr>neighbor_report_capable := proxy_store_bool b\<rparr>"

definition get_neighbor_report_capable :: "dot11_tracked_device \<Rightarrow> bool" where
  "get_neighbor_report_capable d = proxy_load_bool (neighbor_report_capable d)"

definition get_extended_capabilities_list ::
  "dot11_tracked_device \<Rightarrow> string list \<times> dot11_tracked_device" where
  "get_extended_capabilities_list =
     proxy_dyn_get [] extended_capabilities_list extended_capabilities_list_update"

definition set_beacon_fingerprint :: "u32 \<Rightarrow> dot11_tracked_device \<Rightarrow> dot11_tracked_device" where
  "set_beacon_fingerprint f d = d\<lparr>beacon_fingerprint := f\<rparr>"

definition set_probe_fingerprint :: "u32 \<Rightarrow> dot11_tracked_device \<Rightarrow> dot11_tracked_device" where
  "set_probe_fingerprint f d = d\<lparr>probe_fingerprint := f\<rparr>"

definition set_response_fingerprint :: "u32 \<Rightarrow> dot11_tracked_device \<Rightarrow> dot11_tracked_device" where
  "set_response_fingerprint f d = d\<lparr>response_fingerprint := f\<rparr>"

text \<open>The plain setters of the device's counters (lines 1215, 1225, 1228, 1231, 1234
  and 1242), beside their \<^verbatim>\<open>__ProxyIncDec\<close> increments and decrements.\<close>

definition set_client_disconnects :: "u64 \<Rightarrow> dot11_tracked_device \<Rightarrow> dot11_tracked_device" where
  "set_client_disconnects v d = d\<lparr>client_disconnects := v\<rparr>"

definition set_num_fragments :: "u64 \<Rightarrow> dot11_tracked_device \<Rightarrow> dot11_tracked_device" where
  "set_num_fragments v d = d\<lparr>num_fragments := v\<rparr>"

definition set_num_retries :: "u64 \<Rightarrow> dot11_tracked_device \<Rightarrow> dot11_tracked_device" where
  "set_num_retries v d = d\<lparr>num_retries := v\<rparr>"

definition set_datasize :: "u64 \<Rightarrow> dot11_tracked_device \<Rightarrow> dot11_tracked_device" where
  "set_datasize v d = d\<lparr>datasize := v\<rparr>"

definition set_datasize_retry :: "u64 \<Rightarrow> dot11_tracked_device \<Rightarrow> dot11_tracked_device" where
  "set_datasize_retry v d = d\<lparr>datasize_retry := v\<rparr>"

definition set_wps_m3_count :: "u64 \<Rightarrow> dot11_tracked_device \<Rightarrow> dot11_tracked_device" where
  "set_wps_m3_count v d = d\<lparr>wps_m3_count := v\<rparr>"

text \<open>The decrements of \<^verbatim>\<open>__ProxyIncDec\<close> on the device (lines 1216--1243).\<close>

definition dec_client_disconnects :: "u64 \<Rightarrow> dot11_tracked_device \<Rightarrow> dot11_tracked_device" where
  "dec_client_disconnects i d = d\<lparr>client_disconnects := client_disconnects d - i\<rparr>"

definition dec_num_fragments :: "u64 \<Rightarrow> dot11_tracked_device \<Rightarrow> dot11_tracked_device" where
  "dec_num_fragments i d = d\<lparr>num_fragments := num_fragments d - i\<rparr>"

definition dec_num_retries :: "u64 \<Rightarrow> dot11_tracked_device \<Rightarrow> dot11_tracked_device" where
  "dec_num_retries i d = d\<lparr>num_retries := num_retries d - i\<rparr>"

definition dec_datasize :: "u64 \<Rightarrow> dot11_tracked_device \<Rightarrow> dot11_tracked_device" where
  "dec_datasize i d = d\<lparr>datasize := datasize d - i\<rparr>"

definition dec_datasize_retry :: "u64 \<Rightarrow> dot11_tracked_device \<Rightarrow> dot11_tracked_device" where
  "dec_datasize_retry i d = d\<lparr>datasize_retry := datasize_retry d - i\<rparr>"

definition dec_wps_m3_count :: "u64 \<Rightarrow> dot11_tracked_device \<Rightarrow> dot11_tracked_device" where
  "dec_wps_m3_count i d = d\<lparr>wps_m3_count := wps_m3_count d - i\<rparr>"

subsection \<open>Probed SSID (lines 467--489)\<close>

definition probed_set_ssid :: "string \<Rightarrow> dot11_probed_ssid \<Rightarrow> dot11_probed_ssid" where
  "probed_set_ssid v r = r\<lparr>dot11_probed_ssid.ssid := v\<rparr>"

definition probed_set_ssid_len :: "u32 \<Rightarrow> dot11_probed_ssid \<Rightarrow> dot11_probed_ssid" where
  "probed_set_ssid_len v r = r\<lparr>dot11_probed_ssid.ssid_len := v\<rparr>"

definition probed_set_bssid :: "mac_addr \<Rightarrow> dot11_probed_ssid \<Rightarrow> dot11_probed_ssid" where
  "probed_set_bssid v r = r\<lparr>dot11_probed_ssid.bssid := v\<rparr>"

definition probed_set_first_time :: "time_t \<Rightarrow> dot11_probed_ssid \<Rightarrow> dot11_probed_ssid" where
  "probed_set_first_time v r = r\<lparr>dot11_probed_ssid.first_time := ucast v\<rparr>"

definition probed_set_last_time :: "time_t \<Rightarrow> dot11_probed_ssid \<Rightarrow> dot11_probed_ssid" where
  "probed_set_last_time v r = r\<lparr>dot11_probed_ssid.last_time := ucast v\<rparr>"

definition probed_set_dot11r_mobility :: "bool \<Rightarrow> dot11_probed_ssid \<Rightarrow> dot11_probed_ssid" where
  "probed_set_dot11r_mobility v r = r\<lparr>dot11_probed_ssid.dot11r_mobility := proxy_store_bool v\<rparr>"

definition probed_get_dot11r_mobility :: "dot11_probed_ssid \<Rightarrow> bool" where
  "probed_get_dot11r_mobility r = proxy_load_bool (dot11_probed_ssid.dot11r_mobility r)"

definition probed_set_dot11r_mobility_domain_id :: "u16 \<Rightarrow> dot11_probed_ssid \<Rightarrow> dot11_probed_ssid" where
  "probed_set_dot11r_mobility_domain_id v r = r\<lparr>dot11_probed_ssid.dot11r_mobility_domain_id := v\<rparr>"

definition probed_set_crypt_set :: "u64 \<Rightarrow> dot11_probed_ssid \<Rightarrow> dot11_probed_ssid" where
  "probed_set_crypt_set v r = r\<lparr>dot11_probed_ssid.crypt_set := v\<rparr>"

definition probed_set_wpa_mfp_required :: "bool \<Rightarrow> dot11_probed_ssid \<Rightarrow> dot11_probed_ssid" where
  "probed_set_wpa_mfp_required v r = r\<lparr>dot11_probed_ssid.wpa_mfp_required := proxy_store_bool v\<rparr>"

definition probed_get_wpa_mfp_required :: "dot11_probed_ssid \<Rightarrow> bool" where
  "probed_get_wpa_mfp_required r = proxy_load_bool (dot11_probed_ssid.wpa_mfp_required r)"

definition probed_set_wpa_mfp_supported :: "bool \<Rightarrow> dot11_probed_ssid \<Rightarrow> dot11_probed_ssid" where
  "probed_set_wpa_mfp_supported v r = r\<lparr>dot11_probed_ssid.wpa_mfp_supported := proxy_store_bool v\<rparr>"

definition probed_get_wpa_mfp_supported :: "dot11_probed_ssid \<Rightarrow> bool" where
  "probed_get_wpa_mfp_supported r = proxy_load_bool (dot11_probed_ssid.wpa_mfp_supported r)"

definition probed_get_ie_tag_list :: "dot11_probed_ssid \<Rightarrow> double list \<times> dot11_probed_ssid" where
  "probed_get_ie_tag_list = proxy_dyn_get [] dot11_probed_ssid.ie_tag_list dot11_probed_ssid.ie_tag_list_update"

definition probed_set_wps_state :: "u32 \<Rightarrow> dot11_probed_ssid \<Rightarrow> dot11_probed_ssid" where
  "probed_set_wps_state = proxy_dyn_set dot11_probed_ssid.wps_state_update"

definition probed_get_wps_state :: "dot11_probed_ssid \<Rightarrow> u32 \<times> dot11_probed_ssid" where
  "probed_get_wps_state = proxy_dyn_get 0 dot11_probed_ssid.wps_state dot11_probed_ssid.wps_state_update"

definition probed_set_wps_manuf :: "string \<Rightarrow> dot11_probed_ssid \<Rightarrow> dot11_probed_ssid" where
  "probed_set_wps_manuf = proxy_dyn_set dot11_probed_ssid.wps_manuf_update"

definition probed_get_wps_manuf :: "dot11_probed_ssid \<Rightarrow> string \<times> dot11_probed_ssid" where
  "probed_get_wps_manuf = proxy_dyn_get [] dot11_probed_ssid.wps_manuf dot11_probed_ssid.wps_manuf_update"

definition probed_set_wps_device_name :: "string \<Rightarrow> dot11_probed_ssid \<Rightarrow> dot11_probed_ssid" where
  "probed_set_wps_device_name = proxy_dyn_set dot11_probed_ssid.wps_device_name_update"

definition probed_get_wps_device_name :: "dot11_probed_ssid \<Rightarrow> string \<times> dot11_probed_ssid" where
  "probed_get_wps_device_name = proxy_dyn_get [] dot11_probed_ssid.wps_device_name dot11_probed_ssid.wps_device_name_update"

definition probed_set_wps_model_name :: "string \<Rightarrow> dot11_probed_ssid \<Rightarrow> dot11_probed_ssid" where
  "probed_set_wps_model_name = proxy_dyn_set dot11_probed_ssid.wps_model_name_update"

definition probed_get_wps_model_name :: "dot11_probed_ssid \<Rightarrow> string \<times> dot11_probed_ssid" where
  "probed_get_wps_model_name = proxy_dyn_get [] dot11_probed_ssid.wps_model_name dot11_probed_ssid.wps_model_name_update"

definition probed_set_wps_model_number :: "string \<Rightarrow> dot11_probed_ssid \<Rightarrow> dot11_probed_ssid" where
  "probed_set_wps_model_number = proxy_dyn_set dot11_probed_ssid.wps_model_number_update"

definition probed_get_wps_model_number :: "dot11_probed_ssid \<Rightarrow> string \<times> dot11_probed_ssid" where
  "probed_get_wps_model_number = proxy_dyn_get [] dot11_probed_ssid.wps_model_number dot11_probed_ssid.wps_model_number_update"

definition probed_set_wps_serial_number :: "string \<Rightarrow> dot11_probed_ssid \<Rightarrow> dot11_probed_ssid" where
  "probed_set_wps_serial_number = proxy_dyn_set dot11_probed_ssid.wps_serial_number_update"

definition probed_get_wps_serial_number :: "dot11_probed_ssid \<Rightarrow> string \<times> dot11_probed_ssid" where
  "probed_get_wps_serial_number = proxy_dyn_get [] dot11_probed_ssid.wps_serial_number dot11_probed_ssid.wps_serial_number_update"

definition probed_set_wps_uuid_e :: "string \<Rightarrow> dot11_probed_ssid \<Rightarrow> dot11_probed_ssid" where
  "probed_set_wps_uuid_e = proxy_dyn_set dot11_probed_ssid.wps_uuid_e_update"

definition probed_get_wps_uuid_e :: "dot11_probed_ssid \<Rightarrow> string \<times> dot11_probed_ssid" where
  "probed_get_wps_uuid_e = proxy_dyn_get [] dot11_probed_ssid.wps_uuid_e dot11_probed_ssid.wps_uuid_e_update"

subsection \<open>Client (lines 903--938)\<close>

definition client_set_bssid :: "mac_addr \<Rightarrow> dot11_client \<Rightarrow> dot11_client" where
  "client_set_bssid v r = r\<lparr>dot11_client.bssid := v\<rparr>"

definition client_set_bssid_key :: "device_key \<Rightarrow> dot11_client \<Rightarrow> dot11_client" where
  "client_set_bssid_key v r = r\<lparr>bssid_key := v\<rparr>"

definition client_set_client_type :: "u32 \<Rightarrow> dot11_client \<Rightarrow> dot11_client" where
  "client_set_client_type v r = r\<lparr>client_type := v\<rparr>"

definition client_set_first_time :: "time_t \<Rightarrow> dot11_client \<Rightarrow> dot11_client" where
  "client_set_first_time v r = r\<lparr>dot11_client.first_time := ucast v\<rparr>"

definition client_set_last_time :: "time_t \<Rightarrow> dot11_client \<Rightarrow> dot11_client" where
  "client_set_last_time v r = r\<lparr>dot11_client.last_time := ucast v\<rparr>"

definition get_dhcp_host :: "dot11_client \<Rightarrow> string \<times> dot11_client" where
  "get_dhcp_host = proxy_dyn_get [] dhcp_host dhcp_host_update"

definition set_dhcp_vendor :: "string \<Rightarrow> dot11_client \<Rightarrow> dot11_client" where
  "set_dhcp_vendor = proxy_dyn_set dhcp_vendor_update"

definition get_dhcp_vendor :: "dot11_client \<Rightarrow> string \<times> dot11_client" where
  "get_dhcp_vendor = proxy_dyn_get [] dhcp_vendor dhcp_vendor_update"

definition client_set_tx_cryptset :: "u64 \<Rightarrow> dot11_client \<Rightarrow> dot11_client" where
  "client_set_tx_cryptset v r = r\<lparr>tx_cryptset := v\<rparr>"

definition client_set_rx_cryptset :: "u64 \<Rightarrow> dot11_client \<Rightarrow> dot11_client" where
  "client_set_rx_cryptset v r = r\<lparr>rx_cryptset := v\<rparr>"

definition get_eap_identity :: "dot11_client \<Rightarrow> string \<times> dot11_client" where
  "get_eap_identity = proxy_dyn_get [] eap_identity eap_identity_update"

definition get_cdp_device :: "dot11_client \<Rightarrow> string \<times> dot11_client" where
  "get_cdp_device = proxy_dyn_get [] cdp_device cdp_device_update"

definition set_cdp_port :: "string \<Rightarrow> dot11_client \<Rightarrow> dot11_client" where
  "set_cdp_port = proxy_dyn_set cdp_port_update"

definition get_cdp_port :: "dot11_client \<Rightarrow> string \<times> dot11_client" where
  "get_cdp_port = proxy_dyn_get [] cdp_port cdp_port_update"

definition client_set_decrypted :: "bool \<Rightarrow> dot11_client \<Rightarrow> dot11_client" where
  "client_set_decrypted v r = r\<lparr>decrypted := proxy_store_bool v\<rparr>"

definition client_get_decrypted :: "dot11_client \<Rightarrow> bool" where
  "client_get_decrypted r = proxy_load_bool (decrypted r)"

text \<open>The decrements of \<^verbatim>\<open>__ProxyIncDec\<close> (lines 926--935): \<^verbatim>\<open>(*cvar) -= i\<close> on
  \<^verbatim>\<open>uint64\<close> storage.\<close>

definition client_dec_datasize :: "u64 \<Rightarrow> dot11_client \<Rightarrow> dot11_client" where
  "client_dec_datasize i c = c\<lparr>dot11_client.datasize := dot11_client.datasize c - i\<rparr>"

definition client_dec_datasize_retry :: "u64 \<Rightarrow> dot11_client \<Rightarrow> dot11_client" where
  "client_dec_datasize_retry i c = c\<lparr>dot11_client.datasize_retry := dot11_client.datasize_retry c - i\<rparr>"

definition client_dec_num_fragments :: "u64 \<Rightarrow> dot11_client \<Rightarrow> dot11_client" where
  "client_dec_num_fragments i c = c\<lparr>dot11_client.num_fragments := dot11_client.num_fragments c - i\<rparr>"

definition client_dec_num_retries :: "u64 \<Rightarrow> dot11_client \<Rightarrow> dot11_client" where
  "client_dec_num_retries i c = c\<lparr>dot11_client.num_retries := dot11_client.num_retries c - i\<rparr>"

subsection \<open>Lemmas\<close>

lemmas adv_dyn_get_defs =
  adv_get_owe_ssid_def adv_get_owe_ssid_len_def adv_get_owe_bssid_def adv_get_beacon_info_def
  adv_get_dot11d_country_def adv_get_wps_state_def adv_get_wps_manuf_def
  adv_get_wps_device_name_def adv_get_wps_model_name_def adv_get_wps_model_number_def
  adv_get_wps_serial_number_def adv_get_wps_uuid_e_def adv_get_ie_tag_list_def

lemmas counter_defs =
  inc_datasize_def dec_datasize_def inc_datasize_retry_def dec_datasize_retry_def
  inc_num_fragments_def dec_num_fragments_def inc_num_retries_def dec_num_retries_def
  inc_client_disconnects_def dec_client_disconnects_def inc_wps_m3_count_def dec_wps_m3_count_def
  client_inc_datasize_def client_dec_datasize_def client_inc_datasize_retry_def
  client_dec_datasize_retry_def client_inc_num_fragments_def client_dec_num_fragments_def
  client_inc_num_retries_def client_dec_num_retries_def inc_beacons_sec_def dec_beacons_sec_def

lemmas adv_dyn_defs = adv_dyn_get_defs
  adv_set_owe_ssid_def adv_set_owe_ssid_len_def adv_set_owe_bssid_def adv_set_beacon_info_def
  adv_set_dot11d_country_def adv_set_wps_state_def adv_set_wps_manuf_def
  adv_set_wps_device_name_def adv_set_wps_model_name_def adv_set_wps_model_number_def
  adv_set_wps_serial_number_def adv_set_wps_uuid_e_def

lemmas probed_dyn_defs =
  probed_set_wps_state_def probed_get_wps_state_def probed_set_wps_manuf_def
  probed_get_wps_manuf_def probed_set_wps_device_name_def probed_get_wps_device_name_def
  probed_set_wps_model_name_def probed_get_wps_model_name_def probed_set_wps_model_number_def
  probed_get_wps_model_number_def probed_set_wps_serial_number_def
  probed_get_wps_serial_number_def probed_set_wps_uuid_e_def probed_get_wps_uuid_e_def
  probed_get_ie_tag_list_def

lemmas client_dyn_defs =
  set_dhcp_host_def get_dhcp_host_def set_dhcp_vendor_def get_dhcp_vendor_def
  set_eap_identity_def get_eap_identity_def set_cdp_device_def get_cdp_device_def
  set_cdp_port_def get_cdp_port_def

lemmas dev_dyn_get_defs = get_supported_channels_def get_extended_capabilities_list_def

lemmas adv_bool_proxy_defs =
  adv_set_ssid_beacon_def adv_get_ssid_beacon_def adv_set_ssid_probe_response_def
  adv_get_ssid_probe_response_def adv_set_ssid_cloaked_def adv_get_ssid_cloaked_def
  adv_set_wpa_mfp_required_def adv_get_wpa_mfp_required_def adv_set_wpa_mfp_supported_def
  adv_get_wpa_mfp_supported_def adv_set_dot11r_mobility_def adv_get_dot11r_mobility_def
  adv_set_dot11e_qbss_def adv_get_dot11e_qbss_def adv_set_cisco_client_mfp_def
  adv_get_cisco_client_mfp_def

lemmas probed_client_bool_proxy_defs =
  probed_set_dot11r_mobility_def probed_get_dot11r_mobility_def probed_set_wpa_mfp_required_def
  probed_get_wpa_mfp_required_def probed_set_wpa_mfp_supported_def
  probed_get_wpa_mfp_supported_def client_set_decrypted_def client_get_decrypted_def

lemmas dev_bool_proxy_defs =
  set_link_measurement_capable_def get_link_measurement_capable_def
  set_neighbor_report_capable_def get_neighbor_report_capable_def

lemma proxy_store_bool_le_1 [simp]: "proxy_store_bool b \<le> 1"
  by (simp add: proxy_store_bool_def)

lemma proxy_bool_roundtrip [simp]: "proxy_load_bool (proxy_store_bool b) = b"
  by (simp add: proxy_load_bool_def proxy_store_bool_def)

lemma unat_ucast_u32_u8 [simp]: "unat (ucast (ucast (p :: u32) :: u8) :: u32) = unat p mod 256"
  by (simp only: unsigned_ucast_eq unsigned_take_bit_eq) (simp add: take_bit_eq_mod mod_mod_cancel)


end
