(* ===== verification/LeafProxies.thy ===== *)
theory LeafProxies
  imports Proxies
begin

text \<open>
  The accessors of the leaf records of the device tree, generated by \<^verbatim>\<open>__Proxy\<close>
  or written inline in \<^verbatim>\<open>src/phy_80211_components.h\<close>: the EAPOL key record
  (lines 93--105), the condensed nonce record (lines 164--175), the 802.11d range
  record (lines 326--328) and the IE tag record (lines 383--388). The conversions are
  those of \<open>Proxies\<close>: a \<^verbatim>\<open>bool\<close> over \<^verbatim>\<open>uint8_t\<close> is stored as 0 or 1, and the
  802.11d transmit power, a C \<^verbatim>\<open>int\<close> (a HOL \<open>int\<close> here) stored in an
  \<^verbatim>\<open>int32_t\<close>, keeps its low 32 bits and is read back as two's complement
  (\<open>word_of_int\<close>, \<open>sint\<close>). The accessors of the nonce record are prefixed
  \<open>nonce_\<close>, since the key record has accessors of the same names.
\<close>

subsection \<open>EAPOL key record (lines 93--105)\<close>

definition set_eapol_time :: "double \<Rightarrow> dot11_tracked_eapol \<Rightarrow> dot11_tracked_eapol" where
  "set_eapol_time t e = e\<lparr>dot11_tracked_eapol.eapol_time := t\<rparr>"

definition set_eapol_dir :: "u8 \<Rightarrow> dot11_tracked_eapol \<Rightarrow> dot11_tracked_eapol" where
  "set_eapol_dir v e = e\<lparr>eapol_dir := v\<rparr>"

definition set_eapol_replay_counter :: "u64 \<Rightarrow> dot11_tracked_eapol \<Rightarrow> dot11_tracked_eapol" where
  "set_eapol_replay_counter c e = e\<lparr>dot11_tracked_eapol.eapol_replay_counter := c\<rparr>"

definition set_eapol_msg_num :: "u8 \<Rightarrow> dot11_tracked_eapol \<Rightarrow> dot11_tracked_eapol" where
  "set_eapol_msg_num n e = e\<lparr>dot11_tracked_eapol.eapol_msg_num := n\<rparr>"

definition set_eapol_nonce_bytes :: "byte_array \<Rightarrow> dot11_tracked_eapol \<Rightarrow> dot11_tracked_eapol" where
  "set_eapol_nonce_bytes n e = e\<lparr>dot11_tracked_eapol.eapol_nonce := n\<rparr>"

definition get_eapol_nonce_bytes :: "dot11_tracked_eapol \<Rightarrow> byte_array" where
  "get_eapol_nonce_bytes e = dot11_tracked_eapol.eapol_nonce e"

definition set_rsnpmkid_bytes :: "byte_array \<Rightarrow> dot11_tracked_eapol \<Rightarrow> dot11_tracked_eapol" where
  "set_rsnpmkid_bytes n e = e\<lparr>eapol_rsn_pmkid := n\<rparr>"

definition get_rsnpmkid_bytes :: "dot11_tracked_eapol \<Rightarrow> byte_array" where
  "get_rsnpmkid_bytes e = eapol_rsn_pmkid e"

subsection \<open>Condensed nonce record (lines 164--175)\<close>

definition nonce_set_eapol_time :: "double \<Rightarrow> dot11_tracked_nonce \<Rightarrow> dot11_tracked_nonce" where
  "nonce_set_eapol_time t n = n\<lparr>dot11_tracked_nonce.eapol_time := t\<rparr>"

definition nonce_set_eapol_msg_num :: "u8 \<Rightarrow> dot11_tracked_nonce \<Rightarrow> dot11_tracked_nonce" where
  "nonce_set_eapol_msg_num m n = n\<lparr>dot11_tracked_nonce.eapol_msg_num := m\<rparr>"

definition nonce_set_eapol_install :: "bool \<Rightarrow> dot11_tracked_nonce \<Rightarrow> dot11_tracked_nonce" where
  "nonce_set_eapol_install b n = n\<lparr>dot11_tracked_nonce.eapol_install := proxy_store_bool b\<rparr>"

definition nonce_get_eapol_install :: "dot11_tracked_nonce \<Rightarrow> bool" where
  "nonce_get_eapol_install n = proxy_load_bool (dot11_tracked_nonce.eapol_install n)"

definition nonce_set_eapol_replay_counter :: "u64 \<Rightarrow> dot11_tracked_nonce \<Rightarrow> dot11_tracked_nonce" where
  "nonce_set_eapol_replay_counter c n = n\<lparr>dot11_tracked_nonce.eapol_replay_counter := c\<rparr>"

definition nonce_set_eapol_nonce_bytes :: "byte_array \<Rightarrow> dot11_tracked_nonce \<Rightarrow> dot11_tracked_nonce" where
  "nonce_set_eapol_nonce_bytes b n = n\<lparr>dot11_tracked_nonce.eapol_nonce := b\<rparr>"

definition nonce_get_eapol_nonce_bytes :: "dot11_tracked_nonce \<Rightarrow> byte_array" where
  "nonce_get_eapol_nonce_bytes n = dot11_tracked_nonce.eapol_nonce n"

subsection \<open>802.11d range record (lines 326--328)\<close>

definition set_startchan :: "u32 \<Rightarrow> dot11_11d_tracked_range_info \<Rightarrow> dot11_11d_tracked_range_info" where
  "set_startchan c r = r\<lparr>startchan := c\<rparr>"

definition set_numchan :: "u32 \<Rightarrow> dot11_11d_tracked_range_info \<Rightarrow> dot11_11d_tracked_range_info" where
  "set_numchan c r = r\<lparr>numchan := c\<rparr>"

definition set_txpower :: "int \<Rightarrow> dot11_11d_tracked_range_info \<Rightarrow> dot11_11d_tracked_range_info" where
  "set_txpower p r = r\<lparr>txpower := word_of_int p\<rparr>"

definition get_txpower :: "dot11_11d_tracked_range_info \<Rightarrow> int" where
  "get_txpower r = sint (txpower r)"

subsection \<open>IE tag record (lines 383--388)\<close>

definition set_unique_tag_id :: "u32 \<Rightarrow> dot11_tracked_ietag \<Rightarrow> dot11_tracked_ietag" where
  "set_unique_tag_id i t = t\<lparr>unique_tag_id := i\<rparr>"

definition set_tag_number :: "u8 \<Rightarrow> dot11_tracked_ietag \<Rightarrow> dot11_tracked_ietag" where
  "set_tag_number n t = t\<lparr>tag_number := n\<rparr>"

definition set_tag_oui :: "u32 \<Rightarrow> dot11_tracked_ietag \<Rightarrow> dot11_tracked_ietag" where
  "set_tag_oui u t = t\<lparr>tag_oui := u\<rparr>"

definition set_tag_oui_manuf :: "string \<Rightarrow> dot11_tracked_ietag \<Rightarrow> dot11_tracked_ietag" where
  "set_tag_oui_manuf m t = t\<lparr>tag_oui_manuf := m\<rparr>"

definition set_tag_vendor_or_sub :: "i16 \<Rightarrow> dot11_tracked_ietag \<Rightarrow> dot11_tracked_ietag" where
  "set_tag_vendor_or_sub v t = t\<lparr>tag_vendor_or_sub := v\<rparr>"

definition set_complete_tag_data :: "byte_array \<Rightarrow> dot11_tracked_ietag \<Rightarrow> dot11_tracked_ietag" where
  "set_complete_tag_data b t = t\<lparr>complete_tag_data := b\<rparr>"

subsection \<open>Lemmas\<close>

lemmas leaf_roundtrip_defs =
  set_eapol_nonce_bytes_def get_eapol_nonce_bytes_def set_rsnpmkid_bytes_def
  get_rsnpmkid_bytes_def nonce_set_eapol_install_def nonce_get_eapol_install_def
  nonce_set_eapol_nonce_bytes_def nonce_get_eapol_nonce_bytes_def set_txpower_def get_txpower_def

end
