(* ===== verification/Elements.thy ===== *)
theory Elements
  imports Device SsidAlert Schema
begin

text \<open>
  The records as elements of the tracker framework's generic tree. Every class
  overrides \<^verbatim>\<open>clone_type()\<close> with
  \<^verbatim>\<open>return std::unique_ptr<tracker_element>(new this_t(this))\<close>: it runs the
  class's cloning constructor and returns the copy as a generic element
  (\<^verbatim>\<open>src/phy_80211_components.h\<close>, lines 87, 158, 252, 320, 377, 462, 633, 897 and
  1162). A generic element is a value of \<open>tracked_elem\<close>, one constructor per
  class; \<open>elem_class\<close> is its dynamic class, \<open>clone_type\<close> and
  \<open>elem_signature\<close> the virtual calls.
\<close>

datatype tracked_elem =
    Elem_eapol dot11_tracked_eapol
  | Elem_nonce dot11_tracked_nonce
  | Elem_ssid_alert dot11_tracked_ssid_alert
  | Elem_range_info dot11_11d_tracked_range_info
  | Elem_ietag dot11_tracked_ietag
  | Elem_probed_ssid dot11_probed_ssid
  | Elem_advertised_ssid dot11_advertised_ssid
  | Elem_client dot11_client
  | Elem_device dot11_tracked_device

primrec elem_class :: "tracked_elem \<Rightarrow> dot11_class" where
  "elem_class (Elem_eapol x) = Cls_eapol"
| "elem_class (Elem_nonce x) = Cls_nonce"
| "elem_class (Elem_ssid_alert x) = Cls_ssid_alert"
| "elem_class (Elem_range_info x) = Cls_range_info"
| "elem_class (Elem_ietag x) = Cls_ietag"
| "elem_class (Elem_probed_ssid x) = Cls_probed_ssid"
| "elem_class (Elem_advertised_ssid x) = Cls_advertised_ssid"
| "elem_class (Elem_client x) = Cls_client"
| "elem_class (Elem_device x) = Cls_device"

primrec elem_id :: "tracked_elem \<Rightarrow> int" where
  "elem_id (Elem_eapol x) = tracker_id x"
| "elem_id (Elem_nonce x) = tracker_id x"
| "elem_id (Elem_ssid_alert x) = tracker_id x"
| "elem_id (Elem_range_info x) = tracker_id x"
| "elem_id (Elem_ietag x) = tracker_id x"
| "elem_id (Elem_probed_ssid x) = tracker_id x"
| "elem_id (Elem_advertised_ssid x) = tracker_id x"
| "elem_id (Elem_client x) = tracker_id x"
| "elem_id (Elem_device x) = tracker_id x"

definition dot11_tracked_eapol_clone_type :: "dot11_tracked_eapol \<Rightarrow> tracked_elem" where
  "dot11_tracked_eapol_clone_type x = Elem_eapol (dot11_tracked_eapol_clone x)"

definition dot11_tracked_nonce_clone_type :: "dot11_tracked_nonce \<Rightarrow> tracked_elem" where
  "dot11_tracked_nonce_clone_type x = Elem_nonce (dot11_tracked_nonce_clone x)"

definition dot11_tracked_ssid_alert_clone_type :: "dot11_tracked_ssid_alert \<Rightarrow> tracked_elem" where
  "dot11_tracked_ssid_alert_clone_type x = Elem_ssid_alert (dot11_tracked_ssid_alert_clone x)"

definition dot11_11d_tracked_range_info_clone_type :: "dot11_11d_tracked_range_info \<Rightarrow> tracked_elem" where
  "dot11_11d_tracked_range_info_clone_type x = Elem_range_info (dot11_11d_tracked_range_info_clone x)"

definition dot11_tracked_ietag_clone_type :: "dot11_tracked_ietag \<Rightarrow> tracked_elem" where
  "dot11_tracked_ietag_clone_type x = Elem_ietag (dot11_tracked_ietag_clone x)"

definition dot11_probed_ssid_clone_type :: "dot11_probed_ssid \<Rightarrow> tracked_elem" where
  "dot11_probed_ssid_clone_type x = Elem_probed_ssid (dot11_probed_ssid_clone x)"

definition dot11_advertised_ssid_clone_type :: "dot11_advertised_ssid \<Rightarrow> tracked_elem" where
  "dot11_advertised_ssid_clone_type x = Elem_advertised_ssid (dot11_advertised_ssid_clone x)"

definition dot11_client_clone_type :: "dot11_client \<Rightarrow> tracked_elem" where
  "dot11_client_clone_type x = Elem_client (dot11_client_clone x)"

definition dot11_tracked_device_clone_type :: "dot11_tracked_device \<Rightarrow> tracked_elem" where
  "dot11_tracked_device_clone_type x = Elem_device (dot11_tracked_device_clone x)"

primrec clone_type :: "tracked_elem \<Rightarrow> tracked_elem" where
  "clone_type (Elem_eapol x) = dot11_tracked_eapol_clone_type x"
| "clone_type (Elem_nonce x) = dot11_tracked_nonce_clone_type x"
| "clone_type (Elem_ssid_alert x) = dot11_tracked_ssid_alert_clone_type x"
| "clone_type (Elem_range_info x) = dot11_11d_tracked_range_info_clone_type x"
| "clone_type (Elem_ietag x) = dot11_tracked_ietag_clone_type x"
| "clone_type (Elem_probed_ssid x) = dot11_probed_ssid_clone_type x"
| "clone_type (Elem_advertised_ssid x) = dot11_advertised_ssid_clone_type x"
| "clone_type (Elem_client x) = dot11_client_clone_type x"
| "clone_type (Elem_device x) = dot11_tracked_device_clone_type x"

definition elem_signature :: "(string \<Rightarrow> u32) \<Rightarrow> tracked_elem \<Rightarrow> u32" where
  "elem_signature ck e = get_signature ck (elem_class e)"

subsection \<open>Lemmas\<close>

lemmas clone_type_defs = dot11_tracked_eapol_clone_type_def dot11_tracked_nonce_clone_type_def dot11_tracked_ssid_alert_clone_type_def dot11_11d_tracked_range_info_clone_type_def dot11_tracked_ietag_clone_type_def dot11_probed_ssid_clone_type_def dot11_advertised_ssid_clone_type_def dot11_client_clone_type_def dot11_tracked_device_clone_type_def


lemmas record_clone_defs = dot11_tracked_eapol_clone_def dot11_tracked_nonce_clone_def
  dot11_tracked_ssid_alert_clone_def dot11_tracked_ietag_clone_def dot11_probed_ssid_clone_def

end
