(* ===== verification/Spec2Isabelle.thy ===== *)
theory Spec2Isabelle
  imports Restore SsidAlert Schema LeafProxies Elements
begin

text \<open>
  \<^bold>\<open>A verification library for the 802.11 tracked components of Kismet.\<close>

  \<^bold>\<open>The program.\<close> \<^verbatim>\<open>src/phy_80211_components.h\<close> declares the records in which
  Kismet keeps what it has learned about each 802.11 device: the device aggregate
  \<^verbatim>\<open>dot11_tracked_device\<close>; its keyed sub-records (\<^verbatim>\<open>dot11_client\<close> per BSSID,
  \<^verbatim>\<open>dot11_advertised_ssid\<close> for advertised and responded SSIDs,
  \<^verbatim>\<open>dot11_probed_ssid\<close>, with \<^verbatim>\<open>dot11_tracked_ietag\<close> and
  \<^verbatim>\<open>dot11_11d_tracked_range_info\<close> inside them); the handshake records
  \<^verbatim>\<open>dot11_tracked_eapol\<close> and \<^verbatim>\<open>dot11_tracked_nonce\<close>; and, outside the device
  tree, the SSID watchlist entry \<^verbatim>\<open>dot11_tracked_ssid_alert\<close>. The header holds the
  records, their constructors and cloning constructors, the field accessors
  generated by the \<^verbatim>\<open>__Proxy*\<close> macros, the record factories and the derived-counter
  refresh \<^verbatim>\<open>pre_serialize\<close>. The code that drives them (the frame-processing path,
  \<^verbatim>\<open>set_from_eapol\<close>, \<^verbatim>\<open>set_regex\<close>, \<^verbatim>\<open>compare_ssid\<close>) is outside \<^verbatim>\<open>src/\<close>
  and is modelled from the specification.

  \<^bold>\<open>Theories.\<close>
  \<^item> \<open>Prelude\<close>: machine types as words (\<open>u64 = 64 word\<close>, \<open>mac_addr = 48 word\<close>),
    the base record \<open>tracker_component\<close> (the element id), the tracker maps as
    association lists with distinct keys (\<open>tmap_*\<close>), dynamic fields as options
    (\<open>None\<close> is the null pointer of \<^verbatim>\<open>register_dynamic_field\<close>), the lazy getter
    \<open>materialize\<close>, and the bitset operations of \<^verbatim>\<open>__ProxyBitset\<close>.
  \<^item> \<open>Eapol\<close>: the key and nonce records, their constructors and clones, the
    install-flag proxy, and the condensation \<open>condense_eapol\<close>.
  \<^item> \<open>Ssid\<close>: range info, IE tag, probed and advertised SSID records with their
    constructors and clones, the beacon-rate counter and \<open>set_dot11d_vec\<close>.
  \<^item> \<open>Client\<close>: \<^verbatim>\<open>dot11_client\<close>, its clone, counters and string setters.
  \<^item> \<open>Device\<close>: \<^verbatim>\<open>dot11_tracked_device\<close> as one record, its constructor and clone,
    the device-type bits, the lazy getters, the factories (\<open>new_client\<close>,
    \<open>new_advertised_ssid\<close>, ...), the counters, the snapshot queries and
    \<open>pre_serialize\<close>, written as the five guarded calls of the setters
    \<open>set_num_*\<close> in code order.
  \<^item> \<open>Handshake\<close>: the capture of one WPA key message, \<open>handle_eapol\<close>: append to
    the key history, recompute the handshake bitmask from it
    (\<open>handshake_mask\<close>), count M3 retransmissions, append the condensed nonce to
    the station or AP nonce history.
  \<^item> \<open>Tracking\<close>: the frame path on one device as a datatype of operations
    \<open>dev_op\<close>, a step function \<open>dev_step\<close>, runs \<open>dev_run\<close> and the inductive
    reachable-state predicate \<open>dev_reachable\<close>; the invariant \<open>dev_wf\<close> (every
    keyed map has distinct keys, the handshake bitmask agrees with the history)
    holds in every reachable state; \<open>eapol_ops\<close> names the runs of key messages
    alone, whose effect \<open>dev_run_eapol\<close> computes in closed form.
  \<^item> \<open>Restore\<close>: \<^verbatim>\<open>dot11_tracked_device::reserve_fields\<close>, which re-types the
    elements of a device restored from a stored tree (\<open>device_reserve_fields\<close>),
    with its by-value loops over the maps (\<open>tmap_for_each_copy\<close>) and by-iterator
    loops over the handshake vectors (\<open>vec_for_each_ref\<close>, a \<open>while\<close> loop over
    the iterator position: \<open>vec_iter_loop\<close> runs \<open>vec_iter_step\<close> under
    \<open>while_option\<close>); \<open>device_store\<close> is
    the stored form of a live device; the override of the advertised SSID record
    (\<open>advertised_ssid_reserve_fields\<close>).
  \<^item> \<open>Regex\<close>: PCRE, which the watchlist calls, as a parser of the core PCRE syntax
    (with the \<open>^\<close> and \<open>$\<close> anchors) into anchored regular expressions and a
    derivative matcher with unanchored search; the matcher is proved correct against
    the language semantics \<open>lang\<close> and the printer round-trips through the parser.
  \<^item> \<open>SsidAlert\<close>: the watchlist entry, its four constructors, \<open>set_regex\<close>,
    \<open>set_allowed_macs\<close>, \<open>compare_ssid\<close>, and lock-serialised runs \<open>alert_run\<close>
    refined against the specification's matcher \<open>watch_run\<close>.
  \<^item> \<open>Proxies\<close>: the accessors generated by \<^verbatim>\<open>__Proxy\<close>, \<^verbatim>\<open>__ProxyDynamic\<close> and
    \<^verbatim>\<open>__ProxyDynamicTrackable\<close> for the advertised SSID (\<open>adv_set_*\<close>,
    \<open>adv_get_*\<close>), the probed SSID (\<open>probed_*\<close>), the client (\<open>client_*\<close> and
    the getters of its optional strings) and the device, the decrements of
    \<^verbatim>\<open>__ProxyIncDec\<close>, with the storage conversions of the macro: a
    \<^verbatim>\<open>bool\<close> over \<^verbatim>\<open>uint8_t\<close> (\<open>proxy_store_bool\<close>, \<open>proxy_load_bool\<close>), an
    \<^verbatim>\<open>unsigned int\<close> narrowed to \<^verbatim>\<open>uint8_t\<close> (\<open>ucast\<close>), and the materialising
    getter of a dynamic field (\<open>proxy_dyn_get\<close>).
  \<^item> \<open>LeafProxies\<close>: the accessors of the leaf records: the EAPOL key record
    (with its inline byte accessors \<^verbatim>\<open>set_eapol_nonce_bytes\<close>,
    \<^verbatim>\<open>set_rsnpmkid_bytes\<close>), the condensed nonce record (\<open>nonce_*\<close>), the
    802.11d range record (the \<^verbatim>\<open>int\<close> transmit power over \<^verbatim>\<open>int32_t\<close>, with
    \<open>word_of_int\<close> and \<open>sint\<close>) and the IE tag record.
  \<^item> \<open>Schema\<close>: the field registrations of
    \<^verbatim>\<open>dot11_11d_tracked_range_info::register_fields\<close>,
    \<^verbatim>\<open>dot11_client::register_fields\<close> and
    \<^verbatim>\<open>dot11_tracked_device::register_fields\<close> in code order; the nine
    \<^verbatim>\<open>get_signature\<close> overrides over a checksum parameter, the virtual call
    \<open>get_signature\<close> on a datatype of the classes, and the reader's signature
    check with its schema-mismatch error (\<open>check_signature\<close>).
  \<^item> \<open>Elements\<close>: the records as generic elements of the framework's tree
    (\<open>tracked_elem\<close>, one constructor per class), each class's
    \<^verbatim>\<open>clone_type\<close> override (copy-construct, then upcast) and the virtual calls
    \<open>clone_type\<close> and \<open>elem_signature\<close> on a generic element.

  \<^bold>\<open>Correspondence.\<close> A class is a record extending \<open>tracker_component\<close>; a field
  registered with \<^verbatim>\<open>register_field\<close> is a plain record field, one registered with
  \<^verbatim>\<open>register_dynamic_field\<close> an option. A method that changes the object is a
  function from the record to the record; a getter of a dynamic field returns the
  value and the record in which it is now materialised. The cloning constructors
  copy what the C++ copies: the id of a dynamic field but not its contents.
  \<^verbatim>\<open>tracker_element_clone_adaptor\<close> (outside \<^verbatim>\<open>src/\<close>) is taken to copy a null
  pointer as null, as the specification requires of clones (section 4.5).

  \<^bold>\<open>Properties\<close> (C1--C32, below): the derived counters are exact in every
  reachable state (C1); captured beacon and PMKID frames are never replaced (C2,
  C3) and a read of the beacon getter cancels a pending snapshot (C4); the
  handshake bitmask names exactly the messages in the history (C5), every message
  is condensed into the chosen nonce history (C6) keeping exactly five fields (C7);
  clones of the key and nonce records are exact (C8); along any run of
  observations the advertised SSIDs are one record per content hash, each created
  with the advertised-SSID entry id (C9); the device clone drops every collection
  (C10) and so breaks the handshake invariant (C11); device-type bits are never
  cleared by the frame path (C12); two clones lose fields (C13, C14); the
  watchlist refines the specified matcher (C15--C17), two of its constructors leave
  the compiled pattern uninitialised (C18), and every printable expression is an
  accepted pattern (C19); restoring a device leaves its maps generic (C20) and
  fails on a device without advertised SSIDs (C21); the client and probed SSID
  clones drop every dynamic field (C22); a reader that clones and refreshes sees
  zero counts (C23); the handshake histories are append-only (C24); restoring an
  advertised SSID re-types its range list (C25); the iterator loop of the restore
  terminates and re-types every element (C26); a standing beacon request is served
  by the first beacon frame and the first PMKID frame of a run is the one kept
  (C27, C28, liveness over finite runs: the event happens at the first position of
  the run where it can); reading an optional field materialises it, and a read is
  stable (C29); the order in which key messages arrive does not change the
  handshake state (C30, over permutations, with \<open>mset\<close>); \<^verbatim>\<open>clone_type\<close> keeps
  class and signature, and the element id except for the IE tag (C31); the
  signature check separates classes but not schemas (C32).

  \<^bold>\<open>Bounds.\<close> The counters are \<open>64 word\<close> values, so increments and the
  decrements of \<^verbatim>\<open>__ProxyIncDec\<close> wrap. C1 assumes each collection has fewer
  than \<open>2^64\<close> entries, the range of the \<^verbatim>\<open>uint64\<close> counter; beyond that the
  stored count is the size modulo \<open>2^64\<close>. The transmit-power proxies store an
  \<^verbatim>\<open>unsigned int\<close> into \<open>8 word\<close> fields (\<open>ucast\<close>) and the 802.11d power a C
  \<^verbatim>\<open>int\<close> into a \<open>32 word\<close> (\<open>word_of_int\<close>, read back with \<open>sint\<close>).
  No definition uses fuel: every loop of the model is structural recursion
  on a list (operation sequences, key histories, the pattern text), except the
  iterator loop of the restore, a \<open>while_option\<close> whose termination is proved (C26) by
  the distance from the iterator to \<^verbatim>\<open>end()\<close>.

  \<^bold>\<open>Not modelled.\<close> The tracker framework (the ids it allocates, serialisation,
  the registrations of the classes whose \<^verbatim>\<open>register_fields\<close> is outside
  \<^verbatim>\<open>src/\<close>); the checksum \<^verbatim>\<open>adler32_checksum\<close> behind \<^verbatim>\<open>get_signature\<close>
  (defined outside \<^verbatim>\<open>src/\<close> and not described by the specification; it is a
  parameter of \<open>get_signature\<close>); \<^verbatim>\<open>attach_base_parent\<close>, whose only action is
  \<^verbatim>\<open>parent->insert(self)\<close> on the framework's \<^verbatim>\<open>kis_tracked_device_base\<close>; the
  constructors from a stored map beyond what their \<^verbatim>\<open>reserve_fields\<close> does (the
  binding of fields to the stored tree is the framework's
  \<^verbatim>\<open>tracker_component::reserve_fields\<close>); the destructors and memory management;
  locking other than as the serialisation of whole operations; the pointer
  accessors of \<^verbatim>\<open>__ProxyTrackable\<close> (the key record's nonce, PMKID and packet
  elements, the watchlist's MAC vector), the plain getters that only read a member
  (\<^verbatim>\<open>get_last_adv_ie_csum\<close>, \<^verbatim>\<open>get_last_adv_ssid\<close>), the setters of the
  \<^verbatim>\<open>__ProxyDynamicTrackable\<close> fields and the alias fields
  \<^verbatim>\<open>last_beaconed_ssid_record\<close> and \<^verbatim>\<open>last_probed_ssid_record\<close>, whose target
  is a pointer of the framework.
\<close>

subsection \<open>Example inputs for the witnesses\<close>

definition ex_ids :: dot11_device_entry_ids where
  "ex_ids = \<lparr>eid_client = 11, eid_advertised_ssid = 12, eid_responded_ssid = 13,
     eid_probed_ssid = 14, eid_wpa_key = 15, eid_wpa_nonce = 16\<rparr>"

definition ex_device :: dot11_tracked_device where
  "ex_device = dot11_tracked_device_new 10 ex_ids"

definition ex_key :: "u8 \<Rightarrow> dot11_tracked_eapol" where
  "ex_key msg = (dot11_tracked_eapol_new 15)\<lparr>dot11_tracked_eapol.eapol_msg_num := msg,
     dot11_tracked_eapol.eapol_nonce := ''nonce''\<rparr>"

definition ex_beacon :: kis_tracked_packet where
  "ex_beacon = \<lparr>packet_data = ''beacon''\<rparr>"

definition ex_alert :: dot11_tracked_ssid_alert where
  "ex_alert = set_allowed_macs [0x0A0B0C0D0E0F] (dot11_tracked_ssid_alert_new 20 21)"

definition ex_linksys :: dot11_tracked_ssid_alert where
  "ex_linksys =
     (case set_regex ''^Linksys$'' (set_allowed_macs [0xAABBCCDDEEFF] (dot11_tracked_ssid_alert_new 22 21))
      of Inr a \<Rightarrow> a | Inl e \<Rightarrow> ex_alert)"

definition ex_watch :: dot11_tracked_ssid_alert where
  "ex_watch = (case set_regex ''evil(-twin)?'' ex_alert of Inr a \<Rightarrow> a | Inl e \<Rightarrow> ex_alert)"

text \<open>A checksum that separates the nine class names (by length and last
  character), standing in for \<^verbatim>\<open>adler32_checksum\<close> in the witness of C32.\<close>

definition ex_checksum :: "string \<Rightarrow> u32" where
  "ex_checksum s = word_of_nat (length s * 256 + of_char (last s))"

lemma ex_device_simps [simp]:
  "wpa_key_vec ex_device = None" "wpa_nonce_vec ex_device = None" "wpa_anonce_vec ex_device = None"
  "wps_m3_count ex_device = 0" "wpa_present_handshake ex_device = 0"
  "client_map ex_device = None" "advertised_ssid_map ex_device = None"
  "ssid_beacon_packet ex_device = None" "pmkid_packet ex_device = None"
  "snapshot_next_beacon ex_device = False" "type_set ex_device = 0"
  by (simp_all add: ex_device_def dot11_tracked_device_new_def)

lemma ex_key_msg [simp]: "dot11_tracked_eapol.eapol_msg_num (ex_key m) = m"
  by (simp add: ex_key_def dot11_tracked_eapol_new_def)

subsection \<open>Derived counters\<close>

text \<open>C1. In every state the frame path can reach, the refresh step
  \<^verbatim>\<open>pre_serialize\<close> sets each of the five device counters to the exact number of
  distinct keys of its collection (0 for a collection never materialised), as long
  as that number fits the \<^verbatim>\<open>uint64\<close> counter.\<close>

theorem pre_serialize_counts_exact:
  assumes "dev_reachable d"
    and "opt_size (client_map d) < 2 ^ 64" "opt_size (advertised_ssid_map d) < 2 ^ 64"
    and "opt_size (responded_ssid_map d) < 2 ^ 64" "opt_size (probed_ssid_map d) < 2 ^ 64"
    and "opt_size (associated_client_map d) < 2 ^ 64"
  shows "unat (num_client_aps (pre_serialize d)) = card (opt_keys (client_map d)) \<and>
    unat (num_advertised_ssids (pre_serialize d)) = card (opt_keys (advertised_ssid_map d)) \<and>
    unat (num_responded_ssids (pre_serialize d)) = card (opt_keys (responded_ssid_map d)) \<and>
    unat (num_probed_ssids (pre_serialize d)) = card (opt_keys (probed_ssid_map d)) \<and>
    unat (num_associated_clients (pre_serialize d)) = card (opt_keys (associated_client_map d))"
proof -
  from assms(1) have wf: "dev_wf d" by (rule dev_reachable_wf)
  then show ?thesis
    using assms(2-6) by (simp add: dev_wf_def opt_wf_card unat_of_nat_exact)
qed

theorem pre_serialize_counts_exact_witness:
  "unat (num_advertised_ssids (pre_serialize
      (dev_run [Op_update_advertised_ssid 7 id, Op_update_advertised_ssid 7 id,
                Op_update_advertised_ssid 9 id] ex_device))) = 2"
proof -
  let ?d = "dev_run [Op_update_advertised_ssid 7 id, Op_update_advertised_ssid 7 id,
                Op_update_advertised_ssid 9 id] ex_device"
  have r: "dev_reachable ?d"
    unfolding ex_device_def by (rule dev_run_reachable [OF dev_reachable.dev_new])
  have m: "advertised_ssid_map ?d = Some [(7, new_advertised_ssid ex_device),
                                         (9, new_advertised_ssid ex_device)]"
    by (simp add: tracker_simps tmap_upsert_def tmap_insert_def tmap_lookup_def
        ex_device_def new_advertised_ssid_def dot11_tracked_device_new_def)
  have "card (opt_keys (advertised_ssid_map ?d)) = 2"
    unfolding m by (simp add: tmap_keys_def)
  moreover have "opt_size (client_map ?d) < 2 ^ 64" "opt_size (advertised_ssid_map ?d) < 2 ^ 64"
    "opt_size (responded_ssid_map ?d) < 2 ^ 64" "opt_size (probed_ssid_map ?d) < 2 ^ 64"
    "opt_size (associated_client_map ?d) < 2 ^ 64"
    by (simp_all add: tracker_simps tmap_upsert_def tmap_insert_def tmap_lookup_def
        ex_device_def dot11_tracked_device_new_def)
  ultimately show ?thesis
    using pre_serialize_counts_exact [OF r] by simp
qed

subsection \<open>Beacon and PMKID snapshots\<close>

text \<open>C2. Once a beacon frame has been snapshotted, no later operation of the frame
  path replaces or drops it, and the beacon-snapshot query stays false, even when the
  snapshot request flag is set again.\<close>

theorem beacon_snapshot_once:
  assumes "ssid_beacon_packet d = Some p"
  shows "ssid_beacon_packet (dev_run ops d) = Some p \<and> \<not> get_snap_next_beacon (dev_run ops d)"
proof -
  have "ssid_beacon_packet (dev_run ops d) = Some p"
    using assms by (rule dev_run_beacon_kept)
  then show ?thesis by (simp add: get_snap_next_beacon_captured)
qed

theorem beacon_snapshot_once_witness:
  "ssid_beacon_packet (dev_run [Op_set_snap_next_beacon True, Op_snapshot_beacon kis_tracked_packet_new]
      (snapshot_beacon ex_beacon (set_snap_next_beacon True ex_device))) = Some ex_beacon \<and>
   \<not> get_snap_next_beacon (dev_run [Op_set_snap_next_beacon True, Op_snapshot_beacon kis_tracked_packet_new]
      (snapshot_beacon ex_beacon (set_snap_next_beacon True ex_device)))"
proof -
  have "ssid_beacon_packet (snapshot_beacon ex_beacon (set_snap_next_beacon True ex_device)) =
      Some ex_beacon"
    by (simp add: snapshot_beacon_def get_snap_next_beacon_def set_snap_next_beacon_def
        set_ssid_beacon_packet_def ex_device_def dot11_tracked_device_new_def)
  then show ?thesis by (rule beacon_snapshot_once)
qed

text \<open>C3. Once a PMKID-bearing frame has been snapshotted, no later operation of the
  frame path replaces or drops it, and the PMKID query reports it as no longer needed.\<close>

theorem pmkid_snapshot_once:
  assumes "pmkid_packet d = Some p"
  shows "pmkid_packet (dev_run ops d) = Some p \<and> \<not> get_pmkid_needed (dev_run ops d)"
proof -
  have "pmkid_packet (dev_run ops d) = Some p"
    using assms by (rule dev_run_pmkid_kept)
  then show ?thesis by (simp add: get_pmkid_needed_def)
qed

theorem pmkid_snapshot_once_witness:
  "pmkid_packet (dev_run [Op_snapshot_pmkid kis_tracked_packet_new] (snapshot_pmkid ex_beacon ex_device)) =
     Some ex_beacon \<and>
   \<not> get_pmkid_needed (dev_run [Op_snapshot_pmkid kis_tracked_packet_new]
      (snapshot_pmkid ex_beacon ex_device))"
proof -
  have "pmkid_packet (snapshot_pmkid ex_beacon ex_device) = Some ex_beacon"
    by (simp add: snapshot_pmkid_def get_pmkid_needed_def set_pmkid_packet_def ex_device_def
        dot11_tracked_device_new_def)
  then show ?thesis by (rule pmkid_snapshot_once)
qed

text \<open>C4. Reading the snapshotted beacon through its getter materialises an empty
  packet when none was captured, after which the beacon-snapshot query is false:
  a read cancels a pending snapshot request.\<close>

theorem beacon_getter_cancels_snapshot:
  "\<not> get_snap_next_beacon (snd (get_ssid_beacon_packet d))"
  by (simp add: get_ssid_beacon_packet_def get_snap_next_beacon_def Let_def)

subsection \<open>Handshake capture\<close>

text \<open>C5. In every reachable device state, bit \<open>i\<close> of the handshake bitmask is
  set exactly when \<open>i < 4\<close> and the key history holds a message numbered
  \<open>i + 1\<close>.\<close>

theorem handshake_bits_match_history:
  assumes "dev_reachable d"
  shows "bit (wpa_present_handshake d) i \<longleftrightarrow>
    i < 4 \<and> (\<exists>k \<in> set (materialize [] (wpa_key_vec d)).
      unat (dot11_tracked_eapol.eapol_msg_num k) = i + 1)"
proof -
  from assms have "handshake_inv d" by (simp add: dev_reachable_wf [THEN dev_wf_handshake])
  then show ?thesis by (auto simp: handshake_inv_def bit_handshake_mask)
qed

theorem handshake_bits_match_history_witness:
  "bit (wpa_present_handshake (dev_run [Op_eapol False (ex_key 1), Op_eapol True (ex_key 3)] ex_device)) 2 \<and>
   \<not> bit (wpa_present_handshake (dev_run [Op_eapol False (ex_key 1), Op_eapol True (ex_key 3)] ex_device)) 1"
proof -
  let ?d = "dev_run [Op_eapol False (ex_key 1), Op_eapol True (ex_key 3)] ex_device"
  have r: "dev_reachable ?d"
    unfolding ex_device_def by (rule dev_run_reachable [OF dev_reachable.dev_new])
  show ?thesis
    using handshake_bits_match_history [OF r, of 2] handshake_bits_match_history [OF r, of 1]
    by simp
qed

text \<open>C6. Each key message is condensed into a nonce record appended to the station
  or the AP nonce history, as the caller selects, leaving the other history as it
  was.\<close>

theorem eapol_condensed_nonce_history:
  "wpa_nonce_vec (handle_eapol False k d) =
     Some (materialize [] (wpa_nonce_vec d) @ [condense_eapol (wpa_nonce_entry_id d) k]) \<and>
   wpa_anonce_vec (handle_eapol False k d) = wpa_anonce_vec d \<and>
   wpa_anonce_vec (handle_eapol True k d) =
     Some (materialize [] (wpa_anonce_vec d) @ [condense_eapol (wpa_nonce_entry_id d) k]) \<and>
   wpa_nonce_vec (handle_eapol True k d) = wpa_nonce_vec d"
  by (simp add: handle_eapol_defs condense_eapol_def create_tracked_nonce_def Let_def
      split: prod.splits)

text \<open>C7. The condensed nonce record keeps exactly the time, message number, install
  flag, nonce and replay counter of a key record: two key records condense to the
  same nonce record if and only if they agree on these five fields.\<close>

theorem condense_eapol_kernel:
  "condense_eapol i e = condense_eapol i e' \<longleftrightarrow>
     dot11_tracked_eapol.eapol_time e = dot11_tracked_eapol.eapol_time e' \<and>
     dot11_tracked_eapol.eapol_msg_num e = dot11_tracked_eapol.eapol_msg_num e' \<and>
     dot11_tracked_eapol.eapol_install e = dot11_tracked_eapol.eapol_install e' \<and>
     dot11_tracked_eapol.eapol_nonce e = dot11_tracked_eapol.eapol_nonce e' \<and>
     dot11_tracked_eapol.eapol_replay_counter e = dot11_tracked_eapol.eapol_replay_counter e'"
  by (simp add: condense_eapol_def set_from_eapol_def dot11_tracked_nonce_new_def)

text \<open>C8. Cloning a key record or a nonce record copies every field.\<close>

theorem eapol_nonce_clone_exact:
  "dot11_tracked_eapol_clone e = e \<and> dot11_tracked_nonce_clone n = n"
  by (simp add: dot11_tracked_eapol_clone_def dot11_tracked_nonce_clone_def)

subsection \<open>SSID identity\<close>

text \<open>C9. Advertised SSIDs are identified by their content hash: along any run of
  observations from a device whose advertised map has distinct keys, the map ends
  with one record per hash (those it had and those observed), and the record under
  an observed hash is the old one, or a fresh one built with the device's
  advertised-SSID entry id, with that hash's updates applied in order; the records
  under other hashes are untouched.\<close>

theorem advertised_ssid_identity:
  assumes "opt_wf (advertised_ssid_map d)"
  shows "opt_size (advertised_ssid_map (dev_run (adv_obs xs) d)) =
           card (opt_keys (advertised_ssid_map d) \<union> fst ` set xs) \<and>
         opt_lookup (advertised_ssid_map (dev_run (adv_obs xs) d)) h =
           (if h \<in> fst ` set xs
            then Some (fold (\<lambda>f a. f a) (map snd (filter (\<lambda>x. fst x = h) xs))
                   (case opt_lookup (advertised_ssid_map d) h of Some a \<Rightarrow> a
                    | None \<Rightarrow> dot11_advertised_ssid_new (advertised_ssid_map_entry_id d)))
            else opt_lookup (advertised_ssid_map d) h)"
  using dev_run_adv_obs [of xs d h] assms by (simp add: opt_wf_size_card)

theorem advertised_ssid_identity_witness:
  "opt_size (advertised_ssid_map (dev_run (adv_obs [(7, id), (7, id), (8, id)]) ex_device)) = 2"
  using advertised_ssid_identity [of ex_device "[(7, id), (7, id), (8, id)]"] by simp

subsection \<open>Cloning the device\<close>

text \<open>C10. The cloning constructor of the device aggregate copies none of the
  dynamic collections (client map, SSID maps, associated clients, handshake
  histories) and neither snapshotted frame, while it copies the counters: the copy
  claims a PMKID frame is still needed and holds no beacon, whatever the original
  had captured.\<close>

theorem device_clone_drops_collections:
  "client_map (dot11_tracked_device_clone d) = None \<and>
   advertised_ssid_map (dot11_tracked_device_clone d) = None \<and>
   responded_ssid_map (dot11_tracked_device_clone d) = None \<and>
   probed_ssid_map (dot11_tracked_device_clone d) = None \<and>
   associated_client_map (dot11_tracked_device_clone d) = None \<and>
   wpa_key_vec (dot11_tracked_device_clone d) = None \<and>
   wpa_nonce_vec (dot11_tracked_device_clone d) = None \<and>
   wpa_anonce_vec (dot11_tracked_device_clone d) = None \<and>
   num_advertised_ssids (dot11_tracked_device_clone d) = num_advertised_ssids d \<and>
   get_pmkid_needed (dot11_tracked_device_clone d) \<and>
   \<not> get_beacon_packet_present (dot11_tracked_device_clone d)"
  by (simp add: get_pmkid_needed_def get_beacon_packet_present_def)

text \<open>C11. The clone keeps the handshake bitmask but not the key history, so the
  clone of a device that has seen any handshake message violates the agreement of
  bitmask and history.\<close>

theorem device_clone_breaks_handshake_inv:
  assumes "wpa_present_handshake d \<noteq> 0"
  shows "\<not> handshake_inv (dot11_tracked_device_clone d)"
  using assms by (simp add: handshake_inv_def)

theorem device_clone_breaks_handshake_inv_witness:
  "handshake_inv (handle_eapol False (ex_key 1) ex_device) \<and>
   \<not> handshake_inv (dot11_tracked_device_clone (handle_eapol False (ex_key 1) ex_device))"
proof -
  have "wpa_present_handshake (handle_eapol False (ex_key 1) ex_device) \<noteq> 0"
    by (simp add: msg_bit_def)
  then show ?thesis
    using device_clone_breaks_handshake_inv handle_eapol_inv by blast
qed

subsection \<open>Device type\<close>

text \<open>C12. Along any run of the frame path, a device-type bit once set stays set.\<close>

theorem type_set_monotone:
  assumes "bit (type_set d) j"
  shows "bit (type_set (dev_run ops d)) j"
  using assms by (induction ops arbitrary: d) (simp_all add: dev_step_type_set_mono)

theorem type_set_monotone_witness:
  "bit (type_set (dev_run [Op_bitset_type_set DOT11_DEVICE_TYPE_CLIENT, Op_pre_serialize]
     (bitset_type_set DOT11_DEVICE_TYPE_BEACON_AP ex_device))) 0"
proof -
  have "bit (type_set (bitset_type_set DOT11_DEVICE_TYPE_BEACON_AP ex_device)) 0"
    by (simp add: bitset_type_set_def DOT11_DEVICE_TYPE_BEACON_AP_def)
  then show ?thesis by (rule type_set_monotone)
qed

subsection \<open>Cloning the SSID records\<close>

text \<open>C13. Cloning an advertised SSID loses its \<^verbatim>\<open>maxrate\<close> (the copy holds 0)
  and its dynamic fields; putting them back gives the original.\<close>

theorem advertised_ssid_clone_loses_maxrate:
  "maxrate (dot11_advertised_ssid_clone p) = 0 \<and>
   (dot11_advertised_ssid_clone p)\<lparr>maxrate := maxrate p, owe_ssid := owe_ssid p,
      owe_ssid_len := owe_ssid_len p, owe_bssid := owe_bssid p, beacon_info := beacon_info p,
      dot11d_country := dot11d_country p, dot11d_vec := dot11d_vec p, wps_state := wps_state p,
      wps_manuf := wps_manuf p, wps_device_name := wps_device_name p,
      wps_model_name := wps_model_name p, wps_model_number := wps_model_number p,
      wps_serial_number := wps_serial_number p, wps_uuid_e := wps_uuid_e p,
      dot11_advertised_ssid.location := dot11_advertised_ssid.location p, ie_tag_list := ie_tag_list p,
      ie_tag_content := ie_tag_content p\<rparr> = p"
  by (cases p) (simp add: dot11_advertised_ssid_clone_def)

text \<open>C14. Cloning an IE tag loses its \<^verbatim>\<open>tag_oui_manuf\<close> and its element id
  (the base is default-constructed); putting them back gives the original.\<close>

theorem ietag_clone_loses_manuf:
  "tag_oui_manuf (dot11_tracked_ietag_clone p) = [] \<and>
   tracker_id (dot11_tracked_ietag_clone p) = tracker_component_default_id \<and>
   (dot11_tracked_ietag_clone p)\<lparr>tracker_id := tracker_id p, tag_oui_manuf := tag_oui_manuf p\<rparr> = p"
  by (cases p) (simp add: dot11_tracked_ietag_clone_def)

subsection \<open>SSID watchlist\<close>

text \<open>C15. A freshly constructed watchlist entry, driven by any sequence of
  serialised reconfigurations and matches, gives exactly the answers of the
  specification's matcher started from the empty pattern and no exempt MAC: each
  match is the active pattern matching a substring of the SSID with the MAC not
  exempt, and an invalid pattern is rejected leaving the previous one in effect.\<close>

theorem watchlist_refines_spec:
  "fst (alert_run ops (dot11_tracked_ssid_alert_new in_id mac_id)) =
   fst (watch_run ops
     \<lparr>w_pattern = \<lparr>pat_bol = False, pat_body = One, pat_eol = False\<rparr>, w_exempt = {}\<rparr>)"
proof -
  have "alert_abs (dot11_tracked_ssid_alert_new in_id mac_id) =
      \<lparr>w_pattern = \<lparr>pat_bol = False, pat_body = One, pat_eol = False\<rparr>, w_exempt = {}\<rparr>"
    by (simp add: alert_abs_def dot11_tracked_ssid_alert_new_def)
  then show ?thesis using alert_run_sim [OF alert_wf_new(1), of ops in_id mac_id] by simp
qed

text \<open>C16. On a consistent entry, matching never fails, and it reports a match
  exactly when the MAC is not in the exempt list and the SSID splits as
  \<open>u @ v @ w\<close> with \<open>v\<close> in the language of the active pattern, \<open>u\<close> empty if the
  pattern is anchored with \<open>^\<close>, and \<open>w\<close> empty or a final newline if it is
  anchored with \<open>$\<close>. The witness is the example of the specification (section 8):
  pattern \<open>^Linksys$\<close> with \<open>AA:BB:CC:DD:EE:FF\<close> exempt.\<close>

theorem compare_ssid_matches:
  assumes "alert_wf a"
  shows "\<exists>a'. compare_ssid s mac a =
    Inr ((\<exists>u v w. s = u @ v @ w \<and> v \<in> lang (pat_body (the (re_parse (ssid_regex a)))) \<and>
           (pat_bol (the (re_parse (ssid_regex a))) \<longrightarrow> u = []) \<and>
           (pat_eol (the (re_parse (ssid_regex a))) \<longrightarrow> eol_tail w)) \<and>
         mac \<notin> set (allowed_macs_vec a), a')"
  using compare_ssid_wf [OF assms, of s mac]
  by (auto simp: alert_abs_def re_search_lang [symmetric])

theorem compare_ssid_matches_witness:
  "(\<exists>a'. compare_ssid ''Linksys'' 0xAABBCCDDEEFF ex_linksys = Inr (False, a')) \<and>
   (\<exists>a'. compare_ssid ''Linksys'' 0x112233445566 ex_linksys = Inr (True, a')) \<and>
   (\<exists>a'. compare_ssid ''NETGEAR'' 0x112233445566 ex_linksys = Inr (False, a'))"
proof -
  have wf: "alert_wf ex_linksys" by code_simp
  have l: "re_search (the (re_parse (ssid_regex ex_linksys))) ''Linksys''"
    and n: "\<not> re_search (the (re_parse (ssid_regex ex_linksys))) ''NETGEAR''" by code_simp+
  have ex: "(0xAABBCCDDEEFF::mac_addr) \<in> set (allowed_macs_vec ex_linksys)"
    and nex: "(0x112233445566::mac_addr) \<notin> set (allowed_macs_vec ex_linksys)" by code_simp+
  show ?thesis
    using compare_ssid_matches [OF wf, of "''Linksys''" "0xAABBCCDDEEFF"]
      compare_ssid_matches [OF wf, of "''Linksys''" "0x112233445566"]
      compare_ssid_matches [OF wf, of "''NETGEAR''" "0x112233445566"] l n ex nex
    unfolding re_search_lang by simp
qed

text \<open>C17. The first match on a consistent entry with a non-exempt MAC compiles
  the active pattern and caches it; from then on every match, whatever the SSID and
  MAC, succeeds without changing the entry, so the pattern is not parsed again on
  the per-frame path.\<close>

theorem compiled_pattern_cached:
  assumes "alert_wf a" and "mac \<notin> set (allowed_macs_vec a)"
    and "compare_ssid s mac a = Inr (b, a')"
  shows "ssid_re a' = Re_compiled (the (re_parse (ssid_regex a))) \<and>
    (\<forall>s' mac'. \<exists>b'. compare_ssid s' mac' a' = Inr (b', a'))"
proof -
  obtain r where r: "re_parse (ssid_regex a) = Some r"
    and slot: "ssid_re a = Re_null \<or> ssid_re a = Re_compiled r"
    using assms(1) by (rule alert_wf_parse)
  from slot r assms(2,3) show ?thesis
    by (auto simp: compare_ssid_def)
qed

theorem compiled_pattern_cached_witness:
  "ssid_re (snd (projr (compare_ssid ''evil'' 1 ex_watch))) = Re_compiled (the (re_parse ''evil(-twin)?'')) \<and>
   (\<exists>b'. compare_ssid ''x'' 2 (snd (projr (compare_ssid ''evil'' 1 ex_watch))) =
      Inr (b', snd (projr (compare_ssid ''evil'' 1 ex_watch))))"
proof -
  have wf: "alert_wf ex_watch" by code_simp
  have mac: "(1::mac_addr) \<notin> set (allowed_macs_vec ex_watch)" by code_simp
  have re: "ssid_regex ex_watch = ''evil(-twin)?''" by code_simp
  obtain b a' where c: "compare_ssid ''evil'' 1 ex_watch = Inr (b, a')"
    using compare_ssid_wf [OF wf, of "''evil''" 1] by auto
  show ?thesis using compiled_pattern_cached [OF wf mac c] c re by simp
qed

text \<open>C18. The cloning constructor and the constructor from a stored map leave the
  compiled-pattern slot uninitialised (their initialisation is guarded by the
  misspelt \<^verbatim>\<open>HAVE_LIBCPRE\<close>): a match on the copy of any entry, for a MAC it does not
  exempt, reaches the indeterminate slot, even when the original had its pattern
  compiled, and neither copy is a consistent entry.\<close>

theorem ssid_alert_copy_pattern_indeterminate:
  assumes "mac \<notin> set (allowed_macs_vec a)"
  shows "compare_ssid s mac (dot11_tracked_ssid_alert_clone a) = Inl Err_indeterminate_pattern \<and>
    \<not> alert_wf (dot11_tracked_ssid_alert_clone a) \<and>
    compare_ssid s mac (dot11_tracked_ssid_alert_restore in_id mac_id
      (Some \<lparr>stored_group_name = ssid_group_name a, stored_regex = ssid_regex a,
             stored_macs = allowed_macs_vec a\<rparr>)) = Inl Err_indeterminate_pattern"
  using assms
  by (simp add: compare_ssid_def alert_wf_def dot11_tracked_ssid_alert_clone_def
      dot11_tracked_ssid_alert_restore_def)

theorem ssid_alert_copy_pattern_indeterminate_witness:
  "alert_wf ex_watch \<and>
   compare_ssid ''evil'' 1 (dot11_tracked_ssid_alert_clone ex_watch) = Inl Err_indeterminate_pattern"
proof -
  have "(1::mac_addr) \<notin> set (allowed_macs_vec ex_watch)" by code_simp
  then have "compare_ssid ''evil'' 1 (dot11_tracked_ssid_alert_clone ex_watch) =
      Inl Err_indeterminate_pattern"
    using ssid_alert_copy_pattern_indeterminate by blast
  moreover have "alert_wf ex_watch" by code_simp
  ultimately show ?thesis by simp
qed

text \<open>C19. Every pattern whose expression does not contain the empty language,
  printed, is accepted by \<^verbatim>\<open>set_regex\<close>, and the entry then matches with exactly
  that pattern, anchors included.\<close>

theorem set_regex_print_roundtrip:
  assumes "zero_free (pat_body p)"
  shows "\<exists>a'. set_regex (print_pattern p) a = Inr a' \<and> w_pattern (alert_abs a') = p \<and>
    alert_wf a' \<and> allowed_macs_vec a' = allowed_macs_vec a"
  using re_parse_print [OF assms]
  by (simp add: set_regex_def alert_abs_def alert_wf_def)

theorem set_regex_print_roundtrip_witness:
  "\<exists>a'. set_regex ''^(e(v*))$'' ex_alert = Inr a' \<and>
     w_pattern (alert_abs a') =
       \<lparr>pat_bol = True, pat_body = Times (Atom CHR ''e'') (Star (Atom CHR ''v'')), pat_eol = True\<rparr>"
proof -
  let ?p = "\<lparr>pat_bol = True, pat_body = Times (Atom CHR ''e'') (Star (Atom CHR ''v'')), pat_eol = True\<rparr>"
  have z: "zero_free (pat_body ?p)" by simp
  have p: "print_pattern ?p = ''^(e(v*))$''"
    by (simp add: print_pattern_def re_meta_def backslash_def)
  show ?thesis using set_regex_print_roundtrip [OF z, of ex_alert] unfolding p by blast
qed

subsection \<open>Restoring a device from a stored tree\<close>

text \<open>C20. When a device is restored from a stored tree that has an advertised SSID
  map, \<^verbatim>\<open>reserve_fields\<close> re-types every element of the three handshake vectors
  into its record class with the collection's entry id, but leaves the advertised,
  responded and probed SSID maps and the client map exactly as stored: its loops
  over the maps assign to copies of the entries, so generic elements stay generic
  (and the responded map is not visited at all).\<close>

theorem restore_maps_stay_generic:
  assumes "st_advertised_ssid_map c \<noteq> None"
  shows "\<exists>c'. device_reserve_fields ids (Some c) = Inr c' \<and>
    st_advertised_ssid_map c' = st_advertised_ssid_map c \<and>
    st_responded_ssid_map c' = st_responded_ssid_map c \<and>
    st_probed_ssid_map c' = st_probed_ssid_map c \<and>
    st_client_map c' = st_client_map c \<and>
    (\<forall>v \<in> set_option (st_wpa_key_vec c'). \<forall>x \<in> set v.
       relem_typed x \<and> tracker_id (relem_val x) = eid_wpa_key ids) \<and>
    (\<forall>v \<in> set_option (st_wpa_nonce_vec c'). \<forall>x \<in> set v.
       relem_typed x \<and> tracker_id (relem_val x) = eid_wpa_nonce ids) \<and>
    (\<forall>v \<in> set_option (st_wpa_anonce_vec c'). \<forall>x \<in> set v.
       relem_typed x \<and> tracker_id (relem_val x) = eid_wpa_nonce ids)"
proof -
  from assms obtain am where "st_advertised_ssid_map c = Some am" by blast
  then show ?thesis by (auto simp: device_reserve_fields_Some)
qed

theorem restore_maps_stay_generic_witness:
  "device_reserve_fields ex_ids (Some (device_store (handle_eapol False (ex_key 1)
      (update_advertised_ssid 7 id ex_device)))) =
   Inr ((device_store (handle_eapol False (ex_key 1) (update_advertised_ssid 7 id ex_device)))
      \<lparr>st_wpa_key_vec := Some [Typed ((ex_key 1)\<lparr>tracker_id := 15\<rparr>)],
       st_wpa_nonce_vec := Some [Typed ((condense_eapol 16 (ex_key 1))\<lparr>tracker_id := 16\<rparr>)]\<rparr>)"
proof -
  let ?c = "device_store (handle_eapol False (ex_key 1) (update_advertised_ssid 7 id ex_device))"
  have adv: "st_advertised_ssid_map ?c \<noteq> None"
    by (simp add: device_store_def store_map_def update_advertised_ssid_eq handle_eapol_defs
        Let_def split: prod.splits)
  have keys: "st_wpa_key_vec ?c = Some [Generic (ex_key 1)]"
    and nonces: "st_wpa_nonce_vec ?c = Some [Generic (condense_eapol 16 (ex_key 1))]"
    and anonces: "st_wpa_anonce_vec ?c = None"
    by (simp_all add: device_store_def update_advertised_ssid_eq handle_eapol_defs Let_def
        ex_device_def dot11_tracked_device_new_def create_tracked_nonce_def condense_eapol_def
        ex_ids_def split: prod.splits)
  obtain c' where c': "device_reserve_fields ex_ids (Some ?c) = Inr c'"
    and same: "st_advertised_ssid_map c' = st_advertised_ssid_map ?c"
      "st_responded_ssid_map c' = st_responded_ssid_map ?c"
      "st_probed_ssid_map c' = st_probed_ssid_map ?c" "st_client_map c' = st_client_map ?c"
    using restore_maps_stay_generic [OF adv, of ex_ids] by blast
  from adv obtain am where "st_advertised_ssid_map ?c = Some am" by blast
  then show ?thesis using keys nonces anonces
    by (simp add: device_reserve_fields_Some ex_ids_def)
qed

text \<open>C21. A device the frame path has never shown an advertised SSID (a pure
  client, for instance) has no advertised SSID map, and restoring it from its stored
  form dereferences that null map in \<^verbatim>\<open>reserve_fields\<close>.\<close>

theorem restore_fails_without_advertised:
  assumes "\<not> list_ex adv_op ops"
  shows "device_reserve_fields ids' (Some (device_store (dev_run ops (dot11_tracked_device_new in_id ids)))) =
    Inl Err_null_advertised_ssid_map"
  using assms
  by (simp add: device_reserve_fields_store_None dev_run_adv_None dot11_tracked_device_new_def)

theorem restore_fails_without_advertised_witness:
  "device_reserve_fields ex_ids (Some (device_store (dev_run [Op_update_client 5 id,
      Op_eapol False (ex_key 1)] (dot11_tracked_device_new 10 ex_ids)))) =
   Inl Err_null_advertised_ssid_map"
  by (rule restore_fails_without_advertised) simp

subsection \<open>Cloning the sub-records\<close>

text \<open>C22. The cloning constructors of the client record and of the probed SSID
  record keep every static field and drop every dynamic one: the clone is the
  original with the DHCP, CDP and EAP strings, the IP data and the location
  (client), and the location, tag list and WPS strings (probed SSID) absent. The
  specification asks a deep clone to reconstruct every owned part.\<close>

theorem client_probed_clone_drop_dynamic:
  "dot11_client_clone c =
     c\<lparr>dhcp_host := None, dhcp_vendor := None, eap_identity := None, cdp_device := None,
       cdp_port := None, ipdata := None, dot11_client.location := None\<rparr> \<and>
   dot11_probed_ssid_clone p =
     p\<lparr>dot11_probed_ssid.location := None, dot11_probed_ssid.ie_tag_list := None,
       dot11_probed_ssid.wps_state := None, dot11_probed_ssid.wps_manuf := None,
       dot11_probed_ssid.wps_device_name := None, dot11_probed_ssid.wps_model_name := None,
       dot11_probed_ssid.wps_model_number := None, dot11_probed_ssid.wps_serial_number := None,
       dot11_probed_ssid.wps_uuid_e := None\<rparr>"
  by (cases c, cases p) (simp add: dot11_client_clone_def dot11_probed_ssid_clone_def)

subsection \<open>Point-in-time readers\<close>

text \<open>C23. A reader that takes a point-in-time copy of a device with the cloning
  constructor and then refreshes the derived counters, as the specification
  prescribes for readers (sections 4.5 and 5), reports every collection count as
  zero whatever the device holds, because the clone has no collections; refreshing
  the device itself reports the true sizes.\<close>

theorem clone_reader_counts_zero:
  "num_client_aps (pre_serialize (dot11_tracked_device_clone d)) = 0 \<and>
   num_advertised_ssids (pre_serialize (dot11_tracked_device_clone d)) = 0 \<and>
   num_responded_ssids (pre_serialize (dot11_tracked_device_clone d)) = 0 \<and>
   num_probed_ssids (pre_serialize (dot11_tracked_device_clone d)) = 0 \<and>
   num_associated_clients (pre_serialize (dot11_tracked_device_clone d)) = 0 \<and>
   num_advertised_ssids (pre_serialize d) = of_nat (opt_size (advertised_ssid_map d))"
  by simp

subsection \<open>Append-only histories\<close>

text \<open>C24. Along any run of the frame path the key history and both nonce histories
  only grow: each history before the run is a prefix of the history after it.\<close>

theorem handshake_histories_append_only:
  "prefix (materialize [] (wpa_key_vec d)) (materialize [] (wpa_key_vec (dev_run ops d))) \<and>
   prefix (materialize [] (wpa_nonce_vec d)) (materialize [] (wpa_nonce_vec (dev_run ops d))) \<and>
   prefix (materialize [] (wpa_anonce_vec d)) (materialize [] (wpa_anonce_vec (dev_run ops d)))"
proof (induction ops arbitrary: d)
  case Nil
  then show ?case by simp
next
  case (Cons op ops)
  from dev_step_histories_prefix [of d op] Cons.IH [of "dev_step op d"]
  show ?case by (auto intro: prefix_order.trans)
qed

subsection \<open>Restoring an advertised SSID\<close>

text \<open>C25. Restoring an advertised SSID record, by contrast, re-types every element
  of a stored 802.11d range list with the country entry id and keeps its start
  channel, channel count and power: its loop assigns through the iterator.\<close>

theorem advertised_ssid_restore_retypes_ranges:
  "advertised_ssid_reserve_fields i (Some (Some v)) = Some v' \<Longrightarrow>
   list_all (\<lambda>x. relem_typed x \<and> tracker_id (relem_val x) = i) v' \<and>
   map (\<lambda>x. (startchan (relem_val x), numchan (relem_val x), txpower (relem_val x))) v' =
   map (\<lambda>x. (startchan (relem_val x), numchan (relem_val x), txpower (relem_val x))) v"
  by (auto simp: advertised_ssid_reserve_fields_def list_all_iff)

theorem advertised_ssid_restore_retypes_ranges_witness:
  "list_all (\<lambda>x. relem_typed x \<and> tracker_id (relem_val x) = 7)
     (the (advertised_ssid_reserve_fields 7
        (Some (Some [Generic (dot11_11d_tracked_range_info_new 3), Typed (dot11_11d_tracked_range_info_new 4)]))))"
proof -
  have "advertised_ssid_reserve_fields 7
      (Some (Some [Generic (dot11_11d_tracked_range_info_new 3), Typed (dot11_11d_tracked_range_info_new 4)])) =
    Some (the (advertised_ssid_reserve_fields 7
      (Some (Some [Generic (dot11_11d_tracked_range_info_new 3), Typed (dot11_11d_tracked_range_info_new 4)]))))"
    by (simp add: advertised_ssid_reserve_fields_def)
  then show ?thesis using advertised_ssid_restore_retypes_ranges by blast
qed

subsection \<open>The iterator loops of the restore path\<close>

text \<open>C26. The iterator loop that \<^verbatim>\<open>reserve_fields\<close> runs over each handshake
  vector, with its body re-typing the element under the iterator, stops for every
  stored vector: it reaches \<^verbatim>\<open>end()\<close> after exactly as many iterations as the
  vector has elements, and the vector it leaves has every element re-typed in place
  with the collection's entry id, as \<open>map\<close> would.\<close>

theorem vector_loop_terminates:
  "vec_iter_loop (relem_retype i) v = Some (length v, vec_for_each_ref (relem_retype i) v) \<and>
   vec_for_each_ref (relem_retype i) v = map (relem_retype i) v"
  by (simp add: vec_iter_loop_Some del: relem_retype_eq)

subsection \<open>Snapshot progress\<close>

text \<open>C27. A standing beacon-snapshot request is served by the first beacon frame
  that follows it: if the request is set, nothing has been captured, and no
  operation before that frame withdraws the request, the run ends with exactly that
  frame captured.\<close>

theorem beacon_request_served:
  assumes "snapshot_next_beacon d" and "ssid_beacon_packet d = None"
    and "\<not> list_ex beacon_frame_op pre" and "\<not> list_ex cancels_snapshot pre"
  shows "ssid_beacon_packet (dev_run (pre @ Op_snapshot_beacon p # post) d) = Some p"
proof -
  from dev_run_beacon_pending [OF assms]
  have "get_snap_next_beacon (dev_run pre d)" by (simp add: get_snap_next_beacon_def)
  then have "ssid_beacon_packet (dev_step (Op_snapshot_beacon p) (dev_run pre d)) = Some p"
    by (simp add: snapshot_beacon_def set_ssid_beacon_packet_def)
  then show ?thesis by (simp add: dev_run_beacon_kept)
qed

theorem beacon_request_served_witness:
  "ssid_beacon_packet (dev_run ([Op_update_client 5 id, Op_eapol False (ex_key 1)] @
      Op_snapshot_beacon ex_beacon # [Op_snapshot_beacon kis_tracked_packet_new])
      (set_snap_next_beacon True ex_device)) = Some ex_beacon"
  by (rule beacon_request_served)
     (simp_all add: set_snap_next_beacon_def ex_device_def dot11_tracked_device_new_def)

text \<open>C28. Capture of a PMKID-bearing frame needs no request: in any run that
  contains one, starting from a device without a captured PMKID frame, the first
  such frame of the run is the one captured at its end.\<close>

theorem first_pmkid_frame_captured:
  assumes "pmkid_packet d = None" and "\<not> list_ex pmkid_frame_op pre"
  shows "pmkid_packet (dev_run (pre @ Op_snapshot_pmkid p # post) d) = Some p"
proof -
  from assms have "get_pmkid_needed (dev_run pre d)"
    by (simp add: dev_run_no_pmkid_frame get_pmkid_needed_def)
  then have "pmkid_packet (dev_step (Op_snapshot_pmkid p) (dev_run pre d)) = Some p"
    by (simp add: snapshot_pmkid_def set_pmkid_packet_def)
  then show ?thesis by (simp add: dev_run_pmkid_kept)
qed

theorem first_pmkid_frame_captured_witness:
  "pmkid_packet (dev_run ([Op_snapshot_beacon ex_beacon] @
      Op_snapshot_pmkid ex_beacon # [Op_snapshot_pmkid kis_tracked_packet_new]) ex_device) =
   Some ex_beacon"
  by (rule first_pmkid_frame_captured) (simp_all add: ex_device_def dot11_tracked_device_new_def)


text \<open>C29. The optional fields behave as lazily materialised fields: on a freshly
  constructed advertised SSID or device every optional field is absent, and reading
  any of them through its getter makes it present with the type's default value
  although nothing was observed; on any record a read leaves the field present,
  holding the value the read returned, and a second read returns the same value and
  record.\<close>

theorem optional_read_materialises:
  "owe_ssid (dot11_advertised_ssid_new i) = None \<and>
   owe_ssid (snd (adv_get_owe_ssid (dot11_advertised_ssid_new i))) = Some [] \<and>
   owe_ssid_len (dot11_advertised_ssid_new i) = None \<and>
   owe_ssid_len (snd (adv_get_owe_ssid_len (dot11_advertised_ssid_new i))) = Some 0 \<and>
   owe_bssid (dot11_advertised_ssid_new i) = None \<and>
   owe_bssid (snd (adv_get_owe_bssid (dot11_advertised_ssid_new i))) = Some 0 \<and>
   beacon_info (dot11_advertised_ssid_new i) = None \<and>
   beacon_info (snd (adv_get_beacon_info (dot11_advertised_ssid_new i))) = Some [] \<and>
   dot11d_country (dot11_advertised_ssid_new i) = None \<and>
   dot11d_country (snd (adv_get_dot11d_country (dot11_advertised_ssid_new i))) = Some [] \<and>
   dot11_advertised_ssid.wps_state (dot11_advertised_ssid_new i) = None \<and>
   dot11_advertised_ssid.wps_state (snd (adv_get_wps_state (dot11_advertised_ssid_new i))) = Some 0 \<and>
   dot11_advertised_ssid.wps_manuf (dot11_advertised_ssid_new i) = None \<and>
   dot11_advertised_ssid.wps_manuf (snd (adv_get_wps_manuf (dot11_advertised_ssid_new i))) = Some [] \<and>
   dot11_advertised_ssid.wps_device_name (dot11_advertised_ssid_new i) = None \<and>
   dot11_advertised_ssid.wps_device_name (snd (adv_get_wps_device_name (dot11_advertised_ssid_new i))) = Some [] \<and>
   dot11_advertised_ssid.wps_model_name (dot11_advertised_ssid_new i) = None \<and>
   dot11_advertised_ssid.wps_model_name (snd (adv_get_wps_model_name (dot11_advertised_ssid_new i))) = Some [] \<and>
   dot11_advertised_ssid.wps_model_number (dot11_advertised_ssid_new i) = None \<and>
   dot11_advertised_ssid.wps_model_number (snd (adv_get_wps_model_number (dot11_advertised_ssid_new i))) = Some [] \<and>
   dot11_advertised_ssid.wps_serial_number (dot11_advertised_ssid_new i) = None \<and>
   dot11_advertised_ssid.wps_serial_number (snd (adv_get_wps_serial_number (dot11_advertised_ssid_new i))) = Some [] \<and>
   dot11_advertised_ssid.wps_uuid_e (dot11_advertised_ssid_new i) = None \<and>
   dot11_advertised_ssid.wps_uuid_e (snd (adv_get_wps_uuid_e (dot11_advertised_ssid_new i))) = Some [] \<and>
   dot11_advertised_ssid.ie_tag_list (dot11_advertised_ssid_new i) = None \<and>
   dot11_advertised_ssid.ie_tag_list (snd (adv_get_ie_tag_list (dot11_advertised_ssid_new i))) = Some [] \<and>
   supported_channels (dot11_tracked_device_new j ids) = None \<and>
   supported_channels (snd (get_supported_channels (dot11_tracked_device_new j ids))) = Some [] \<and>
   extended_capabilities_list (dot11_tracked_device_new j ids) = None \<and>
   extended_capabilities_list (snd (get_extended_capabilities_list (dot11_tracked_device_new j ids))) = Some [] \<and>
   owe_ssid (snd (adv_get_owe_ssid a)) = Some (fst (adv_get_owe_ssid a)) \<and> adv_get_owe_ssid (snd (adv_get_owe_ssid a)) = adv_get_owe_ssid a \<and>
   owe_ssid_len (snd (adv_get_owe_ssid_len a)) = Some (fst (adv_get_owe_ssid_len a)) \<and> adv_get_owe_ssid_len (snd (adv_get_owe_ssid_len a)) = adv_get_owe_ssid_len a \<and>
   owe_bssid (snd (adv_get_owe_bssid a)) = Some (fst (adv_get_owe_bssid a)) \<and> adv_get_owe_bssid (snd (adv_get_owe_bssid a)) = adv_get_owe_bssid a \<and>
   beacon_info (snd (adv_get_beacon_info a)) = Some (fst (adv_get_beacon_info a)) \<and> adv_get_beacon_info (snd (adv_get_beacon_info a)) = adv_get_beacon_info a \<and>
   dot11d_country (snd (adv_get_dot11d_country a)) = Some (fst (adv_get_dot11d_country a)) \<and> adv_get_dot11d_country (snd (adv_get_dot11d_country a)) = adv_get_dot11d_country a \<and>
   dot11_advertised_ssid.wps_state (snd (adv_get_wps_state a)) = Some (fst (adv_get_wps_state a)) \<and> adv_get_wps_state (snd (adv_get_wps_state a)) = adv_get_wps_state a \<and>
   dot11_advertised_ssid.wps_manuf (snd (adv_get_wps_manuf a)) = Some (fst (adv_get_wps_manuf a)) \<and> adv_get_wps_manuf (snd (adv_get_wps_manuf a)) = adv_get_wps_manuf a \<and>
   dot11_advertised_ssid.wps_device_name (snd (adv_get_wps_device_name a)) = Some (fst (adv_get_wps_device_name a)) \<and> adv_get_wps_device_name (snd (adv_get_wps_device_name a)) = adv_get_wps_device_name a \<and>
   dot11_advertised_ssid.wps_model_name (snd (adv_get_wps_model_name a)) = Some (fst (adv_get_wps_model_name a)) \<and> adv_get_wps_model_name (snd (adv_get_wps_model_name a)) = adv_get_wps_model_name a \<and>
   dot11_advertised_ssid.wps_model_number (snd (adv_get_wps_model_number a)) = Some (fst (adv_get_wps_model_number a)) \<and> adv_get_wps_model_number (snd (adv_get_wps_model_number a)) = adv_get_wps_model_number a \<and>
   dot11_advertised_ssid.wps_serial_number (snd (adv_get_wps_serial_number a)) = Some (fst (adv_get_wps_serial_number a)) \<and> adv_get_wps_serial_number (snd (adv_get_wps_serial_number a)) = adv_get_wps_serial_number a \<and>
   dot11_advertised_ssid.wps_uuid_e (snd (adv_get_wps_uuid_e a)) = Some (fst (adv_get_wps_uuid_e a)) \<and> adv_get_wps_uuid_e (snd (adv_get_wps_uuid_e a)) = adv_get_wps_uuid_e a \<and>
   dot11_advertised_ssid.ie_tag_list (snd (adv_get_ie_tag_list a)) = Some (fst (adv_get_ie_tag_list a)) \<and> adv_get_ie_tag_list (snd (adv_get_ie_tag_list a)) = adv_get_ie_tag_list a \<and>
   supported_channels (snd (get_supported_channels d)) = Some (fst (get_supported_channels d)) \<and> get_supported_channels (snd (get_supported_channels d)) = get_supported_channels d \<and>
   extended_capabilities_list (snd (get_extended_capabilities_list d)) = Some (fst (get_extended_capabilities_list d)) \<and> get_extended_capabilities_list (snd (get_extended_capabilities_list d)) = get_extended_capabilities_list d"
  by (simp add: adv_dyn_get_defs dev_dyn_get_defs proxy_dyn_get_def dot11_advertised_ssid_new_def
      dot11_tracked_device_new_def Let_def)

text \<open>C30. The order in which key messages arrive does not matter to the handshake
  state: two runs of the capture path whose key messages (with their directions) are
  the same multiset leave the same handshake bitmask and M3 counter, and key and
  nonce histories that are permutations of each other; only the order inside the
  histories records the order of arrival.\<close>

theorem eapol_order_irrelevant:
  assumes "mset xs = mset ys"
  shows "wpa_present_handshake (dev_run (eapol_ops xs) d) =
           wpa_present_handshake (dev_run (eapol_ops ys) d) \<and>
         wps_m3_count (dev_run (eapol_ops xs) d) = wps_m3_count (dev_run (eapol_ops ys) d) \<and>
         mset (materialize [] (wpa_key_vec (dev_run (eapol_ops xs) d))) =
           mset (materialize [] (wpa_key_vec (dev_run (eapol_ops ys) d))) \<and>
         mset (materialize [] (wpa_nonce_vec (dev_run (eapol_ops xs) d))) =
           mset (materialize [] (wpa_nonce_vec (dev_run (eapol_ops ys) d))) \<and>
         mset (materialize [] (wpa_anonce_vec (dev_run (eapol_ops xs) d))) =
           mset (materialize [] (wpa_anonce_vec (dev_run (eapol_ops ys) d)))"
proof -
  have set: "set xs = set ys" and nil: "xs = [] \<longleftrightarrow> ys = []"
    using assms by (metis set_mset_mset, metis mset_zero_iff)
  have "handshake_mask (materialize [] (wpa_key_vec d) @ map snd xs) =
        handshake_mask (materialize [] (wpa_key_vec d) @ map snd ys)"
    by (rule handshake_mask_set_eq) (simp add: set)
  then show ?thesis
    using assms nil dev_run_eapol [of xs d] dev_run_eapol [of ys d]
      mset_eq_filter_map_length [OF assms, of "\<lambda>k. dot11_tracked_eapol.eapol_msg_num k = 3" snd]
    by (simp add: mset_map mset_filter)
qed

theorem eapol_order_irrelevant_witness:
  "wpa_present_handshake (dev_run (eapol_ops [(False, ex_key 1), (True, ex_key 3)]) ex_device) =
   wpa_present_handshake (dev_run (eapol_ops [(True, ex_key 3), (False, ex_key 1)]) ex_device)"
  using eapol_order_irrelevant [of "[(False, ex_key 1), (True, ex_key 3)]"
      "[(True, ex_key 3), (False, ex_key 1)]" ex_device]
  by simp

text \<open>C31. Cloning through the virtual \<^verbatim>\<open>clone_type\<close> yields an element of the
  same class, so the copy has the source's signature and passes a reader's signature
  check against a record stored from the source; it keeps the element id for every
  class except the IE tag, whose copy takes the framework's default id.\<close>

theorem clone_type_keeps_class:
  "elem_class (clone_type e) = elem_class e \<and>
   elem_signature ck (clone_type e) = elem_signature ck e \<and>
   check_signature ck (elem_class (clone_type e)) (store_record ck (elem_class e) fs) = Inr fs \<and>
   elem_id (clone_type e) =
     (if elem_class e = Cls_ietag then tracker_component_default_id else elem_id e)"
  by (cases e) (simp_all add: clone_type_defs record_clone_defs elem_signature_def check_signature_def
      store_record_def)

subsection \<open>Schema signatures\<close>

text \<open>C32. A reader's signature check accepts a stored record exactly when it was
  stored by the class the reader expects, provided the checksum separates the nine
  class names, and it accepts it whatever field registrations were stored with it:
  the signature is computed from the class name alone, so a stored record whose
  schema differs from the reader's passes the check.\<close>

theorem schema_check_by_class_only:
  assumes "inj_on ck {''dot11_tracked_eapol'', ''dot11_tracked_nonce'', ''dot11_tracked_ssid_alert'',
     ''dot11_11d_tracked_range_info'', ''dot11_tracked_ietag'', ''dot11_probed_ssid'',
     ''dot11_advertised_ssid'', ''dot11_client'', ''dot11_tracked_device''}"
  shows "check_signature ck c (store_record ck c' fs) =
           (if c = c' then Inr fs else Inl Err_schema_mismatch)"
proof -
  note e = inj_on_eq_iff [OF assms]
  have "get_signature ck c = get_signature ck c' \<longleftrightarrow> c = c'"
    by (cases c; cases c') (simp_all add: e signature_defs)
  then show ?thesis by (auto simp add: check_signature_def store_record_def)
qed

theorem schema_check_by_class_only_witness:
  "check_signature ex_checksum Cls_device (store_record ex_checksum Cls_device []) = Inr [] \<and>
   check_signature ex_checksum Cls_client (store_record ex_checksum Cls_device []) =
     Inl Err_schema_mismatch"
  using schema_check_by_class_only [of ex_checksum Cls_device Cls_device "[]"]
        schema_check_by_class_only [of ex_checksum Cls_client Cls_device "[]"]
  by (simp add: ex_checksum_def)

end
